theory Spec2Isabelle
  imports Main "HOL-Library.Sublist"
begin

section \<open>JSON values and the JavaScript operators the server uses\<close>

text \<open>
  Tool arguments, remote envelopes and shaped results are JSON values. \<open>JUndefined\<close> is
  what reading a missing property gives. Numbers are modelled as integers (the tool schemas
  declare every numeric parameter as integer); strings are byte strings.
\<close>

datatype jsval =
    JUndefined
  | JNull
  | JBool bool
  | JNum int
  | JStr string
  | JArr "jsval list"
  | JObj "(string \<times> jsval) list"

type_synonym jsobject = "(string \<times> jsval) list"

text \<open>Truthiness, as \<open>if (v)\<close>, \<open>!v\<close>, \<open>a || b\<close> and \<open>a && b\<close> test it.\<close>

fun truthy :: "jsval \<Rightarrow> bool" where
  "truthy JUndefined = False"
| "truthy JNull = False"
| "truthy (JBool b) = b"
| "truthy (JNum n) = (n \<noteq> 0)"
| "truthy (JStr s) = (s \<noteq> [])"
| "truthy (JArr xs) = True"
| "truthy (JObj kvs) = True"

definition js_or :: "jsval \<Rightarrow> jsval \<Rightarrow> jsval" where
  "js_or a b = (if truthy a then a else b)"

definition js_and :: "jsval \<Rightarrow> jsval \<Rightarrow> jsval" where
  "js_and a b = (if truthy a then b else a)"

definition nullish :: "jsval \<Rightarrow> bool" where
  "nullish v = (v = JUndefined \<or> v = JNull)"

text \<open>\<open>obj.k\<close> on an object: the value stored under \<open>k\<close>, or undefined.\<close>

definition field :: "jsobject \<Rightarrow> string \<Rightarrow> jsval" where
  "field obj k = (case map_of obj k of Some v \<Rightarrow> v | None \<Rightarrow> JUndefined)"

text \<open>
  \<open>v?.k\<close>: undefined when \<open>v\<close> is null or undefined, otherwise the property. Of the
  property names the server reads, primitives and arrays have only \<open>length\<close> (on strings
  and arrays). \<open>v.k\<close> has the same value whenever \<open>v\<close> is neither null nor undefined.
\<close>

fun prop_of :: "jsval \<Rightarrow> string \<Rightarrow> jsval" where
  "prop_of (JObj obj) k = field obj k"
| "prop_of (JArr xs) k = (if k = ''length'' then JNum (int (length xs)) else JUndefined)"
| "prop_of (JStr s) k = (if k = ''length'' then JNum (int (length s)) else JUndefined)"
| "prop_of v k = JUndefined"

text \<open>\<open>v?.[0]\<close>.\<close>

fun index0 :: "jsval \<Rightarrow> jsval" where
  "index0 (JArr xs) = (case xs of [] \<Rightarrow> JUndefined | x # _ \<Rightarrow> x)"
| "index0 (JStr s) = (case s of [] \<Rightarrow> JUndefined | c # _ \<Rightarrow> JStr [c])"
| "index0 (JObj obj) = field obj ''0''"
| "index0 v = JUndefined"

subsection \<open>Conversion to string, as a template literal does\<close>

definition digit_char :: "nat \<Rightarrow> char" where
  "digit_char d = ''0123456789'' ! (d mod 10)"

fun show_nat :: "nat \<Rightarrow> string" where
  "show_nat n = (if n < 10 then [digit_char n] else show_nat (n div 10) @ [digit_char n])"

declare show_nat.simps [simp del]

definition show_int :: "int \<Rightarrow> string" where
  "show_int i = (if i < 0 then CHR ''-'' # show_nat (nat (- i)) else show_nat (nat i))"

fun join_comma :: "string list \<Rightarrow> string" where
  "join_comma [] = []"
| "join_comma [s] = s"
| "join_comma (s # t # ss) = s @ '','' @ join_comma (t # ss)"

fun js_string :: "jsval \<Rightarrow> string" where
  "js_string JUndefined = ''undefined''"
| "js_string JNull = ''null''"
| "js_string (JBool b) = (if b then ''true'' else ''false'')"
| "js_string (JNum n) = show_int n"
| "js_string (JStr s) = s"
| "js_string (JArr xs) =
     join_comma (map (\<lambda>x. if x = JUndefined \<or> x = JNull then [] else js_string x) xs)"
| "js_string (JObj kvs) = ''[object Object]''"

subsection \<open>Errors\<close>

datatype error_code = ParseError | InvalidRequest | MethodNotFound | InvalidParams | InternalError

text \<open>
  What a \<open>throw\<close> carries: an \<open>McpError\<close> with its code and message, any other
  \<open>Error\<close> (a \<open>TypeError\<close> of the runtime included) with its message, or a value that
  is not an \<open>Error\<close>.
\<close>

datatype exn = McpError error_code string | Error string | NonError

definition bind :: "exn + 'a \<Rightarrow> ('a \<Rightarrow> exn + 'b) \<Rightarrow> exn + 'b" where
  "bind m k = (case m of Inl e \<Rightarrow> Inl e | Inr v \<Rightarrow> k v)"

text \<open>
  \<open>v.k\<close> where \<open>v\<close> may be null or undefined: the runtime throws a \<open>TypeError\<close>
  (the wording of its message is the engine's).
\<close>

definition js_get :: "jsval \<Rightarrow> string \<Rightarrow> exn + jsval" where
  "js_get v k =
     (if nullish v
      then Inl (Error (''Cannot read properties of '' @ js_string v @ '' (reading '' @ k @ '')''))
      else Inr (prop_of v k))"

text \<open>The receiver of \<open>.map\<close> or \<open>.find\<close>: anything but an array has no such method.\<close>

definition as_array :: "jsval \<Rightarrow> string \<Rightarrow> exn + jsval list" where
  "as_array v m = (case v of JArr xs \<Rightarrow> Inr xs | _ \<Rightarrow> Inl (Error (m @ '' is not a function'')))"

fun map_e :: "('a \<Rightarrow> exn + 'b) \<Rightarrow> 'a list \<Rightarrow> exn + 'b list" where
  "map_e f [] = Inr []"
| "map_e f (x # xs) =
     (case f x of Inl e \<Rightarrow> Inl e
      | Inr y \<Rightarrow> (case map_e f xs of Inl e \<Rightarrow> Inl e | Inr ys \<Rightarrow> Inr (y # ys)))"

fun find_e :: "(jsval \<Rightarrow> exn + jsval) \<Rightarrow> jsval list \<Rightarrow> exn + jsval" where
  "find_e p [] = Inr JUndefined"
| "find_e p (x # xs) =
     (case p x of Inl e \<Rightarrow> Inl e
      | Inr b \<Rightarrow> if truthy b then Inr x else find_e p xs)"

section \<open>The environment of a call\<close>

text \<open>
  The world outside the server: the remote API behind the HTTP client, the file system, the
  clock, and the library and runtime functions the server calls but does not define
  (\<open>encode\<close> of the TOON package, \<open>JSON.stringify\<close>, and the conversion of a string
  to a number, here with 0 where the runtime gives NaN).
\<close>

record http_request =
  req_endpoint :: string
  req_headers :: "(string \<times> string) list"
  req_params :: jsobject

text \<open>
  A rejected HTTP call: an Axios error with its \<open>response\<close> (undefined when there is
  none) and its own message, or anything else thrown.
\<close>

datatype http_failure = AxiosError jsval string | OtherFailure exn

record env =
  apiKey :: string
  http_get :: "http_request \<Rightarrow> http_failure + jsval"
  existsSync :: "jsval \<Rightarrow> bool"
  mkdirSync :: "jsval \<Rightarrow> string option"
  path_join :: "jsval \<Rightarrow> string \<Rightarrow> string + string"
  writeFileSync :: "string \<Rightarrow> string \<Rightarrow> string option"
  now_iso :: string
  json_stringify :: "jsval \<Rightarrow> string"
  toon_encode :: "jsval \<Rightarrow> string"
  string_to_number :: "string \<Rightarrow> int"

subsection \<open>Numeric coercion, slicing, trimming\<close>

text \<open>The number a value is coerced to where the code compares it or passes it to \<open>slice\<close>.\<close>

fun to_number :: "env \<Rightarrow> jsval \<Rightarrow> int" where
  "to_number env (JNum n) = n"
| "to_number env (JBool b) = (if b then 1 else 0)"
| "to_number env JNull = 0"
| "to_number env JUndefined = 0"
| "to_number env v = string_to_number env (js_string v)"

text \<open>\<open>xs.slice(0, e)\<close>: a negative end counts from the end of the list.\<close>

definition slice0 :: "'a list \<Rightarrow> int \<Rightarrow> 'a list" where
  "slice0 xs e = (if e < 0 then take (nat (int (length xs) + e)) xs else take (nat e) xs)"

definition is_space :: "char \<Rightarrow> bool" where
  "is_space c = (c \<in> set [CHR 0x09, CHR 0x0A, CHR 0x0B, CHR 0x0C, CHR 0x0D, CHR 0x20])"

definition trim :: "string \<Rightarrow> string" where
  "trim s = rev (dropWhile is_space (rev (dropWhile is_space s)))"

text \<open>\<open>s.replace(/^-|-$/g, '')\<close>: one leading and one trailing dash are removed.\<close>

definition strip_dashes :: "string \<Rightarrow> string" where
  "strip_dashes s =
     (let t = (case s of c # cs \<Rightarrow> if c = CHR ''-'' then cs else s | [] \<Rightarrow> [])
      in if t \<noteq> [] \<and> last t = CHR ''-'' then butlast t else t)"

section \<open>Data cleaners\<close>

text \<open>
  Each cleaner returns null for a falsy raw value and otherwise builds the shaped object.
  After the guard \<open>raw\<close> is not null or undefined, so its property reads cannot throw;
  the callbacks of \<open>map\<close> and \<open>find\<close> read their element unguarded and can.
\<close>

definition clean_experience :: "jsval \<Rightarrow> exn + jsval" where
  "clean_experience e =
     bind (js_get e ''position'') (\<lambda>position.
       Inr (JObj
         [(''position'', position),
          (''company'', prop_of e ''companyName''),
          (''location'', prop_of e ''location''),
          (''duration'', prop_of e ''duration''),
          (''startDate'', prop_of (prop_of e ''startDate'') ''text''),
          (''endDate'', prop_of (prop_of e ''endDate'') ''text''),
          (''description'', prop_of e ''description'')]))"

definition clean_education :: "jsval \<Rightarrow> exn + jsval" where
  "clean_education e =
     bind (js_get e ''schoolName'') (\<lambda>schoolName.
       Inr (JObj
         [(''school'', js_or schoolName (prop_of e ''title'')),
          (''degree'', prop_of e ''degree''),
          (''field'', prop_of e ''fieldOfStudy''),
          (''period'',
             js_or (prop_of e ''period'')
               (JStr (strip_dashes
                  (js_string (js_or (prop_of (prop_of e ''startDate'') ''year'') (JStr []))
                   @ ''-''
                   @ js_string (js_or (prop_of (prop_of e ''endDate'') ''year'') (JStr []))))))]))"

definition clean_skill :: "jsval \<Rightarrow> exn + jsval" where
  "clean_skill s = js_get s ''name''"

definition clean_certification :: "jsval \<Rightarrow> exn + jsval" where
  "clean_certification c =
     bind (js_get c ''title'') (\<lambda>title.
       Inr (JObj
         [(''title'', title),
          (''issuedBy'', prop_of c ''issuedBy''),
          (''issuedAt'', prop_of c ''issuedAt'')]))"

text \<open>\<open>(v || []).map(f)\<close>.\<close>

definition map_or_empty :: "(jsval \<Rightarrow> exn + jsval) \<Rightarrow> jsval \<Rightarrow> exn + jsval" where
  "map_or_empty f v =
     bind (as_array (js_or v (JArr [])) ''map'') (\<lambda>xs.
     bind (map_e f xs) (\<lambda>ys. Inr (JArr ys)))"

definition cleanProfile :: "jsval \<Rightarrow> exn + jsval" where
  "cleanProfile raw =
     (if \<not> truthy raw then Inr JNull
      else
        bind (map_or_empty clean_experience (prop_of raw ''experience'')) (\<lambda>exp.
        bind (map_or_empty clean_education (prop_of raw ''education'')) (\<lambda>edu.
        bind (map_or_empty clean_skill (prop_of raw ''skills'')) (\<lambda>skills.
        bind (map_or_empty clean_certification (prop_of raw ''certifications'')) (\<lambda>certs.
        Inr (JObj
          [(''id'', prop_of raw ''id''),
           (''publicIdentifier'', prop_of raw ''publicIdentifier''),
           (''linkedinUrl'', prop_of raw ''linkedinUrl''),
           (''name'',
              JStr (trim (js_string (js_or (prop_of raw ''firstName'') (JStr []))
                          @ '' ''
                          @ js_string (js_or (prop_of raw ''lastName'') (JStr []))))),
           (''headline'', prop_of raw ''headline''),
           (''about'', prop_of raw ''about''),
           (''location'', prop_of (prop_of raw ''location'') ''linkedinText''),
           (''photo'',
              js_or (prop_of raw ''photo'') (prop_of (prop_of raw ''profilePicture'') ''url'')),
           (''premium'', prop_of raw ''premium''),
           (''influencer'', prop_of raw ''influencer''),
           (''verified'', prop_of raw ''verified''),
           (''openToWork'', prop_of raw ''openToWork''),
           (''hiring'', prop_of raw ''hiring''),
           (''connections'', prop_of raw ''connectionsCount''),
           (''followers'', prop_of raw ''followerCount''),
           (''experience'', exp),
           (''education'', edu),
           (''skills'', skills),
           (''certifications'', certs)]))))))"

definition cleanProfileSearchResult :: "jsval \<Rightarrow> jsval" where
  "cleanProfileSearchResult raw =
     (if \<not> truthy raw then JNull
      else JObj
        [(''id'', prop_of raw ''id''),
         (''name'', prop_of raw ''name''),
         (''position'', prop_of raw ''position''),
         (''location'', prop_of (prop_of raw ''location'') ''linkedinText''),
         (''linkedinUrl'', prop_of raw ''linkedinUrl''),
         (''publicIdentifier'', prop_of raw ''publicIdentifier'')])"

text \<open>
  The headquarters entry of \<open>cleanCompany\<close>:
  \<open>(raw.locations || []).find((l) => l.headquarter) || raw.locations?.[0]\<close>.
\<close>

definition company_hq :: "jsval \<Rightarrow> exn + jsval" where
  "company_hq raw =
     bind (as_array (js_or (prop_of raw ''locations'') (JArr [])) ''find'') (\<lambda>ls.
     bind (find_e (\<lambda>l. js_get l ''headquarter'') ls) (\<lambda>found.
     Inr (js_or found (index0 (prop_of raw ''locations'')))))"

definition cleanCompany :: "jsval \<Rightarrow> exn + jsval" where
  "cleanCompany raw =
     (if \<not> truthy raw then Inr JNull
      else
        bind (company_hq raw) (\<lambda>hq.
        Inr (JObj
          [(''id'', prop_of raw ''id''),
           (''universalName'', prop_of raw ''universalName''),
           (''linkedinUrl'', prop_of raw ''linkedinUrl''),
           (''name'', prop_of raw ''name''),
           (''website'', prop_of raw ''website''),
           (''logo'', prop_of raw ''logo''),
           (''description'', prop_of raw ''description''),
           (''employeeCount'', prop_of raw ''employeeCount''),
           (''followers'', prop_of raw ''followerCount''),
           (''headquarter'',
              js_or (prop_of (prop_of hq ''parsed'') ''text'') (prop_of hq ''city''))])))"

text \<open>
  The salary of \<open>cleanJob\<close>:
  \<open>raw.salary?.text || (raw.salary?.min && raw.salary?.max ? `${min}-${max} ${currency || ''}` : null)\<close>.
\<close>

definition job_salary :: "jsval \<Rightarrow> jsval" where
  "job_salary raw =
     (let salary = prop_of raw ''salary'' in
      js_or (prop_of salary ''text'')
        (if truthy (js_and (prop_of salary ''min'') (prop_of salary ''max''))
         then JStr (js_string (prop_of salary ''min'') @ ''-'' @ js_string (prop_of salary ''max'')
                    @ '' '' @ js_string (js_or (prop_of salary ''currency'') (JStr [])))
         else JNull))"

definition cleanJob :: "jsval \<Rightarrow> jsval" where
  "cleanJob raw =
     (if \<not> truthy raw then JNull
      else JObj
        [(''id'', prop_of raw ''id''),
         (''title'', prop_of raw ''title''),
         (''linkedinUrl'', js_or (prop_of raw ''linkedinUrl'') (prop_of raw ''url'')),
         (''state'', prop_of raw ''jobState''),
         (''postedDate'', prop_of raw ''postedDate''),
         (''location'', prop_of (prop_of raw ''location'') ''linkedinText''),
         (''company'', js_or (prop_of (prop_of raw ''company'') ''name'') (prop_of raw ''companyName'')),
         (''companyUrl'',
            js_or (prop_of (prop_of raw ''company'') ''linkedinUrl'') (prop_of raw ''companyLink'')),
         (''salary'', job_salary raw),
         (''employmentType'', prop_of raw ''employmentType''),
         (''workplaceType'', prop_of raw ''workplaceType''),
         (''easyApply'', prop_of raw ''easyApply''),
         (''description'', prop_of raw ''descriptionText'')])"

definition cleanJobSearchResult :: "jsval \<Rightarrow> jsval" where
  "cleanJobSearchResult raw =
     (if \<not> truthy raw then JNull
      else JObj
        [(''id'', prop_of raw ''id''),
         (''title'', prop_of raw ''title''),
         (''url'', prop_of raw ''url''),
         (''postedDate'', prop_of raw ''postedDate''),
         (''company'', prop_of (prop_of raw ''company'') ''name''),
         (''location'', prop_of (prop_of raw ''location'') ''linkedinText''),
         (''easyApply'', prop_of raw ''easyApply'')])"

definition cleanPost :: "env \<Rightarrow> jsval \<Rightarrow> jsval" where
  "cleanPost env raw =
     (if \<not> truthy raw then JNull
      else JObj
        [(''id'', prop_of raw ''id''),
         (''linkedinUrl'', prop_of raw ''linkedinUrl''),
         (''content'', prop_of raw ''content''),
         (''authorName'', prop_of (prop_of raw ''author'') ''name''),
         (''authorType'', prop_of (prop_of raw ''author'') ''type''),
         (''postedAgo'',
            js_or (prop_of (prop_of raw ''postedAt'') ''postedAgoText'')
                  (prop_of (prop_of raw ''postedAt'') ''postedAgoShort'')),
         (''likes'', prop_of (prop_of raw ''engagement'') ''likes''),
         (''comments'', prop_of (prop_of raw ''engagement'') ''comments''),
         (''shares'', prop_of (prop_of raw ''engagement'') ''shares''),
         (''hasVideo'', JBool (truthy (prop_of raw ''postVideo''))),
         (''hasImages'',
            JBool (0 < to_number env
                         (js_or (prop_of (prop_of raw ''postImages'') ''length'') (JNum 0))))])"

definition cleanGroup :: "jsval \<Rightarrow> jsval" where
  "cleanGroup raw =
     (if \<not> truthy raw then JNull
      else JObj
        [(''id'', prop_of raw ''id''),
         (''linkedinUrl'', prop_of raw ''linkedinUrl''),
         (''name'', prop_of raw ''name''),
         (''members'', js_or (prop_of raw ''members'') (prop_of raw ''memberCount'')),
         (''summary'', js_or (prop_of raw ''summary'') (prop_of raw ''description''))])"

definition cleanGeoId :: "jsval \<Rightarrow> jsval" where
  "cleanGeoId raw =
     (if \<not> truthy raw then JNull
      else JObj [(''geoId'', prop_of raw ''geoId''), (''title'', prop_of raw ''title'')])"

definition cleanComment :: "jsval \<Rightarrow> jsval" where
  "cleanComment raw =
     (if \<not> truthy raw then JNull
      else JObj
        [(''id'', prop_of raw ''id''),
         (''content'', prop_of raw ''content''),
         (''authorName'', prop_of (prop_of raw ''author'') ''name''),
         (''postedAgo'', prop_of (prop_of raw ''postedAt'') ''postedAgoText''),
         (''likes'', prop_of (prop_of raw ''engagement'') ''likes'')])"

definition cleanReaction :: "jsval \<Rightarrow> jsval" where
  "cleanReaction raw =
     (if \<not> truthy raw then JNull
      else JObj
        [(''name'', prop_of raw ''name''),
         (''headline'', prop_of raw ''headline''),
         (''reactionType'', prop_of raw ''reactionType''),
         (''linkedinUrl'', prop_of raw ''linkedinUrl'')])"

section \<open>The remote call\<close>

text \<open>
  \<open>makeRequest\<close> sends one GET request and returns the reply's body, or throws. The model
  returns the request together with the result, so that a caller's outcome records every
  request that was made.
\<close>

definition makeRequest :: "env \<Rightarrow> string \<Rightarrow> jsobject \<Rightarrow> http_request \<times> (exn + jsval)" where
  "makeRequest env ep ps =
     (let config = \<lparr>req_endpoint = ep,
                    req_headers = (if apiKey env \<noteq> [] then [(''X-API-Key'', apiKey env)] else []),
                    req_params = ps\<rparr>
      in (config,
          case http_get env config of
            Inr data \<Rightarrow> Inr data
          | Inl (AxiosError response msg) \<Rightarrow>
              (let statusCode = js_or (prop_of response ''status'') (JNum 500);
                   errorMessage =
                     js_or (js_or (prop_of (prop_of response ''data'') ''message'')
                                  (prop_of (prop_of response ''data'') ''error''))
                           (JStr msg)
               in Inl (Error (''HarvestAPI error ('' @ js_string statusCode @ ''): ''
                              @ js_string errorMessage)))
          | Inl (OtherFailure e) \<Rightarrow> Inl e))"

section \<open>Formatting and saving the reply\<close>

datatype content_item = TextContent string

record CallToolResult =
  content :: "content_item list"

text \<open>
  \<open>saveData\<close> returns the path of the file it wrote, or the text \<open>Error saving: e\<close> for
  whatever \<open>e\<close> one of its steps threw. The file-system calls are modelled by their
  results: \<open>Some e\<close> (or \<open>Inl e\<close>) is a throw whose string form is \<open>e\<close>.
\<close>

definition saveData :: "env \<Rightarrow> jsval \<Rightarrow> jsval \<Rightarrow> string \<Rightarrow> string" where
  "saveData env data dir tool =
     (case (if existsSync env dir then None else mkdirSync env dir) of
        Some e \<Rightarrow> ''Error saving: '' @ e
      | None \<Rightarrow>
          (let timestamp =
                 map (\<lambda>c. if c = CHR '':'' \<or> c = CHR ''.'' then CHR ''-'' else c) (now_iso env);
               filename = tool @ ''_'' @ timestamp @ ''.json''
           in case path_join env dir filename of
                Inl e \<Rightarrow> ''Error saving: '' @ e
              | Inr filepath \<Rightarrow>
                  (case writeFileSync env filepath (json_stringify env data) of
                     Some e \<Rightarrow> ''Error saving: '' @ e
                   | None \<Rightarrow> filepath)))"

record format_options =
  saveDir :: jsval
  toolName :: string
  pagination :: jsval

definition pagination_summary :: "jsval \<Rightarrow> jsval" where
  "pagination_summary p =
     JObj [(''page'', prop_of p ''pageNumber''),
           (''totalPages'', prop_of p ''totalPages''),
           (''totalElements'', prop_of p ''totalElements'')]"

text \<open>The \<open>output\<close> object of \<open>formatResponse\<close>.\<close>

definition response_output :: "jsval \<Rightarrow> jsval \<Rightarrow> jsval" where
  "response_output cleanedData pg =
     JObj ((''data'', cleanedData)
           # (if truthy pg then [(''pagination'', pagination_summary pg)] else []))"

definition saved_note :: "string \<Rightarrow> string" where
  "saved_note savedPath = [CHR 0x0A, CHR 0x0A] @ ''[Cleaned data saved to: '' @ savedPath @ '']''"

definition formatResponse :: "env \<Rightarrow> jsval \<Rightarrow> format_options \<Rightarrow> CallToolResult" where
  "formatResponse env cleanedData options =
     (let output = response_output cleanedData (pagination options);
          savedPath = (if truthy (saveDir options) \<and> toolName options \<noteq> []
                       then saveData env output (saveDir options) (toolName options)
                       else []);
          toonString = toon_encode env output;
          text = (if savedPath \<noteq> [] then toonString @ saved_note savedPath else toonString)
      in \<lparr>content = [TextContent text]\<rparr>)"

section \<open>Tool handlers\<close>

text \<open>
  The arguments of a call are a JSON object. \<open>params.k = v\<close> adds or replaces an entry;
  \<open>if (args.k) params.k = args.k\<close> copies an argument when its value is truthy.
\<close>

definition assign :: "jsobject \<Rightarrow> string \<Rightarrow> jsval \<Rightarrow> jsobject" where
  "assign ps k v =
     (if k \<in> set (map fst ps) then map (\<lambda>(k', v'). if k' = k then (k', v) else (k', v')) ps
      else ps @ [(k, v)])"

definition copy_arg :: "jsobject \<Rightarrow> string \<Rightarrow> jsobject \<Rightarrow> jsobject" where
  "copy_arg args k ps = (if truthy (field args k) then assign ps k (field args k) else ps)"

text \<open>A run of such statements, in the order of the list.\<close>

definition copy_args :: "jsobject \<Rightarrow> string list \<Rightarrow> jsobject \<Rightarrow> jsobject" where
  "copy_args args ks ps = foldl (\<lambda>acc k. copy_arg args k acc) ps ks"

text \<open>
  The outcome of a handler: the requests it made, and the reply or what it threw.
\<close>

type_synonym outcome = "http_request list \<times> (exn + CallToolResult)"

definition after_request ::
  "http_request \<times> (exn + jsval) \<Rightarrow> (jsval \<Rightarrow> exn + CallToolResult) \<Rightarrow> outcome" where
  "after_request r k = ([fst r], bind (snd r) k)"

text \<open>\<open>(elements || []).slice(0, maxItems).map(cleaner)\<close>.\<close>

definition shape_elements ::
  "env \<Rightarrow> jsval \<Rightarrow> jsval \<Rightarrow> (jsval \<Rightarrow> exn + jsval) \<Rightarrow> exn + jsval" where
  "shape_elements env elements maxItems cleaner =
     (case js_or elements (JArr []) of
        JArr xs \<Rightarrow>
          bind (map_e cleaner (slice0 xs (to_number env maxItems))) (\<lambda>ys. Inr (JArr ys))
      | JStr s \<Rightarrow> Inl (Error ''map is not a function'')
      | _ \<Rightarrow> Inl (Error ''slice is not a function''))"

definition total :: "('a \<Rightarrow> 'b) \<Rightarrow> 'a \<Rightarrow> exn + 'b" where
  "total f x = Inr (f x)"

text \<open>
  \<open>if (cleaned.k) cleaned.k = cleaned.k.slice(0, maxItems)\<close> on the shaped profile.
\<close>

definition limit_field :: "env \<Rightarrow> jsval \<Rightarrow> string \<Rightarrow> jsobject \<Rightarrow> exn + jsobject" where
  "limit_field env maxItems k cleaned =
     (if \<not> truthy (field cleaned k) then Inr cleaned
      else case field cleaned k of
             JArr xs \<Rightarrow> Inr (assign cleaned k (JArr (slice0 xs (to_number env maxItems))))
           | JStr s \<Rightarrow> Inr (assign cleaned k (JStr (slice0 s (to_number env maxItems))))
           | _ \<Rightarrow> Inl (Error ''slice is not a function''))"

definition limit_profile :: "env \<Rightarrow> jsval \<Rightarrow> jsval \<Rightarrow> exn + jsval" where
  "limit_profile env maxItems cleaned =
     (case cleaned of
        JObj c \<Rightarrow>
          bind (limit_field env maxItems ''experience'' c) (\<lambda>c1.
          bind (limit_field env maxItems ''education'' c1) (\<lambda>c2.
          bind (limit_field env maxItems ''skills'' c2) (\<lambda>c3.
          bind (limit_field env maxItems ''certifications'' c3) (\<lambda>c4.
          Inr (JObj c4)))))
      | _ \<Rightarrow> Inr cleaned)"

subsection \<open>Profile methods\<close>

definition getProfile :: "env \<Rightarrow> jsobject \<Rightarrow> outcome" where
  "getProfile env args =
     (let ps = copy_args args
                 [''url'', ''publicIdentifier'', ''profileId'', ''findEmail'',
                  ''includeAboutProfile''] []
      in if \<not> truthy (field ps ''url'') \<and> \<not> truthy (field ps ''publicIdentifier'')
            \<and> \<not> truthy (field ps ''profileId'')
         then ([], Inl (Error ''At least one of url, publicIdentifier, or profileId is required''))
         else after_request (makeRequest env ''/profile'' ps) (\<lambda>data.
           let maxItems = js_or (field args ''max_items'') (JNum 5) in
           bind (js_get data ''element'') (\<lambda>element.
           bind (cleanProfile element) (\<lambda>cleaned.
           bind (limit_profile env maxItems cleaned) (\<lambda>limited.
           Inr (formatResponse env limited
                  \<lparr>saveDir = field args ''save_dir'', toolName = ''get_profile'',
                   pagination = JUndefined\<rparr>))))))"

definition searchProfiles :: "env \<Rightarrow> jsobject \<Rightarrow> outcome" where
  "searchProfiles env args =
     (let ps = copy_args args
                 [''currentCompany'', ''pastCompany'', ''school'', ''firstName'', ''lastName'',
                  ''title'', ''location'', ''geoId'', ''industryId'', ''page'']
                 [(''search'', field args ''search'')]
      in after_request (makeRequest env ''/profile-search'' ps) (\<lambda>data.
           let maxItems = js_or (field args ''max_items'') (JNum 10) in
           bind (js_get data ''elements'') (\<lambda>elements.
           bind (shape_elements env elements maxItems (total cleanProfileSearchResult)) (\<lambda>cleaned.
           Inr (formatResponse env cleaned
                  \<lparr>saveDir = field args ''save_dir'', toolName = ''search_profiles'',
                   pagination = prop_of data ''pagination''\<rparr>)))))"

definition getProfilePosts :: "env \<Rightarrow> jsobject \<Rightarrow> outcome" where
  "getProfilePosts env args =
     (let ps = copy_args args
                 [''profile'', ''profileId'', ''profilePublicIdentifier'', ''postedLimit'',
                  ''page'', ''paginationToken''] []
      in if \<not> truthy (field ps ''profile'') \<and> \<not> truthy (field ps ''profileId'')
            \<and> \<not> truthy (field ps ''profilePublicIdentifier'')
         then ([], Inl (Error
                 ''At least one of profile, profileId, or profilePublicIdentifier is required''))
         else after_request (makeRequest env ''/profile-posts'' ps) (\<lambda>data.
           let maxItems = js_or (field args ''max_items'') (JNum 10) in
           bind (js_get data ''elements'') (\<lambda>elements.
           bind (shape_elements env elements maxItems (total (cleanPost env))) (\<lambda>cleaned.
           Inr (formatResponse env cleaned
                  \<lparr>saveDir = field args ''save_dir'', toolName = ''get_profile_posts'',
                   pagination = prop_of data ''pagination''\<rparr>)))))"

definition getProfileComments :: "env \<Rightarrow> jsobject \<Rightarrow> outcome" where
  "getProfileComments env args =
     (let ps = copy_args args
                 [''profile'', ''profileId'', ''postedLimit'', ''page'', ''paginationToken''] []
      in if \<not> truthy (field ps ''profile'') \<and> \<not> truthy (field ps ''profileId'')
         then ([], Inl (Error ''At least one of profile or profileId is required''))
         else after_request (makeRequest env ''/profile-comments'' ps) (\<lambda>data.
           let maxItems = js_or (field args ''max_items'') (JNum 10) in
           bind (js_get data ''elements'') (\<lambda>elements.
           bind (shape_elements env elements maxItems (total cleanComment)) (\<lambda>cleaned.
           Inr (formatResponse env cleaned
                  \<lparr>saveDir = field args ''save_dir'', toolName = ''get_profile_comments'',
                   pagination = prop_of data ''pagination''\<rparr>)))))"

definition getProfileReactions :: "env \<Rightarrow> jsobject \<Rightarrow> outcome" where
  "getProfileReactions env args =
     (let ps = copy_args args [''profile'', ''profileId'', ''page'', ''paginationToken''] []
      in if \<not> truthy (field ps ''profile'') \<and> \<not> truthy (field ps ''profileId'')
         then ([], Inl (Error ''At least one of profile or profileId is required''))
         else after_request (makeRequest env ''/profile-reactions'' ps) (\<lambda>data.
           let maxItems = js_or (field args ''max_items'') (JNum 10) in
           bind (js_get data ''elements'') (\<lambda>elements.
           bind (shape_elements env elements maxItems (total cleanReaction)) (\<lambda>cleaned.
           Inr (formatResponse env cleaned
                  \<lparr>saveDir = field args ''save_dir'', toolName = ''get_profile_reactions'',
                   pagination = prop_of data ''pagination''\<rparr>)))))"

subsection \<open>Company methods\<close>

definition getCompany :: "env \<Rightarrow> jsobject \<Rightarrow> outcome" where
  "getCompany env args =
     (let ps = copy_args args [''url'', ''universalName'', ''search''] []
      in if \<not> truthy (field ps ''url'') \<and> \<not> truthy (field ps ''universalName'')
            \<and> \<not> truthy (field ps ''search'')
         then ([], Inl (Error ''At least one of url, universalName, or search is required''))
         else after_request (makeRequest env ''/company'' ps) (\<lambda>data.
           bind (js_get data ''element'') (\<lambda>element.
           bind (cleanCompany element) (\<lambda>cleaned.
           Inr (formatResponse env cleaned
                  \<lparr>saveDir = field args ''save_dir'', toolName = ''get_company'',
                   pagination = JUndefined\<rparr>)))))"

definition searchCompanies :: "env \<Rightarrow> jsobject \<Rightarrow> outcome" where
  "searchCompanies env args =
     (let ps = copy_args args [''location'', ''geoId'', ''companySize'', ''page'']
                 [(''search'', field args ''search'')]
      in after_request (makeRequest env ''/company-search'' ps) (\<lambda>data.
           let maxItems = js_or (field args ''max_items'') (JNum 10) in
           bind (js_get data ''elements'') (\<lambda>elements.
           bind (shape_elements env elements maxItems cleanCompany) (\<lambda>cleaned.
           Inr (formatResponse env cleaned
                  \<lparr>saveDir = field args ''save_dir'', toolName = ''search_companies'',
                   pagination = prop_of data ''pagination''\<rparr>)))))"

definition getCompanyPosts :: "env \<Rightarrow> jsobject \<Rightarrow> outcome" where
  "getCompanyPosts env args =
     (let ps = copy_args args
                 [''company'', ''companyId'', ''companyUniversalName'', ''postedLimit'',
                  ''page'', ''paginationToken''] []
      in if \<not> truthy (field ps ''company'') \<and> \<not> truthy (field ps ''companyId'')
            \<and> \<not> truthy (field ps ''companyUniversalName'')
         then ([], Inl (Error
                 ''At least one of company, companyId, or companyUniversalName is required''))
         else after_request (makeRequest env ''/company-posts'' ps) (\<lambda>data.
           let maxItems = js_or (field args ''max_items'') (JNum 10) in
           bind (js_get data ''elements'') (\<lambda>elements.
           bind (shape_elements env elements maxItems (total (cleanPost env))) (\<lambda>cleaned.
           Inr (formatResponse env cleaned
                  \<lparr>saveDir = field args ''save_dir'', toolName = ''get_company_posts'',
                   pagination = prop_of data ''pagination''\<rparr>)))))"

subsection \<open>Job methods\<close>

definition getJob :: "env \<Rightarrow> jsobject \<Rightarrow> outcome" where
  "getJob env args =
     (let ps = copy_args args [''jobId'', ''url''] []
      in if \<not> truthy (field ps ''jobId'') \<and> \<not> truthy (field ps ''url'')
         then ([], Inl (Error ''At least one of jobId or url is required''))
         else after_request (makeRequest env ''/job'' ps) (\<lambda>data.
           bind (js_get data ''element'') (\<lambda>element.
           Inr (formatResponse env (cleanJob element)
                  \<lparr>saveDir = field args ''save_dir'', toolName = ''get_job'',
                   pagination = JUndefined\<rparr>))))"

definition searchJobs :: "env \<Rightarrow> jsobject \<Rightarrow> outcome" where
  "searchJobs env args =
     (let ps0 = copy_args args
                  [''search'', ''companyId'', ''location'', ''geoId'', ''sortBy'',
                   ''workplaceType'', ''employmentType'', ''salary'', ''postedLimit'',
                   ''experienceLevel'', ''industryId'', ''functionId'', ''under10Applicants''] [];
          ps1 = (if field args ''easyApply'' \<noteq> JUndefined
                 then assign ps0 ''easyApply'' (field args ''easyApply'') else ps0);
          ps = copy_arg args ''page'' ps1
      in after_request (makeRequest env ''/job-search'' ps) (\<lambda>data.
           let maxItems = js_or (field args ''max_items'') (JNum 10) in
           bind (js_get data ''elements'') (\<lambda>elements.
           bind (shape_elements env elements maxItems (total cleanJobSearchResult)) (\<lambda>cleaned.
           Inr (formatResponse env cleaned
                  \<lparr>saveDir = field args ''save_dir'', toolName = ''search_jobs'',
                   pagination = prop_of data ''pagination''\<rparr>)))))"

subsection \<open>Post methods\<close>

definition getPost :: "env \<Rightarrow> jsobject \<Rightarrow> outcome" where
  "getPost env args =
     after_request (makeRequest env ''/post'' [(''url'', field args ''url'')]) (\<lambda>data.
       bind (js_get data ''element'') (\<lambda>element.
       Inr (formatResponse env (cleanPost env element)
              \<lparr>saveDir = field args ''save_dir'', toolName = ''get_post'',
               pagination = JUndefined\<rparr>)))"

definition searchPosts :: "env \<Rightarrow> jsobject \<Rightarrow> outcome" where
  "searchPosts env args =
     (let ps = copy_args args
                 [''search'', ''profile'', ''profileId'', ''company'', ''companyId'',
                  ''authorsCompany'', ''authorsCompanyId'', ''group'', ''postedLimit'',
                  ''sortBy'', ''page'', ''paginationToken''] []
      in after_request (makeRequest env ''/post-search'' ps) (\<lambda>data.
           let maxItems = js_or (field args ''max_items'') (JNum 10) in
           bind (js_get data ''elements'') (\<lambda>elements.
           bind (shape_elements env elements maxItems (total (cleanPost env))) (\<lambda>cleaned.
           Inr (formatResponse env cleaned
                  \<lparr>saveDir = field args ''save_dir'', toolName = ''search_posts'',
                   pagination = prop_of data ''pagination''\<rparr>)))))"

definition getPostComments :: "env \<Rightarrow> jsobject \<Rightarrow> outcome" where
  "getPostComments env args =
     (let ps = copy_args args [''sortBy'', ''page'', ''paginationToken'']
                 [(''post'', field args ''post'')]
      in after_request (makeRequest env ''/post-comments'' ps) (\<lambda>data.
           let maxItems = js_or (field args ''max_items'') (JNum 10) in
           bind (js_get data ''elements'') (\<lambda>elements.
           bind (shape_elements env elements maxItems (total cleanComment)) (\<lambda>cleaned.
           Inr (formatResponse env cleaned
                  \<lparr>saveDir = field args ''save_dir'', toolName = ''get_post_comments'',
                   pagination = prop_of data ''pagination''\<rparr>)))))"

definition getPostReactions :: "env \<Rightarrow> jsobject \<Rightarrow> outcome" where
  "getPostReactions env args =
     (let ps = copy_args args [''page''] [(''post'', field args ''post'')]
      in after_request (makeRequest env ''/post-reactions'' ps) (\<lambda>data.
           let maxItems = js_or (field args ''max_items'') (JNum 10) in
           bind (js_get data ''elements'') (\<lambda>elements.
           bind (shape_elements env elements maxItems (total cleanReaction)) (\<lambda>cleaned.
           Inr (formatResponse env cleaned
                  \<lparr>saveDir = field args ''save_dir'', toolName = ''get_post_reactions'',
                   pagination = prop_of data ''pagination''\<rparr>)))))"

subsection \<open>Group methods\<close>

definition getGroup :: "env \<Rightarrow> jsobject \<Rightarrow> outcome" where
  "getGroup env args =
     (let ps = copy_args args [''url'', ''groupId''] []
      in if \<not> truthy (field ps ''url'') \<and> \<not> truthy (field ps ''groupId'')
         then ([], Inl (Error ''At least one of url or groupId is required''))
         else after_request (makeRequest env ''/group'' ps) (\<lambda>data.
           bind (js_get data ''element'') (\<lambda>element.
           Inr (formatResponse env (cleanGroup element)
                  \<lparr>saveDir = field args ''save_dir'', toolName = ''get_group'',
                   pagination = JUndefined\<rparr>))))"

definition searchGroups :: "env \<Rightarrow> jsobject \<Rightarrow> outcome" where
  "searchGroups env args =
     (let ps = copy_args args [''page''] [(''search'', field args ''search'')]
      in after_request (makeRequest env ''/group-search'' ps) (\<lambda>data.
           let maxItems = js_or (field args ''max_items'') (JNum 10) in
           bind (js_get data ''elements'') (\<lambda>elements.
           bind (shape_elements env elements maxItems (total cleanGroup)) (\<lambda>cleaned.
           Inr (formatResponse env cleaned
                  \<lparr>saveDir = field args ''save_dir'', toolName = ''search_groups'',
                   pagination = prop_of data ''pagination''\<rparr>)))))"

subsection \<open>Geo ID method\<close>

definition searchGeoId :: "env \<Rightarrow> jsobject \<Rightarrow> outcome" where
  "searchGeoId env args =
     after_request (makeRequest env ''/geo-id-search'' [(''search'', field args ''search'')])
       (\<lambda>data.
         let maxItems = js_or (field args ''max_items'') (JNum 10) in
         bind (js_get data ''elements'') (\<lambda>elements.
         bind (shape_elements env elements maxItems (total cleanGeoId)) (\<lambda>cleaned.
         Inr (formatResponse env cleaned
                \<lparr>saveDir = field args ''save_dir'', toolName = ''search_geo_id'',
                 pagination = JUndefined\<rparr>))))"

section \<open>The call-tool request handler\<close>

definition dispatch :: "env \<Rightarrow> string \<Rightarrow> jsobject \<Rightarrow> outcome" where
  "dispatch env name args =
     (if name = ''get_profile'' then getProfile env args
      else if name = ''search_profiles'' then searchProfiles env args
      else if name = ''get_profile_posts'' then getProfilePosts env args
      else if name = ''get_profile_comments'' then getProfileComments env args
      else if name = ''get_profile_reactions'' then getProfileReactions env args
      else if name = ''get_company'' then getCompany env args
      else if name = ''search_companies'' then searchCompanies env args
      else if name = ''get_company_posts'' then getCompanyPosts env args
      else if name = ''get_job'' then getJob env args
      else if name = ''search_jobs'' then searchJobs env args
      else if name = ''get_post'' then getPost env args
      else if name = ''search_posts'' then searchPosts env args
      else if name = ''get_post_comments'' then getPostComments env args
      else if name = ''get_post_reactions'' then getPostReactions env args
      else if name = ''get_group'' then getGroup env args
      else if name = ''search_groups'' then searchGroups env args
      else if name = ''search_geo_id'' then searchGeoId env args
      else ([], Inl (McpError MethodNotFound (''Unknown tool: '' @ name))))"

text \<open>
  The \<open>catch\<close> of the handler: an \<open>McpError\<close> passes, anything else becomes an internal
  error.
\<close>

fun rethrow :: "exn \<Rightarrow> exn" where
  "rethrow (McpError c m) = McpError c m"
| "rethrow (Error m) = McpError InternalError (''HarvestAPI error: '' @ m)"
| "rethrow NonError = McpError InternalError ''HarvestAPI error: Unknown error occurred''"

definition call_tool :: "env \<Rightarrow> string \<Rightarrow> jsobject option \<Rightarrow> outcome" where
  "call_tool env name arguments =
     (case arguments of
        None \<Rightarrow> ([], Inl (McpError InvalidParams ''Missing arguments''))
      | Some args \<Rightarrow>
          (case dispatch env name args of
             (reqs, Inl e) \<Rightarrow> (reqs, Inl (rethrow e))
           | (reqs, Inr reply) \<Rightarrow> (reqs, Inr reply)))"

section \<open>The tool catalog\<close>

text \<open>
  What the list-tools handler advertises, reduced to each tool's name, the names of its
  input properties and its \<open>required\<close> list.
\<close>

definition tool_schemas :: "(string \<times> string list \<times> string list) list" where
  "tool_schemas =
     [(''get_profile'',
         [''url'', ''publicIdentifier'', ''profileId'', ''findEmail'', ''includeAboutProfile'',
          ''save_dir'', ''max_items''], []),
      (''search_profiles'',
         [''search'', ''currentCompany'', ''pastCompany'', ''school'', ''firstName'',
          ''lastName'', ''title'', ''location'', ''geoId'', ''industryId'', ''page'',
          ''save_dir'', ''max_items''], [''search'']),
      (''get_profile_posts'',
         [''profile'', ''profileId'', ''profilePublicIdentifier'', ''postedLimit'', ''page'',
          ''paginationToken'', ''save_dir'', ''max_items''], []),
      (''get_profile_comments'',
         [''profile'', ''profileId'', ''postedLimit'', ''page'', ''paginationToken'',
          ''save_dir'', ''max_items''], []),
      (''get_profile_reactions'',
         [''profile'', ''profileId'', ''page'', ''paginationToken'', ''save_dir'',
          ''max_items''], []),
      (''get_company'', [''url'', ''universalName'', ''search'', ''save_dir''], []),
      (''search_companies'',
         [''search'', ''location'', ''geoId'', ''companySize'', ''page'', ''save_dir'',
          ''max_items''], [''search'']),
      (''get_company_posts'',
         [''company'', ''companyId'', ''companyUniversalName'', ''postedLimit'', ''page'',
          ''paginationToken'', ''save_dir'', ''max_items''], []),
      (''get_job'', [''jobId'', ''url'', ''save_dir''], []),
      (''search_jobs'',
         [''search'', ''companyId'', ''location'', ''geoId'', ''sortBy'', ''workplaceType'',
          ''employmentType'', ''salary'', ''postedLimit'', ''experienceLevel'', ''industryId'',
          ''functionId'', ''under10Applicants'', ''easyApply'', ''page'', ''save_dir'',
          ''max_items''], []),
      (''get_post'', [''url'', ''save_dir''], [''url'']),
      (''search_posts'',
         [''search'', ''profile'', ''profileId'', ''company'', ''companyId'', ''authorsCompany'',
          ''authorsCompanyId'', ''group'', ''postedLimit'', ''sortBy'', ''page'',
          ''paginationToken'', ''save_dir'', ''max_items''], []),
      (''get_post_comments'',
         [''post'', ''sortBy'', ''page'', ''paginationToken'', ''save_dir'', ''max_items''],
         [''post'']),
      (''get_post_reactions'', [''post'', ''page'', ''save_dir'', ''max_items''], [''post'']),
      (''get_group'', [''url'', ''groupId'', ''save_dir''], []),
      (''search_groups'', [''search'', ''page'', ''save_dir'', ''max_items''], [''search'']),
      (''search_geo_id'', [''search'', ''save_dir'', ''max_items''], [''search''])]"

text \<open>The two arguments that steer the reply and are not part of the remote query.\<close>

definition local_args :: "string list" where
  "local_args = [''save_dir'', ''max_items'']"

section \<open>The handlers in a common form\<close>

text \<open>
  Every handler has the same skeleton: build the query, possibly reject, make one request,
  shape the body, format the reply. The definitions below name the parts; the lemma
  \<open>dispatch_via_spec\<close> proves that the handlers above are instances of the skeleton, so
  nothing that follows rests on this section being read as a model of the source.
\<close>

definition finish ::
  "env \<Rightarrow> jsobject \<Rightarrow> string \<Rightarrow> bool \<Rightarrow> (jsval \<Rightarrow> exn + jsval) \<Rightarrow> jsval
     \<Rightarrow> exn + CallToolResult" where
  "finish env args tool paged shape data =
     bind (shape data) (\<lambda>cleaned.
       Inr (formatResponse env cleaned
              \<lparr>saveDir = field args ''save_dir'', toolName = tool,
               pagination = (if paged then prop_of data ''pagination'' else JUndefined)\<rparr>))"

type_synonym tool_spec =
  "string option \<times> string \<times> jsobject \<times> (jsval \<Rightarrow> exn + jsval) \<times> bool"

definition run_tool :: "env \<Rightarrow> jsobject \<Rightarrow> string \<Rightarrow> tool_spec \<Rightarrow> outcome" where
  "run_tool env args tool spec =
     (case spec of (rejected, ep, ps, shape, paged) \<Rightarrow>
        (case rejected of
           Some msg \<Rightarrow> ([], Inl (Error msg))
         | None \<Rightarrow> after_request (makeRequest env ep ps) (finish env args tool paged shape)))"

definition shape_listing ::
  "env \<Rightarrow> jsobject \<Rightarrow> (jsval \<Rightarrow> exn + jsval) \<Rightarrow> jsval \<Rightarrow> exn + jsval" where
  "shape_listing env args cleaner data =
     bind (js_get data ''elements'') (\<lambda>elements.
       shape_elements env elements (js_or (field args ''max_items'') (JNum 10)) cleaner)"

definition shape_single :: "(jsval \<Rightarrow> exn + jsval) \<Rightarrow> jsval \<Rightarrow> exn + jsval" where
  "shape_single cleaner data = bind (js_get data ''element'') cleaner"

definition shape_profile :: "env \<Rightarrow> jsobject \<Rightarrow> jsval \<Rightarrow> exn + jsval" where
  "shape_profile env args element =
     bind (cleanProfile element)
       (limit_profile env (js_or (field args ''max_items'') (JNum 5)))"

definition require_one :: "jsobject \<Rightarrow> string list \<Rightarrow> string \<Rightarrow> string option" where
  "require_one ps alts msg =
     (if list_all (\<lambda>k. \<not> truthy (field ps k)) alts then Some msg else None)"

definition tool_spec_of :: "env \<Rightarrow> jsobject \<Rightarrow> string \<Rightarrow> tool_spec option" where
  "tool_spec_of env args name =
     (if name = ''get_profile'' then
        (let ps = copy_args args
                    [''url'', ''publicIdentifier'', ''profileId'', ''findEmail'',
                     ''includeAboutProfile''] []
         in Some (require_one ps [''url'', ''publicIdentifier'', ''profileId'']
                    ''At least one of url, publicIdentifier, or profileId is required'',
                  ''/profile'', ps, shape_single (shape_profile env args), False))
      else if name = ''search_profiles'' then
        Some (None, ''/profile-search'',
              copy_args args
                [''currentCompany'', ''pastCompany'', ''school'', ''firstName'', ''lastName'',
                 ''title'', ''location'', ''geoId'', ''industryId'', ''page'']
                [(''search'', field args ''search'')],
              shape_listing env args (total cleanProfileSearchResult), True)
      else if name = ''get_profile_posts'' then
        (let ps = copy_args args
                    [''profile'', ''profileId'', ''profilePublicIdentifier'', ''postedLimit'',
                     ''page'', ''paginationToken''] []
         in Some (require_one ps [''profile'', ''profileId'', ''profilePublicIdentifier'']
                    ''At least one of profile, profileId, or profilePublicIdentifier is required'',
                  ''/profile-posts'', ps, shape_listing env args (total (cleanPost env)), True))
      else if name = ''get_profile_comments'' then
        (let ps = copy_args args
                    [''profile'', ''profileId'', ''postedLimit'', ''page'', ''paginationToken''] []
         in Some (require_one ps [''profile'', ''profileId'']
                    ''At least one of profile or profileId is required'',
                  ''/profile-comments'', ps, shape_listing env args (total cleanComment), True))
      else if name = ''get_profile_reactions'' then
        (let ps = copy_args args [''profile'', ''profileId'', ''page'', ''paginationToken''] []
         in Some (require_one ps [''profile'', ''profileId'']
                    ''At least one of profile or profileId is required'',
                  ''/profile-reactions'', ps, shape_listing env args (total cleanReaction), True))
      else if name = ''get_company'' then
        (let ps = copy_args args [''url'', ''universalName'', ''search''] []
         in Some (require_one ps [''url'', ''universalName'', ''search'']
                    ''At least one of url, universalName, or search is required'',
                  ''/company'', ps, shape_single cleanCompany, False))
      else if name = ''search_companies'' then
        Some (None, ''/company-search'',
              copy_args args [''location'', ''geoId'', ''companySize'', ''page'']
                [(''search'', field args ''search'')],
              shape_listing env args cleanCompany, True)
      else if name = ''get_company_posts'' then
        (let ps = copy_args args
                    [''company'', ''companyId'', ''companyUniversalName'', ''postedLimit'',
                     ''page'', ''paginationToken''] []
         in Some (require_one ps [''company'', ''companyId'', ''companyUniversalName'']
                    ''At least one of company, companyId, or companyUniversalName is required'',
                  ''/company-posts'', ps, shape_listing env args (total (cleanPost env)), True))
      else if name = ''get_job'' then
        (let ps = copy_args args [''jobId'', ''url''] []
         in Some (require_one ps [''jobId'', ''url'']
                    ''At least one of jobId or url is required'',
                  ''/job'', ps, shape_single (total cleanJob), False))
      else if name = ''search_jobs'' then
        (let ps0 = copy_args args
                     [''search'', ''companyId'', ''location'', ''geoId'', ''sortBy'',
                      ''workplaceType'', ''employmentType'', ''salary'', ''postedLimit'',
                      ''experienceLevel'', ''industryId'', ''functionId'',
                      ''under10Applicants''] [];
             ps1 = (if field args ''easyApply'' \<noteq> JUndefined
                    then assign ps0 ''easyApply'' (field args ''easyApply'') else ps0)
         in Some (None, ''/job-search'', copy_arg args ''page'' ps1,
                  shape_listing env args (total cleanJobSearchResult), True))
      else if name = ''get_post'' then
        Some (None, ''/post'', [(''url'', field args ''url'')],
              shape_single (total (cleanPost env)), False)
      else if name = ''search_posts'' then
        Some (None, ''/post-search'',
              copy_args args
                [''search'', ''profile'', ''profileId'', ''company'', ''companyId'',
                 ''authorsCompany'', ''authorsCompanyId'', ''group'', ''postedLimit'',
                 ''sortBy'', ''page'', ''paginationToken''] [],
              shape_listing env args (total (cleanPost env)), True)
      else if name = ''get_post_comments'' then
        Some (None, ''/post-comments'',
              copy_args args [''sortBy'', ''page'', ''paginationToken'']
                [(''post'', field args ''post'')],
              shape_listing env args (total cleanComment), True)
      else if name = ''get_post_reactions'' then
        Some (None, ''/post-reactions'',
              copy_args args [''page''] [(''post'', field args ''post'')],
              shape_listing env args (total cleanReaction), True)
      else if name = ''get_group'' then
        (let ps = copy_args args [''url'', ''groupId''] []
         in Some (require_one ps [''url'', ''groupId'']
                    ''At least one of url or groupId is required'',
                  ''/group'', ps, shape_single (total cleanGroup), False))
      else if name = ''search_groups'' then
        Some (None, ''/group-search'',
              copy_args args [''page''] [(''search'', field args ''search'')],
              shape_listing env args (total cleanGroup), True)
      else if name = ''search_geo_id'' then
        Some (None, ''/geo-id-search'', [(''search'', field args ''search'')],
              shape_listing env args (total cleanGeoId), False)
      else None)"

definition via_spec :: "env \<Rightarrow> string \<Rightarrow> jsobject \<Rightarrow> outcome" where
  "via_spec env name args =
     (case tool_spec_of env args name of
        None \<Rightarrow> ([], Inl (McpError MethodNotFound (''Unknown tool: '' @ name)))
      | Some spec \<Rightarrow> run_tool env args name spec)"

section \<open>Vocabulary of the properties\<close>

text \<open>
  The operations with an at-least-one-of guard: the alternatives the guard tests and the
  message of the error it throws, as written in the handlers.
\<close>

definition at_least_one_rules :: "(string \<times> string list \<times> string) list" where
  "at_least_one_rules =
     [(''get_profile'', [''url'', ''publicIdentifier'', ''profileId''],
         ''At least one of url, publicIdentifier, or profileId is required''),
      (''get_profile_posts'', [''profile'', ''profileId'', ''profilePublicIdentifier''],
         ''At least one of profile, profileId, or profilePublicIdentifier is required''),
      (''get_profile_comments'', [''profile'', ''profileId''],
         ''At least one of profile or profileId is required''),
      (''get_profile_reactions'', [''profile'', ''profileId''],
         ''At least one of profile or profileId is required''),
      (''get_company'', [''url'', ''universalName'', ''search''],
         ''At least one of url, universalName, or search is required''),
      (''get_company_posts'', [''company'', ''companyId'', ''companyUniversalName''],
         ''At least one of company, companyId, or companyUniversalName is required''),
      (''get_job'', [''jobId'', ''url''], ''At least one of jobId or url is required''),
      (''get_group'', [''url'', ''groupId''], ''At least one of url or groupId is required'')]"

text \<open>The search operations and their endpoints.\<close>

definition search_tools :: "(string \<times> string) list" where
  "search_tools =
     [(''search_profiles'', ''/profile-search''),
      (''search_companies'', ''/company-search''),
      (''search_posts'', ''/post-search''),
      (''search_groups'', ''/group-search''),
      (''search_geo_id'', ''/geo-id-search''),
      (''search_jobs'', ''/job-search'')]"

text \<open>The collection operations and the cleaner each maps over the elements.\<close>

definition listing_tools :: "env \<Rightarrow> (string \<times> (jsval \<Rightarrow> exn + jsval)) list" where
  "listing_tools env =
     [(''search_profiles'', total cleanProfileSearchResult),
      (''get_profile_posts'', total (cleanPost env)),
      (''get_profile_comments'', total cleanComment),
      (''get_profile_reactions'', total cleanReaction),
      (''search_companies'', cleanCompany),
      (''get_company_posts'', total (cleanPost env)),
      (''search_jobs'', total cleanJobSearchResult),
      (''search_posts'', total (cleanPost env)),
      (''get_post_comments'', total cleanComment),
      (''get_post_reactions'', total cleanReaction),
      (''search_groups'', total cleanGroup),
      (''search_geo_id'', total cleanGeoId)]"

text \<open>
  The list-valued fields of a shaped profile, under the same names as in the raw profile,
  and the callback that shapes each entry.
\<close>

definition profile_lists :: "(string \<times> (jsval \<Rightarrow> exn + jsval)) list" where
  "profile_lists =
     [(''experience'', clean_experience), (''education'', clean_education),
      (''skills'', clean_skill), (''certifications'', clean_certification)]"

text \<open>
  The operations whose handler passes the envelope's \<open>pagination\<close> on to
  \<open>formatResponse\<close>, and those whose handler does not.
\<close>

definition paged_tools :: "string list" where
  "paged_tools =
     [''search_profiles'', ''get_profile_posts'', ''get_profile_comments'',
      ''get_profile_reactions'', ''search_companies'', ''get_company_posts'', ''search_jobs'',
      ''search_posts'', ''get_post_comments'', ''get_post_reactions'', ''search_groups'']"

definition unpaged_tools :: "string list" where
  "unpaged_tools =
     [''get_profile'', ''get_company'', ''get_job'', ''get_post'', ''get_group'',
      ''search_geo_id'']"

text \<open>The query parameters a handler sets without testing the argument.\<close>

definition unconditional_params :: "(string \<times> string) list" where
  "unconditional_params =
     [(''search_profiles'', ''search''), (''search_companies'', ''search''),
      (''get_post'', ''url''), (''get_post_comments'', ''post''),
      (''get_post_reactions'', ''post''), (''search_groups'', ''search''),
      (''search_geo_id'', ''search'')]"

text \<open>
  Saving \<open>data\<close> into \<open>dir\<close> for \<open>tool\<close> fails with \<open>e\<close>: one of the steps of
  \<open>saveData\<close> throws \<open>e\<close>. Either the directory is missing and cannot be created, or it
  is there (or has just been created) and the path of the file \<open>tool_timestamp.json\<close>
  cannot be built, or that file cannot be written with the JSON text of the data.
\<close>

definition save_fails :: "env \<Rightarrow> jsval \<Rightarrow> jsval \<Rightarrow> string \<Rightarrow> string \<Rightarrow> bool" where
  "save_fails env data dir tool e =
     ((\<not> existsSync env dir \<and> mkdirSync env dir = Some e)
      \<or> ((existsSync env dir \<or> mkdirSync env dir = None)
          \<and> (let timestamp =
                    map (\<lambda>c. if c = CHR '':'' \<or> c = CHR ''.'' then CHR ''-'' else c) (now_iso env);
                  filename = tool @ ''_'' @ timestamp @ ''.json''
              in case path_join env dir filename of
                   Inl e' \<Rightarrow> e' = e
                 | Inr filepath \<Rightarrow>
                     writeFileSync env filepath (json_stringify env data) = Some e)))"

definition without_arg :: "string \<Rightarrow> jsobject \<Rightarrow> jsobject" where
  "without_arg k args = filter (\<lambda>kv. fst kv \<noteq> k) args"

definition append_text :: "string \<Rightarrow> content_item \<Rightarrow> content_item" where
  "append_text n c = (case c of TextContent t \<Rightarrow> TextContent (t @ n))"

definition with_note :: "string \<Rightarrow> outcome \<Rightarrow> outcome" where
  "with_note n out =
     (case out of
        (reqs, Inl e) \<Rightarrow> (reqs, Inl e)
      | (reqs, Inr r) \<Rightarrow> (reqs, Inr \<lparr>content = map (append_text n) (content r)\<rparr>))"

section \<open>A sample environment\<close>

text \<open>
  A concrete world for the closed examples: a remote API that answers every endpoint, a
  file system in which no directory can be created, and a plain serialiser standing in for
  the two encoders (it leaves undefined properties out, as JSON does). A second world,
  \<open>readonly_env\<close>, differs in its file system: every directory exists and no file can be
  written, the error naming the path of the file.
\<close>

fun show_json :: "jsval \<Rightarrow> string" where
  "show_json JUndefined = ''undefined''"
| "show_json JNull = ''null''"
| "show_json (JBool b) = (if b then ''true'' else ''false'')"
| "show_json (JNum n) = show_int n"
| "show_json (JStr s) = ''<'' @ s @ ''>''"
| "show_json (JArr xs) = ''['' @ join_comma (map show_json xs) @ '']''"
| "show_json (JObj kvs) =
     ''{'' @ join_comma (map (\<lambda>kv. fst kv @ '':'' @ show_json (snd kv))
                          (filter (\<lambda>kv. snd kv \<noteq> JUndefined) kvs)) @ ''}''"

definition sample_experience :: "int \<Rightarrow> jsval" where
  "sample_experience i =
     JObj [(''position'', JNum i), (''companyName'', JStr ''Microsoft'')]"

definition sample_profile :: jsval where
  "sample_profile =
     JObj [(''id'', JStr ''p1''), (''firstName'', JStr ''Satya''), (''lastName'', JStr ''Nadella''),
           (''experience'', JArr (map sample_experience [1, 2, 3, 4, 5, 6, 7]))]"

definition sample_pagination :: jsval where
  "sample_pagination =
     JObj [(''totalPages'', JNum 3), (''totalElements'', JNum 25), (''pageNumber'', JNum 1),
           (''pageSize'', JNum 10), (''paginationToken'', JStr ''tok'')]"

definition sample_hit :: "int \<Rightarrow> jsval" where
  "sample_hit i = JObj [(''id'', JNum i), (''geoId'', JNum i), (''title'', JStr ''t'')]"

definition sample_get :: "http_request \<Rightarrow> http_failure + jsval" where
  "sample_get rq =
     (if req_endpoint rq = ''/profile''
      then Inr (JObj [(''element'', sample_profile), (''status'', JStr ''ok'')])
      else if req_endpoint rq = ''/geo-id-search''
      then Inr (JObj [(''elements'', JArr (map sample_hit [1, 2])),
                      (''pagination'', sample_pagination)])
      else Inr (JObj [(''elements'', JArr (map sample_hit [1, 2, 3, 4, 5, 6, 7, 8, 9, 10, 11, 12])),
                      (''pagination'', sample_pagination),
                      (''element'', sample_hit 1)]))"

definition sample_env :: env where
  "sample_env =
     \<lparr>apiKey = ''key'',
      http_get = sample_get,
      existsSync = (\<lambda>dir. False),
      mkdirSync = (\<lambda>dir. Some ''Error: EACCES: permission denied''),
      path_join = (\<lambda>dir filename. Inr (js_string dir @ ''/'' @ filename)),
      writeFileSync = (\<lambda>filepath contents. None),
      now_iso = ''2025-01-01T00:00:00.000Z'',
      json_stringify = show_json,
      toon_encode = show_json,
      string_to_number = (\<lambda>s. 0)\<rparr>"

definition readonly_env :: env where
  "readonly_env =
     sample_env
       \<lparr>existsSync := (\<lambda>dir. True),
        writeFileSync :=
          (\<lambda>filepath contents.
             Some (''Error: EROFS: read-only file system, open '' @ filepath))\<rparr>"

definition sample_location :: "string \<Rightarrow> bool \<Rightarrow> jsval" where
  "sample_location city hq = JObj [(''city'', JStr city), (''headquarter'', JBool hq)]"

definition sample_company :: "jsval list \<Rightarrow> jsval" where
  "sample_company ls = JObj [(''name'', JStr ''Microsoft''), (''locations'', JArr ls)]"

section \<open>Basic facts\<close>

lemma bind_Inr [simp]: "bind (Inr x) f = f x"
  by (simp add: bind_def)

lemma bind_Inl [simp]: "bind (Inl e) f = Inl e"
  by (simp add: bind_def)

lemma bind_assoc: "bind (bind m f) g = bind m (\<lambda>x. bind (f x) g)"
  by (simp add: bind_def split: sum.splits)

lemma bind_eq_Inr: "bind m f = Inr y \<longleftrightarrow> (\<exists>x. m = Inr x \<and> f x = Inr y)"
  by (cases m) simp_all

lemma map_e_total [simp]: "map_e (total f) xs = Inr (map f xs)"
  by (induction xs) (simp_all add: total_def)

lemma map_e_length: "map_e f xs = Inr ys \<Longrightarrow> length ys = length xs"
  by (induction xs arbitrary: ys) (auto split: sum.splits)

lemma map_e_nth: "map_e f xs = Inr ys \<Longrightarrow> i < length xs \<Longrightarrow> f (xs ! i) = Inr (ys ! i)"
proof (induction xs arbitrary: ys i)
  case Nil
  then show ?case by simp
next
  case (Cons x xs)
  then obtain y zs where y: "f x = Inr y" and zs: "map_e f xs = Inr zs" and ys: "ys = y # zs"
    by (auto split: sum.splits)
  show ?case
  proof (cases i)
    case 0
    with y ys show ?thesis by simp
  next
    case (Suc j)
    with Cons.prems have "j < length xs" by simp
    from Cons.IH [OF zs this] Suc ys show ?thesis by simp
  qed
qed

lemma slice0_nonneg: "0 \<le> e \<Longrightarrow> slice0 xs e = take (nat e) xs"
  by (simp add: slice0_def)

subsection \<open>Objects\<close>

lemma field_Nil [simp]: "field [] k = JUndefined"
  by (simp add: field_def)

lemma field_Cons [simp]: "field ((k', v) # ps) k = (if k = k' then v else field ps k)"
  by (simp add: field_def)

lemma field_absent: "k \<notin> fst ` set ps \<Longrightarrow> field ps k = JUndefined"
  by (simp add: field_def map_of_eq_None_iff [THEN iffD2])

lemma map_of_replace:
  "map_of (map (\<lambda>(k', v'). if k' = k then (k', v) else (k', v')) ps) k' =
     (if k' = k then map_option (\<lambda>_. v) (map_of ps k) else map_of ps k')"
  by (induction ps) auto

lemma field_assign [simp]: "field (assign ps k v) k' = (if k' = k then v else field ps k')"
proof (cases "map_of ps k")
  case None
  then have "k \<notin> set (map fst ps)"
    by (simp add: map_of_eq_None_iff)
  with None show ?thesis
    by (auto simp: assign_def field_def map_add_def split: option.splits)
next
  case (Some w)
  then have "k \<in> set (map fst ps)"
    by (metis map_of_eq_None_iff option.distinct(1) set_map)
  with Some show ?thesis
    by (simp add: assign_def field_def map_of_replace)
qed

lemma set_assign: "(k', v') \<in> set (assign ps k v) \<Longrightarrow> (k' = k \<and> v' = v) \<or> (k', v') \<in> set ps"
  by (auto simp: assign_def split: if_splits)

lemma map_fst_replace:
  "map (fst \<circ> (\<lambda>(k', v'). if k' = k then (k', v) else (k', v'))) ps = map fst ps"
  by (induction ps) auto

lemma keys_assign: "fst ` set (assign ps k v) = insert k (fst ` set ps)"
proof -
  have "set (map fst (assign ps k v)) = insert k (set (map fst ps))"
    by (simp add: assign_def map_fst_replace insert_absorb del: set_map)
  then show ?thesis by simp
qed

lemma distinct_assign: "distinct (map fst ps) \<Longrightarrow> distinct (map fst (assign ps k v))"
  by (auto simp: assign_def map_fst_replace)

lemma copy_args_Nil [simp]: "copy_args args [] ps = ps"
  by (simp add: copy_args_def)

lemma copy_args_Cons [simp]: "copy_args args (k # ks) ps = copy_args args ks (copy_arg args k ps)"
  by (simp add: copy_args_def)

lemma field_copy_arg:
  "field (copy_arg args k ps) k' = (if k' = k \<and> truthy (field args k) then field args k else field ps k')"
  by (simp add: copy_arg_def)

lemma field_copy_args:
  "field (copy_args args ks ps) k =
     (if k \<in> set ks \<and> truthy (field args k) then field args k else field ps k)"
  by (induction ks arbitrary: ps) (auto simp: field_copy_arg)

lemma set_copy_arg:
  "(k', v) \<in> set (copy_arg args k ps) \<Longrightarrow>
     (k', v) \<in> set ps \<or> (k' = k \<and> v = field args k \<and> truthy v)"
  by (auto simp: copy_arg_def dest: set_assign split: if_splits)

lemma set_copy_args:
  "(k, v) \<in> set (copy_args args ks ps) \<Longrightarrow>
     (k, v) \<in> set ps \<or> (k \<in> set ks \<and> v = field args k \<and> truthy v)"
proof (induction ks arbitrary: ps)
  case Nil
  then show ?case by simp
next
  case (Cons a ks)
  from Cons.IH [of "copy_arg args a ps"] Cons.prems
  have "(k, v) \<in> set (copy_arg args a ps) \<or> (k \<in> set ks \<and> v = field args k \<and> truthy v)"
    by simp
  then show ?case
    by (auto dest: set_copy_arg)
qed

lemma distinct_copy_arg: "distinct (map fst ps) \<Longrightarrow> distinct (map fst (copy_arg args k ps))"
  by (simp add: copy_arg_def distinct_assign)

lemma distinct_copy_args: "distinct (map fst ps) \<Longrightarrow> distinct (map fst (copy_args args ks ps))"
  by (induction ks arbitrary: ps) (simp_all add: distinct_copy_arg)

lemma entry_of_field:
  assumes "k \<in> fst ` set ps"
  shows "(k, field ps k) \<in> set ps"
proof -
  from assms obtain y where y: "map_of ps k = Some y"
    by (metis map_of_eq_None_iff not_None_eq)
  then have "(k, y) \<in> set ps"
    by (rule map_of_SomeD)
  with y show ?thesis
    by (simp add: field_def)
qed

lemma keys_copy_arg:
  "fst ` set (copy_arg args k ps) = (if truthy (field args k) then insert k (fst ` set ps) else fst ` set ps)"
  by (simp add: copy_arg_def keys_assign)

lemma keys_copy_args:
  "fst ` set (copy_args args ks ps) = fst ` set ps \<union> {k \<in> set ks. truthy (field args k)}"
  by (induction ks arbitrary: ps) (auto simp: keys_copy_arg)

subsection \<open>The handlers are instances of the skeleton\<close>

lemmas skeleton_defs =
  run_tool_def require_one_def Let_def finish_def [abs_def] shape_single_def [abs_def]
  shape_listing_def [abs_def] shape_profile_def [abs_def] total_def [abs_def] bind_assoc

lemma dispatch_get_profile: "dispatch env ''get_profile'' args = via_spec env ''get_profile'' args"
  by (simp add: dispatch_def via_spec_def tool_spec_of_def getProfile_def skeleton_defs del: copy_args_Cons copy_args_Nil)

lemma dispatch_search_profiles: "dispatch env ''search_profiles'' args = via_spec env ''search_profiles'' args"
  by (simp add: dispatch_def via_spec_def tool_spec_of_def searchProfiles_def skeleton_defs del: copy_args_Cons copy_args_Nil)

lemma dispatch_get_profile_posts: "dispatch env ''get_profile_posts'' args = via_spec env ''get_profile_posts'' args"
  by (simp add: dispatch_def via_spec_def tool_spec_of_def getProfilePosts_def skeleton_defs del: copy_args_Cons copy_args_Nil)

lemma dispatch_get_profile_comments: "dispatch env ''get_profile_comments'' args = via_spec env ''get_profile_comments'' args"
  by (simp add: dispatch_def via_spec_def tool_spec_of_def getProfileComments_def skeleton_defs del: copy_args_Cons copy_args_Nil)

lemma dispatch_get_profile_reactions: "dispatch env ''get_profile_reactions'' args = via_spec env ''get_profile_reactions'' args"
  by (simp add: dispatch_def via_spec_def tool_spec_of_def getProfileReactions_def skeleton_defs del: copy_args_Cons copy_args_Nil)

lemma dispatch_get_company: "dispatch env ''get_company'' args = via_spec env ''get_company'' args"
  by (simp add: dispatch_def via_spec_def tool_spec_of_def getCompany_def skeleton_defs del: copy_args_Cons copy_args_Nil)

lemma dispatch_search_companies: "dispatch env ''search_companies'' args = via_spec env ''search_companies'' args"
  by (simp add: dispatch_def via_spec_def tool_spec_of_def searchCompanies_def skeleton_defs del: copy_args_Cons copy_args_Nil)

lemma dispatch_get_company_posts: "dispatch env ''get_company_posts'' args = via_spec env ''get_company_posts'' args"
  by (simp add: dispatch_def via_spec_def tool_spec_of_def getCompanyPosts_def skeleton_defs del: copy_args_Cons copy_args_Nil)

lemma dispatch_get_job: "dispatch env ''get_job'' args = via_spec env ''get_job'' args"
  by (simp add: dispatch_def via_spec_def tool_spec_of_def getJob_def skeleton_defs del: copy_args_Cons copy_args_Nil)

lemma dispatch_search_jobs: "dispatch env ''search_jobs'' args = via_spec env ''search_jobs'' args"
  by (simp add: dispatch_def via_spec_def tool_spec_of_def searchJobs_def skeleton_defs del: copy_args_Cons copy_args_Nil)

lemma dispatch_get_post: "dispatch env ''get_post'' args = via_spec env ''get_post'' args"
  by (simp add: dispatch_def via_spec_def tool_spec_of_def getPost_def skeleton_defs del: copy_args_Cons copy_args_Nil)

lemma dispatch_search_posts: "dispatch env ''search_posts'' args = via_spec env ''search_posts'' args"
  by (simp add: dispatch_def via_spec_def tool_spec_of_def searchPosts_def skeleton_defs del: copy_args_Cons copy_args_Nil)

lemma dispatch_get_post_comments: "dispatch env ''get_post_comments'' args = via_spec env ''get_post_comments'' args"
  by (simp add: dispatch_def via_spec_def tool_spec_of_def getPostComments_def skeleton_defs del: copy_args_Cons copy_args_Nil)

lemma dispatch_get_post_reactions: "dispatch env ''get_post_reactions'' args = via_spec env ''get_post_reactions'' args"
  by (simp add: dispatch_def via_spec_def tool_spec_of_def getPostReactions_def skeleton_defs del: copy_args_Cons copy_args_Nil)

lemma dispatch_get_group: "dispatch env ''get_group'' args = via_spec env ''get_group'' args"
  by (simp add: dispatch_def via_spec_def tool_spec_of_def getGroup_def skeleton_defs del: copy_args_Cons copy_args_Nil)

lemma dispatch_search_groups: "dispatch env ''search_groups'' args = via_spec env ''search_groups'' args"
  by (simp add: dispatch_def via_spec_def tool_spec_of_def searchGroups_def skeleton_defs del: copy_args_Cons copy_args_Nil)

lemma dispatch_search_geo_id: "dispatch env ''search_geo_id'' args = via_spec env ''search_geo_id'' args"
  by (simp add: dispatch_def via_spec_def tool_spec_of_def searchGeoId_def skeleton_defs del: copy_args_Cons copy_args_Nil)

lemmas dispatch_known =
  dispatch_get_profile
  dispatch_search_profiles
  dispatch_get_profile_posts
  dispatch_get_profile_comments
  dispatch_get_profile_reactions
  dispatch_get_company
  dispatch_search_companies
  dispatch_get_company_posts
  dispatch_get_job
  dispatch_search_jobs
  dispatch_get_post
  dispatch_search_posts
  dispatch_get_post_comments
  dispatch_get_post_reactions
  dispatch_get_group
  dispatch_search_groups
  dispatch_search_geo_id


lemma dispatch_unknown:
  assumes "name \<notin> set (map fst tool_schemas)"
  shows "dispatch env name args = via_spec env name args"
proof -
  from assms have
    "name \<noteq> ''get_profile''" "name \<noteq> ''search_profiles''" "name \<noteq> ''get_profile_posts''"
    "name \<noteq> ''get_profile_comments''" "name \<noteq> ''get_profile_reactions''"
    "name \<noteq> ''get_company''" "name \<noteq> ''search_companies''" "name \<noteq> ''get_company_posts''"
    "name \<noteq> ''get_job''" "name \<noteq> ''search_jobs''" "name \<noteq> ''get_post''"
    "name \<noteq> ''search_posts''" "name \<noteq> ''get_post_comments''"
    "name \<noteq> ''get_post_reactions''" "name \<noteq> ''get_group''" "name \<noteq> ''search_groups''"
    "name \<noteq> ''search_geo_id''"
    by (simp_all add: tool_schemas_def)
  then show ?thesis
    by (simp only: dispatch_def via_spec_def tool_spec_of_def if_False option.case)
qed

lemma dispatch_via_spec: "dispatch env name args = via_spec env name args"
proof (cases "name \<in> set (map fst tool_schemas)")
  case True
  then have
    "name = ''get_profile'' \<or> name = ''search_profiles'' \<or> name = ''get_profile_posts'' \<or> name = ''get_profile_comments'' \<or> name = ''get_profile_reactions'' \<or> name = ''get_company'' \<or> name = ''search_companies'' \<or> name = ''get_company_posts'' \<or> name = ''get_job'' \<or> name = ''search_jobs'' \<or> name = ''get_post'' \<or> name = ''search_posts'' \<or> name = ''get_post_comments'' \<or> name = ''get_post_reactions'' \<or> name = ''get_group'' \<or> name = ''search_groups'' \<or> name = ''search_geo_id''"
    by (simp add: tool_schemas_def)
  then show ?thesis
    by (elim disjE) (simp_all only: dispatch_known)
next
  case False
  then show ?thesis by (rule dispatch_unknown)
qed

lemma call_tool_via_spec:
  "call_tool env name (Some args) =
     (fst (via_spec env name args),
      case snd (via_spec env name args) of Inl e \<Rightarrow> Inl (rethrow e) | Inr reply \<Rightarrow> Inr reply)"
  by (simp add: call_tool_def dispatch_via_spec split: prod.splits sum.splits)

lemma fst_makeRequest:
  "fst (makeRequest env ep ps) =
     \<lparr>req_endpoint = ep,
      req_headers = (if apiKey env \<noteq> [] then [(''X-API-Key'', apiKey env)] else []),
      req_params = ps\<rparr>"
  by (simp add: makeRequest_def Let_def)

lemma snd_makeRequest_Inr:
  "snd (makeRequest env ep ps) = Inr data \<longleftrightarrow> http_get env (fst (makeRequest env ep ps)) = Inr data"
  by (auto simp: makeRequest_def Let_def split: sum.splits http_failure.splits)

lemma fst_run_tool:
  "fst (run_tool env args tool (rejected, ep, ps, shape, paged)) =
     (case rejected of Some msg \<Rightarrow> [] | None \<Rightarrow> [fst (makeRequest env ep ps)])"
  by (simp add: run_tool_def after_request_def split: option.splits)

lemma snd_run_tool:
  "snd (run_tool env args tool (rejected, ep, ps, shape, paged)) =
     (case rejected of
        Some msg \<Rightarrow> Inl (Error msg)
      | None \<Rightarrow> bind (snd (makeRequest env ep ps)) (finish env args tool paged shape))"
  by (simp add: run_tool_def after_request_def split: option.splits)

lemma copy_args_entry:
  assumes "k \<in> set ks" and "truthy (field args k)"
  shows "(k, field args k) \<in> set (copy_args args ks ps)"
proof -
  from assms have "k \<in> fst ` set (copy_args args ks ps)"
    by (simp add: keys_copy_args)
  then have "(k, field (copy_args args ks ps) k) \<in> set (copy_args args ks ps)"
    by (rule entry_of_field)
  with assms show ?thesis
    by (simp add: field_copy_args)
qed

lemma require_one_copy_args:
  "set alts \<subseteq> set ks \<Longrightarrow>
   require_one (copy_args args ks []) alts msg =
     (if \<forall>k \<in> set alts. \<not> truthy (field args k) then Some msg else None)"
  by (auto simp: require_one_def field_copy_args list_all_iff)

lemmas call_spec_defs = call_tool_via_spec via_spec_def tool_spec_of_def Let_def

lemma copy_args_keeps:
  assumes "k \<in> fst ` set ps" and "k \<notin> set ks"
  shows "(k, field ps k) \<in> set (copy_args args ks ps)"
proof -
  from assms have "k \<in> fst ` set (copy_args args ks ps)"
    by (simp add: keys_copy_args)
  then have "(k, field (copy_args args ks ps) k) \<in> set (copy_args args ks ps)"
    by (rule entry_of_field)
  with assms show ?thesis
    by (simp add: field_copy_args)
qed

lemma entry_iff_field:
  assumes "distinct (map fst ps)"
  shows "(k, v) \<in> set ps \<longleftrightarrow> k \<in> fst ` set ps \<and> field ps k = v"
proof
  assume kv: "(k, v) \<in> set ps"
  with assms have "map_of ps k = Some v"
    by (rule map_of_is_SomeI)
  with kv show "k \<in> fst ` set ps \<and> field ps k = v"
    by (force simp: field_def)
next
  assume "k \<in> fst ` set ps \<and> field ps k = v"
  then show "(k, v) \<in> set ps"
    using entry_of_field [of k ps] by auto
qed

lemmas params_simps =
  entry_iff_field distinct_copy_args distinct_copy_arg distinct_assign
  keys_copy_args keys_copy_arg keys_assign field_copy_args field_copy_arg

subsection \<open>Cleaners\<close>

lemma truthy_prop_of: "truthy (prop_of v k) \<Longrightarrow> truthy v"
  by (cases v) (auto split: if_splits)

lemma find_e_skip:
  assumes "\<forall>l \<in> set pre. \<not> nullish l \<and> \<not> truthy (prop_of l k)"
  shows "find_e (\<lambda>l. js_get l k) (pre @ xs) = find_e (\<lambda>l. js_get l k) xs"
  using assms by (induction pre) (simp_all add: js_get_def)

lemma find_e_hit:
  assumes "truthy (prop_of h k)"
  shows "find_e (\<lambda>l. js_get l k) (h # rest) = Inr h"
proof -
  from assms have "truthy h"
    by (rule truthy_prop_of)
  then have "\<not> nullish h"
    by (auto simp: nullish_def)
  with assms show ?thesis
    by (simp add: js_get_def)
qed

lemma show_nat_small: "n < 10 \<Longrightarrow> show_nat n = [digit_char n]"
  by (simp add: show_nat.simps)

lemma show_nat_large: "10 \<le> n \<Longrightarrow> show_nat n = show_nat (n div 10) @ [digit_char n]"
  by (subst show_nat.simps) simp

lemmas show_int_eval = show_int_def show_nat_small show_nat_large digit_char_def

subsection \<open>Case analysis on the tool name\<close>

lemma tool_name_cases:
  obtains
      "name = ''get_profile''"
    | "name = ''search_profiles''"
    | "name = ''get_profile_posts''"
    | "name = ''get_profile_comments''"
    | "name = ''get_profile_reactions''"
    | "name = ''get_company''"
    | "name = ''search_companies''"
    | "name = ''get_company_posts''"
    | "name = ''get_job''"
    | "name = ''search_jobs''"
    | "name = ''get_post''"
    | "name = ''search_posts''"
    | "name = ''get_post_comments''"
    | "name = ''get_post_reactions''"
    | "name = ''get_group''"
    | "name = ''search_groups''"
    | "name = ''search_geo_id''"
    | "name \<notin> set (map fst tool_schemas)"
proof (cases "name \<in> set (map fst tool_schemas)")
  case True
  then have
    "name = ''get_profile'' \<or> name = ''search_profiles'' \<or> name = ''get_profile_posts''
     \<or> name = ''get_profile_comments'' \<or> name = ''get_profile_reactions''
     \<or> name = ''get_company'' \<or> name = ''search_companies'' \<or> name = ''get_company_posts''
     \<or> name = ''get_job'' \<or> name = ''search_jobs'' \<or> name = ''get_post''
     \<or> name = ''search_posts'' \<or> name = ''get_post_comments''
     \<or> name = ''get_post_reactions'' \<or> name = ''get_group'' \<or> name = ''search_groups''
     \<or> name = ''search_geo_id''"
    by (simp add: tool_schemas_def)
  then show ?thesis
    using that by (elim disjE) blast+
next
  case False
  then show ?thesis
    using that by blast
qed

lemma tool_spec_unknown:
  assumes "name \<notin> set (map fst tool_schemas)"
  shows "tool_spec_of env args name = None"
  using assms by (simp add: tool_schemas_def tool_spec_of_def)

lemma call_tool_unknown:
  assumes "name \<notin> set (map fst tool_schemas)"
  shows "call_tool env name (Some args) =
           ([], Inl (McpError MethodNotFound (''Unknown tool: '' @ name)))"
  using assms by (simp add: call_tool_via_spec via_spec_def tool_spec_unknown)

subsection \<open>The query of each handler\<close>

lemma request_of_call:
  assumes "rq \<in> set (fst (call_tool env name (Some args)))"
  obtains ep ps shape paged where
    "tool_spec_of env args name = Some (None, ep, ps, shape, paged)"
    and "req_endpoint rq = ep" and "req_params rq = ps"
proof (cases "tool_spec_of env args name")
  case None
  with assms show ?thesis
    by (simp add: call_tool_via_spec via_spec_def)
next
  case (Some spec)
  obtain rej ep ps shape paged where spec: "spec = (rej, ep, ps, shape, paged)"
    by (cases spec) auto
  with assms Some have "rej = None \<and> rq = fst (makeRequest env ep ps)"
    by (cases rej) (simp_all add: call_tool_via_spec via_spec_def fst_run_tool)
  with Some spec that show ?thesis
    by (simp add: fst_makeRequest)
qed

lemmas spec_simps = tool_spec_of_def Let_def params_simps

lemma complete_copy_args:
  assumes "k \<in> set ks \<or> (k \<in> fst ` set init \<and> field init k = field args k)"
    and "truthy (field args k)" and "distinct (map fst init)"
  shows "(k, field args k) \<in> set (copy_args args ks init)"
  using assms by (auto simp: params_simps)

lemma complete_copy_arg:
  assumes "k = a \<or> (k, field args k) \<in> set ps"
    and "truthy (field args k)" and "distinct (map fst ps)"
  shows "(k, field args k) \<in> set (copy_arg args a ps)"
  using assms by (auto simp: params_simps)

lemma complete_assign:
  assumes "(k = a \<and> v = field args k) \<or> (k \<noteq> a \<and> (k, field args k) \<in> set ps)"
    and "distinct (map fst ps)"
  shows "(k, field args k) \<in> set (assign ps a v)"
  using assms by (auto simp: params_simps)

lemma complete_search_jobs:
  assumes "k \<in> set ks \<or> k = ''easyApply'' \<or> k = ''page''" and "truthy (field args k)"
  shows "(k, field args k)
           \<in> set (copy_arg args ''page''
                   (if field args ''easyApply'' \<noteq> JUndefined
                    then assign (copy_args args ks []) ''easyApply'' (field args ''easyApply'')
                    else copy_args args ks []))"
  using assms by (auto simp: params_simps)

lemma spec_complete:
  assumes "tool_spec_of env args name = Some (rej, ep, ps, shape, paged)"
    and "(name, props, required) \<in> set tool_schemas"
    and "k \<in> set props" and "k \<notin> set local_args" and "truthy (field args k)"
  shows "(k, field args k) \<in> set ps"
  using assms
  apply (cases name rule: tool_name_cases)
  prefer 18
   apply (simp add: tool_spec_unknown)
  apply (clarsimp simp add: tool_spec_of_def Let_def tool_schemas_def local_args_def
        simp del: copy_args_Cons copy_args_Nil split del: if_split;
      ((rule complete_copy_args complete_search_jobs); auto)?)+
  done

lemma sound_copy_args:
  assumes "(k, v) \<in> set (copy_args args ks init)"
  shows "(k \<in> set ks \<and> v = field args k \<and> truthy v) \<or> (k, v) \<in> set init"
  using set_copy_args [OF assms] by blast

lemma sound_search_jobs:
  assumes "(k, v) \<in> set (copy_arg args ''page''
                   (if field args ''easyApply'' \<noteq> JUndefined
                    then assign (copy_args args ks []) ''easyApply'' (field args ''easyApply'')
                    else copy_args args ks []))"
  shows "v = field args k \<and> (truthy v \<or> (k = ''easyApply'' \<and> v \<noteq> JUndefined))"
  using assms
  by (auto dest!: set_copy_arg set_assign set_copy_args split: if_splits)

lemma spec_sound:
  assumes "tool_spec_of env args name = Some (rej, ep, ps, shape, paged)"
    and "(k, v) \<in> set ps"
  shows "v = field args k
         \<and> (truthy v \<or> (name, k) \<in> set unconditional_params
             \<or> (name = ''search_jobs'' \<and> k = ''easyApply'' \<and> v \<noteq> JUndefined))"
  using assms
  apply (cases name rule: tool_name_cases)
  prefer 18
   apply (simp add: tool_spec_unknown)
  apply (clarsimp simp add: tool_spec_of_def Let_def unconditional_params_def
        simp del: copy_args_Cons copy_args_Nil split del: if_split;
      ((drule sound_copy_args sound_search_jobs); auto)?)+
  done

lemma spec_distinct:
  assumes "tool_spec_of env args name = Some (rej, ep, ps, shape, paged)"
  shows "distinct (map fst ps)"
  using assms
  apply (cases name rule: tool_name_cases)
  prefer 18
   apply (simp add: tool_spec_unknown)
  apply (clarsimp simp add: tool_spec_of_def Let_def distinct_copy_args
        distinct_copy_arg distinct_assign
        simp del: copy_args_Cons copy_args_Nil)+
  done

lemma keep_copy_args:
  assumes "k \<notin> set ks"
  shows "(k, v) \<in> set (copy_args args ks [(k, v)])"
  using copy_args_keeps [of k "[(k, v)]" ks args] assms by simp

lemma keep_search_jobs:
  assumes "field args ''easyApply'' \<noteq> JUndefined" and "''easyApply'' \<notin> set ks"
  shows "(''easyApply'', field args ''easyApply'')
           \<in> set (copy_arg args ''page''
                    (if field args ''easyApply'' \<noteq> JUndefined
                     then assign (copy_args args ks []) ''easyApply'' (field args ''easyApply'')
                     else copy_args args ks []))"
proof -
  define ps1 where "ps1 = assign (copy_args args ks []) ''easyApply'' (field args ''easyApply'')"
  have d: "distinct (map fst (copy_arg args ''page'' ps1))"
    by (simp add: ps1_def distinct_copy_arg distinct_assign distinct_copy_args)
  have "''easyApply'' \<in> fst ` set (copy_arg args ''page'' ps1)"
    by (simp add: ps1_def keys_copy_arg keys_assign)
  moreover have "field (copy_arg args ''page'' ps1) ''easyApply'' = field args ''easyApply''"
    by (simp add: ps1_def field_copy_arg)
  ultimately have "(''easyApply'', field args ''easyApply'') \<in> set (copy_arg args ''page'' ps1)"
    using entry_iff_field [OF d] by blast
  with assms show ?thesis
    by (simp add: ps1_def)
qed

lemma spec_unconditional:
  assumes "tool_spec_of env args name = Some (rej, ep, ps, shape, paged)"
    and "(name, k) \<in> set unconditional_params"
  shows "(k, field args k) \<in> set ps"
  using assms
  apply (simp add: unconditional_params_def)
  apply (elim disjE)
        apply (clarsimp simp add: tool_spec_of_def keep_copy_args
      simp del: copy_args_Cons copy_args_Nil)+
  done

lemma spec_easy_apply:
  assumes "tool_spec_of env args ''search_jobs'' = Some (rej, ep, ps, shape, paged)"
    and "field args ''easyApply'' \<noteq> JUndefined"
  shows "(''easyApply'', field args ''easyApply'') \<in> set ps"
proof -
  from assms(1) have "ps = copy_arg args ''page''
                    (if field args ''easyApply'' \<noteq> JUndefined
                     then assign (copy_args args
                       [''search'', ''companyId'', ''location'', ''geoId'', ''sortBy'',
                        ''workplaceType'', ''employmentType'', ''salary'', ''postedLimit'',
                        ''experienceLevel'', ''industryId'', ''functionId'',
                        ''under10Applicants''] []) ''easyApply'' (field args ''easyApply'')
                     else copy_args args
                       [''search'', ''companyId'', ''location'', ''geoId'', ''sortBy'',
                        ''workplaceType'', ''employmentType'', ''salary'', ''postedLimit'',
                        ''experienceLevel'', ''industryId'', ''functionId'',
                        ''under10Applicants''] [])"
    by (simp add: tool_spec_of_def Let_def del: copy_args_Cons copy_args_Nil split del: if_split)
  moreover have "(''easyApply'', field args ''easyApply'')
           \<in> set (copy_arg args ''page''
                    (if field args ''easyApply'' \<noteq> JUndefined
                     then assign (copy_args args
                       [''search'', ''companyId'', ''location'', ''geoId'', ''sortBy'',
                        ''workplaceType'', ''employmentType'', ''salary'', ''postedLimit'',
                        ''experienceLevel'', ''industryId'', ''functionId'',
                        ''under10Applicants''] []) ''easyApply'' (field args ''easyApply'')
                     else copy_args args
                       [''search'', ''companyId'', ''location'', ''geoId'', ''sortBy'',
                        ''workplaceType'', ''employmentType'', ''salary'', ''postedLimit'',
                        ''experienceLevel'', ''industryId'', ''functionId'',
                        ''under10Applicants''] []))"
    using assms(2) by (intro keep_search_jobs) simp_all
  ultimately show ?thesis
    by simp
qed

subsection \<open>The reply of each handler\<close>

lemma tool_spec_empty_name: "tool_spec_of env args [] = None"
  by (simp add: tool_spec_of_def)

lemma call_of_spec:
  assumes "tool_spec_of env args name = Some (None, ep, ps, shape, paged)"
  shows "call_tool env name (Some args) =
           ([fst (makeRequest env ep ps)],
            case bind (snd (makeRequest env ep ps)) (finish env args name paged shape) of
              Inl e \<Rightarrow> Inl (rethrow e) | Inr reply \<Rightarrow> Inr reply)"
  using assms by (simp add: call_tool_via_spec via_spec_def fst_run_tool snd_run_tool)

lemma reply_of_call:
  assumes "call_tool env name (Some args) = (reqs, Inr reply)"
  obtains ep ps shape paged data cleaned where
    "tool_spec_of env args name = Some (None, ep, ps, shape, paged)"
    and "reqs = [fst (makeRequest env ep ps)]"
    and "http_get env (fst (makeRequest env ep ps)) = Inr data"
    and "shape data = Inr cleaned"
    and "reply = formatResponse env cleaned
                   \<lparr>saveDir = field args ''save_dir'', toolName = name,
                    pagination = (if paged then prop_of data ''pagination'' else JUndefined)\<rparr>"
proof (cases "tool_spec_of env args name")
  case None
  with assms show ?thesis
    by (simp add: call_tool_via_spec via_spec_def)
next
  case (Some spec)
  obtain rej ep ps shape paged where spec: "spec = (rej, ep, ps, shape, paged)"
    by (cases spec) auto
  from assms Some spec have rej: "rej = None"
    by (cases rej) (simp_all add: call_tool_via_spec via_spec_def snd_run_tool)
  with assms Some spec have
    reqs: "reqs = [fst (makeRequest env ep ps)]" and
    res: "bind (snd (makeRequest env ep ps)) (finish env args name paged shape) = Inr reply"
    by (auto simp: call_tool_via_spec via_spec_def fst_run_tool snd_run_tool split: sum.splits)
  from res obtain data where
    data: "snd (makeRequest env ep ps) = Inr data" and
    fin: "finish env args name paged shape data = Inr reply"
    by (auto simp: bind_eq_Inr)
  from fin obtain cleaned where
    cleaned: "shape data = Inr cleaned" and
    reply: "reply = formatResponse env cleaned
                   \<lparr>saveDir = field args ''save_dir'', toolName = name,
                    pagination = (if paged then prop_of data ''pagination'' else JUndefined)\<rparr>"
    by (auto simp: finish_def bind_eq_Inr)
  from data have "http_get env (fst (makeRequest env ep ps)) = Inr data"
    by (simp add: snd_makeRequest_Inr)
  with Some spec rej reqs cleaned reply that show ?thesis
    by blast
qed

lemma spec_paged:
  assumes "tool_spec_of env args name = Some (rej, ep, ps, shape, paged)"
  shows "paged = (name \<in> set paged_tools) \<and> (\<not> paged) = (name \<in> set unpaged_tools)"
  using assms
  apply (cases name rule: tool_name_cases)
  prefer 18
   apply (simp add: tool_spec_unknown)
  apply (clarsimp simp add: tool_spec_of_def Let_def paged_tools_def unpaged_tools_def)+
  done

lemma formatResponse_text:
  "formatResponse env c \<lparr>saveDir = d, toolName = t, pagination = pg\<rparr> =
     \<lparr>content =
        [TextContent
           (toon_encode env (response_output c pg)
            @ (if truthy d \<and> t \<noteq> [] \<and> saveData env (response_output c pg) d t \<noteq> []
               then saved_note (saveData env (response_output c pg) d t) else []))]\<rparr>"
  by (simp add: formatResponse_def Let_def)


subsection \<open>Persistence\<close>

lemma saveData_fails:
  assumes "save_fails env data dir tool e"
  shows "saveData env data dir tool = ''Error saving: '' @ e"
  using assms
  by (auto simp: save_fails_def saveData_def Let_def split: option.splits sum.splits)

lemma formatResponse_save_fails:
  assumes "truthy d" and "t \<noteq> []" and "save_fails env (response_output c pg) d t e"
  shows "formatResponse env c \<lparr>saveDir = d, toolName = t, pagination = pg\<rparr> =
           \<lparr>content =
              map (append_text (saved_note (''Error saving: '' @ e)))
                (content (formatResponse env c
                            \<lparr>saveDir = JUndefined, toolName = t, pagination = pg\<rparr>))\<rparr>"
  using assms
  by (simp add: formatResponse_text saveData_fails append_text_def)

lemma field_without_arg:
  "field (without_arg a args) k = (if k = a then JUndefined else field args k)"
  by (induction args) (auto simp: without_arg_def)

lemma copy_args_cong:
  "(\<And>k. k \<in> set ks \<Longrightarrow> field b k = field a k) \<Longrightarrow> copy_args b ks ps = copy_args a ks ps"
  by (induction ks arbitrary: ps) (simp_all add: copy_arg_def)

lemma tool_spec_without_save:
  "tool_spec_of env (without_arg ''save_dir'' args) name = tool_spec_of env args name"
proof -
  define b where "b = without_arg ''save_dir'' args"
  have f: "\<And>k. k \<noteq> ''save_dir'' \<Longrightarrow> field b k = field args k"
    by (simp add: b_def field_without_arg)
  have ca: "\<And>ks ps. ''save_dir'' \<notin> set ks \<Longrightarrow> copy_args b ks ps = copy_args args ks ps"
    by (rule copy_args_cong) (metis f)
  have c1: "\<And>k ps. k \<noteq> ''save_dir'' \<Longrightarrow> copy_arg b k ps = copy_arg args k ps"
    by (simp add: copy_arg_def f)
  have sl: "\<And>cleaner. shape_listing env b cleaner = shape_listing env args cleaner"
    by (simp add: shape_listing_def [abs_def] f)
  have sp: "shape_profile env b = shape_profile env args"
    by (simp add: shape_profile_def [abs_def] f)
  have "tool_spec_of env b name = tool_spec_of env args name"
    apply (cases name rule: tool_name_cases)
    prefer 18
     apply (simp add: tool_spec_unknown)
    apply (simp add: tool_spec_of_def Let_def ca c1 sl sp f
        del: copy_args_Cons copy_args_Nil)+
    done
  then show ?thesis
    by (simp add: b_def)
qed

lemma call_tool_save_dir:
  "fst (call_tool env name (Some args)) =
     fst (call_tool env name (Some (without_arg ''save_dir'' args)))
   \<and> ((\<exists>x. snd (call_tool env name (Some args)) = Inl x
           \<and> snd (call_tool env name (Some (without_arg ''save_dir'' args))) = Inl x)
       \<or> (\<exists>cleaned pg.
            name \<noteq> []
            \<and> snd (call_tool env name (Some args)) =
                Inr (formatResponse env cleaned
                       \<lparr>saveDir = field args ''save_dir'', toolName = name, pagination = pg\<rparr>)
            \<and> snd (call_tool env name (Some (without_arg ''save_dir'' args))) =
                Inr (formatResponse env cleaned
                       \<lparr>saveDir = JUndefined, toolName = name, pagination = pg\<rparr>)))"
proof (cases "tool_spec_of env args name")
  case None
  then show ?thesis
    by (simp add: call_tool_via_spec via_spec_def tool_spec_without_save)
next
  case (Some spec)
  then have name: "name \<noteq> []"
    by (auto simp: tool_spec_empty_name)
  obtain rej ep ps shape paged where spec: "spec = (rej, ep, ps, shape, paged)"
    by (cases spec) auto
  show ?thesis
  proof (cases rej)
    case (Some msg)
    with \<open>tool_spec_of env args name = Some spec\<close> spec show ?thesis
      by (simp add: call_tool_via_spec via_spec_def tool_spec_without_save
          fst_run_tool snd_run_tool)
  next
    case None
    with \<open>tool_spec_of env args name = Some spec\<close> spec have
      s: "tool_spec_of env args name = Some (None, ep, ps, shape, paged)"
      by simp
    then have
      s': "tool_spec_of env (without_arg ''save_dir'' args) name =
             Some (None, ep, ps, shape, paged)"
      by (simp add: tool_spec_without_save)
    note w = call_of_spec [OF s] and b = call_of_spec [OF s']
    show ?thesis
    proof (cases "snd (makeRequest env ep ps)")
      case (Inl x)
      then show ?thesis
        by (simp add: w b)
    next
      case (Inr data)
      show ?thesis
      proof (cases "shape data")
        case (Inl x)
        with Inr show ?thesis
          by (simp add: w b finish_def)
      next
        case (Inr cleaned)
        define pg where "pg = (if paged then prop_of data ''pagination'' else JUndefined)"
        from Inr \<open>snd (makeRequest env ep ps) = Inr data\<close> have
          "snd (call_tool env name (Some args)) =
             Inr (formatResponse env cleaned
                    \<lparr>saveDir = field args ''save_dir'', toolName = name, pagination = pg\<rparr>)"
          and "snd (call_tool env name (Some (without_arg ''save_dir'' args))) =
             Inr (formatResponse env cleaned
                    \<lparr>saveDir = JUndefined, toolName = name, pagination = pg\<rparr>)"
          and "fst (call_tool env name (Some args)) =
             fst (call_tool env name (Some (without_arg ''save_dir'' args)))"
          by (simp_all add: w b finish_def field_without_arg pg_def)
        with name show ?thesis
          by blast
      qed
    qed
  qed
qed

subsection \<open>Bounding\<close>

lemma spec_listing:
  assumes "(tool, cleaner) \<in> set (listing_tools env)"
    and "tool_spec_of env args tool = Some (rej, ep, ps, shape, paged)"
  shows "shape = shape_listing env args cleaner"
proof -
  from assms(1) have
    "(tool, cleaner) = listing_tools env ! 0 \<or> (tool, cleaner) = listing_tools env ! 1
     \<or> (tool, cleaner) = listing_tools env ! 2 \<or> (tool, cleaner) = listing_tools env ! 3
     \<or> (tool, cleaner) = listing_tools env ! 4 \<or> (tool, cleaner) = listing_tools env ! 5
     \<or> (tool, cleaner) = listing_tools env ! 6 \<or> (tool, cleaner) = listing_tools env ! 7
     \<or> (tool, cleaner) = listing_tools env ! 8 \<or> (tool, cleaner) = listing_tools env ! 9
     \<or> (tool, cleaner) = listing_tools env ! 10 \<or> (tool, cleaner) = listing_tools env ! 11"
    by (simp add: listing_tools_def)
  then show ?thesis
    using assms(2)
    apply (elim disjE)
    apply (clarsimp simp add: listing_tools_def tool_spec_of_def Let_def)+
    done
qed

lemma js_get_present: "prop_of data k \<noteq> JUndefined \<Longrightarrow> js_get data k = Inr (prop_of data k)"
  by (cases data) (simp_all add: js_get_def nullish_def)

lemma shape_listing_array:
  assumes "prop_of data ''elements'' = JArr xs"
    and "js_or (field args ''max_items'') (JNum 10) = JNum M" and "0 \<le> M"
  shows "shape_listing env args cleaner data =
           bind (map_e cleaner (take (nat M) xs)) (\<lambda>ys. Inr (JArr ys))"
  using assms
  by (simp add: shape_listing_def js_get_present shape_elements_def slice0_nonneg js_or_def)

lemma map_e_take:
  assumes "map_e f (take n xs) = Inr ys"
  shows "length ys = min (length xs) n \<and> (\<forall>i < length ys. f (xs ! i) = Inr (ys ! i))"
proof -
  from assms have len: "length ys = length (take n xs)"
    by (rule map_e_length)
  moreover have "f (xs ! i) = Inr (ys ! i)" if "i < length ys" for i
  proof -
    from that len have i: "i < length (take n xs)" by simp
    from map_e_nth [OF assms i] i show ?thesis by simp
  qed
  ultimately show ?thesis by simp
qed

lemma listing_bound:
  assumes "(tool, cleaner) \<in> set (listing_tools env)"
    and "js_or (field args ''max_items'') (JNum 10) = JNum M" and "0 \<le> M"
    and "fst (call_tool env tool (Some args)) = [rq]"
    and "http_get env rq = Inr data"
    and "prop_of data ''elements'' = JArr xs"
    and "map_e cleaner (take (nat M) xs) = Inr ys"
  shows "snd (call_tool env tool (Some args)) =
           Inr (formatResponse env (JArr ys)
                  \<lparr>saveDir = field args ''save_dir'', toolName = tool,
                   pagination = (if tool \<in> set paged_tools then prop_of data ''pagination''
                                 else JUndefined)\<rparr>)
         \<and> length ys = min (length xs) (nat M)
         \<and> (\<forall>i < length ys. cleaner (xs ! i) = Inr (ys ! i))"
proof -
  from assms(4) have "rq \<in> set (fst (call_tool env tool (Some args)))"
    by simp
  then obtain ep ps shape paged where
    spec: "tool_spec_of env args tool = Some (None, ep, ps, shape, paged)"
    by (rule request_of_call)
  from spec assms(1) have shape: "shape = shape_listing env args cleaner"
    using spec_listing by blast
  from spec have paged: "paged = (tool \<in> set paged_tools)"
    using spec_paged by blast
  from assms(4) have rq: "rq = fst (makeRequest env ep ps)"
    by (simp add: call_of_spec [OF spec])
  with assms(5) have data: "snd (makeRequest env ep ps) = Inr data"
    by (simp add: snd_makeRequest_Inr)
  have "shape data = Inr (JArr ys)"
    unfolding shape using assms(2,3,6,7) by (simp add: shape_listing_array)
  with data paged have "snd (call_tool env tool (Some args)) =
           Inr (formatResponse env (JArr ys)
                  \<lparr>saveDir = field args ''save_dir'', toolName = tool,
                   pagination = (if tool \<in> set paged_tools then prop_of data ''pagination''
                                 else JUndefined)\<rparr>)"
    by (simp add: call_of_spec [OF spec] finish_def)
  with map_e_take [OF assms(7)] show ?thesis
    by simp
qed

lemma map_or_empty_Inr:
  assumes "map_or_empty f v = Inr r"
  shows "\<exists>ys. r = JArr ys \<and> (\<forall>es. v = JArr es \<longrightarrow> map_e f es = Inr ys)"
  using assms
  by (auto simp: map_or_empty_def as_array_def js_or_def bind_eq_Inr
      split: jsval.splits if_splits)

lemma limit_field_array:
  assumes "field c k = JArr ys" and "0 \<le> M"
  shows "limit_field env (JNum M) k c = Inr (assign c k (JArr (take (nat M) ys)))"
  using assms by (simp add: limit_field_def slice0_nonneg)

lemma limit_profile_arrays:
  assumes "field c ''experience'' = JArr a1" and "field c ''education'' = JArr a2"
    and "field c ''skills'' = JArr a3" and "field c ''certifications'' = JArr a4"
    and "0 \<le> M"
  obtains c' where "limit_profile env (JNum M) (JObj c) = Inr (JObj c')"
    and "field c' ''experience'' = JArr (take (nat M) a1)"
    and "field c' ''education'' = JArr (take (nat M) a2)"
    and "field c' ''skills'' = JArr (take (nat M) a3)"
    and "field c' ''certifications'' = JArr (take (nat M) a4)"
  using assms
  by (simp add: limit_profile_def limit_field_array)

lemma cleanProfile_lists:
  assumes "truthy el" and "cleanProfile el = Inr cl"
  obtains c ex ed sk ce where "cl = JObj c"
    and "field c ''experience'' = ex" and "field c ''education'' = ed"
    and "field c ''skills'' = sk" and "field c ''certifications'' = ce"
    and "map_or_empty clean_experience (prop_of el ''experience'') = Inr ex"
    and "map_or_empty clean_education (prop_of el ''education'') = Inr ed"
    and "map_or_empty clean_skill (prop_of el ''skills'') = Inr sk"
    and "map_or_empty clean_certification (prop_of el ''certifications'') = Inr ce"
  using assms
  by (auto simp: cleanProfile_def bind_eq_Inr)

lemma map_e_then_take:
  assumes "map_e f es = Inr ys"
  shows "length (take n ys) = min (length es) n
         \<and> (\<forall>i < length (take n ys). f (es ! i) = Inr (take n ys ! i))"
proof -
  from assms have len: "length ys = length es"
    by (rule map_e_length)
  moreover have "f (es ! i) = Inr (take n ys ! i)" if "i < length (take n ys)" for i
  proof -
    from that len have "i < length es" by simp
    from map_e_nth [OF assms this] that show ?thesis by simp
  qed
  ultimately show ?thesis by simp
qed

lemma profile_list_present:
  assumes "(k, f) \<in> set profile_lists" and "prop_of el k = JArr es"
  shows "truthy el"
  using assms by (cases el) (auto simp: profile_lists_def)

lemma profile_bound:
  assumes "(k, f) \<in> set profile_lists"
    and "js_or (field args ''max_items'') (JNum 5) = JNum M" and "0 \<le> M"
    and "call_tool env ''get_profile'' (Some args) = ([rq], Inr reply)"
    and "http_get env rq = Inr data"
    and "prop_of (prop_of data ''element'') k = JArr es"
  shows "\<exists>shaped ys.
           reply = formatResponse env shaped
                     \<lparr>saveDir = field args ''save_dir'', toolName = ''get_profile'',
                      pagination = JUndefined\<rparr>
           \<and> prop_of shaped k = JArr ys
           \<and> length ys = min (length es) (nat M)
           \<and> (\<forall>i < length ys. f (es ! i) = Inr (ys ! i))"
proof -
  from assms(4) obtain ep ps shape paged data' shaped where
    spec: "tool_spec_of env args ''get_profile'' = Some (None, ep, ps, shape, paged)"
    and reqs: "[rq] = [fst (makeRequest env ep ps)]"
    and data': "http_get env (fst (makeRequest env ep ps)) = Inr data'"
    and shaped: "shape data' = Inr shaped"
    and reply: "reply = formatResponse env shaped
                   \<lparr>saveDir = field args ''save_dir'', toolName = ''get_profile'',
                    pagination = (if paged then prop_of data' ''pagination'' else JUndefined)\<rparr>"
    by (rule reply_of_call)
  from reqs data' assms(5) have [simp]: "data' = data"
    by simp
  from spec have shape: "shape = shape_single (shape_profile env args)" and paged: "\<not> paged"
    by (simp_all add: tool_spec_of_def Let_def)
  define el where "el = prop_of data ''element''"
  from assms(1,6) have el: "truthy el"
    unfolding el_def by (rule profile_list_present)
  then have "prop_of data ''element'' \<noteq> JUndefined"
    unfolding el_def by auto
  then have "js_get data ''element'' = Inr el"
    unfolding el_def by (rule js_get_present)
  with shaped shape assms(2) obtain cl where
    cl: "cleanProfile el = Inr cl" and lim: "limit_profile env (JNum M) cl = Inr shaped"
    by (auto simp: shape_single_def shape_profile_def bind_eq_Inr)
  from el cl obtain c ex ed sk ce where c: "cl = JObj c"
    and fields: "field c ''experience'' = ex" "field c ''education'' = ed"
      "field c ''skills'' = sk" "field c ''certifications'' = ce"
    and maps: "map_or_empty clean_experience (prop_of el ''experience'') = Inr ex"
      "map_or_empty clean_education (prop_of el ''education'') = Inr ed"
      "map_or_empty clean_skill (prop_of el ''skills'') = Inr sk"
      "map_or_empty clean_certification (prop_of el ''certifications'') = Inr ce"
    by (rule cleanProfile_lists)
  from maps(1) obtain a1 where a1: "ex = JArr a1"
    "\<And>es. prop_of el ''experience'' = JArr es \<Longrightarrow> map_e clean_experience es = Inr a1"
    using map_or_empty_Inr by blast
  from maps(2) obtain a2 where a2: "ed = JArr a2"
    "\<And>es. prop_of el ''education'' = JArr es \<Longrightarrow> map_e clean_education es = Inr a2"
    using map_or_empty_Inr by blast
  from maps(3) obtain a3 where a3: "sk = JArr a3"
    "\<And>es. prop_of el ''skills'' = JArr es \<Longrightarrow> map_e clean_skill es = Inr a3"
    using map_or_empty_Inr by blast
  from maps(4) obtain a4 where a4: "ce = JArr a4"
    "\<And>es. prop_of el ''certifications'' = JArr es \<Longrightarrow> map_e clean_certification es = Inr a4"
    using map_or_empty_Inr by blast
  from fields a1(1) a2(1) a3(1) a4(1) assms(3) obtain c' where
    c': "limit_profile env (JNum M) (JObj c) = Inr (JObj c')"
    and lims: "field c' ''experience'' = JArr (take (nat M) a1)"
      "field c' ''education'' = JArr (take (nat M) a2)"
      "field c' ''skills'' = JArr (take (nat M) a3)"
      "field c' ''certifications'' = JArr (take (nat M) a4)"
    using limit_profile_arrays [of c a1 a2 a3 a4 M env] by blast
  from lim c c' have sh: "shaped = JObj c'"
    by simp
  from assms(1) have
    "(k = ''experience'' \<and> f = clean_experience) \<or> (k = ''education'' \<and> f = clean_education)
     \<or> (k = ''skills'' \<and> f = clean_skill) \<or> (k = ''certifications'' \<and> f = clean_certification)"
    by (simp add: profile_lists_def)
  then have "\<exists>ys. prop_of shaped k = JArr ys
           \<and> length ys = min (length es) (nat M)
           \<and> (\<forall>i < length ys. f (es ! i) = Inr (ys ! i))"
  proof (elim disjE conjE)
    assume "k = ''experience''" "f = clean_experience"
    with assms(6) a1(2) lims(1) sh show ?thesis
      using map_e_then_take [of clean_experience es a1 "nat M"] map_e_length [of clean_experience es a1]
      by (simp add: el_def)
  next
    assume "k = ''education''" "f = clean_education"
    with assms(6) a2(2) lims(2) sh show ?thesis
      using map_e_then_take [of clean_education es a2 "nat M"] map_e_length [of clean_education es a2]
      by (simp add: el_def)
  next
    assume "k = ''skills''" "f = clean_skill"
    with assms(6) a3(2) lims(3) sh show ?thesis
      using map_e_then_take [of clean_skill es a3 "nat M"] map_e_length [of clean_skill es a3]
      by (simp add: el_def)
  next
    assume "k = ''certifications''" "f = clean_certification"
    with assms(6) a4(2) lims(4) sh show ?thesis
      using map_e_then_take [of clean_certification es a4 "nat M"] map_e_length [of clean_certification es a4]
      by (simp add: el_def)
  qed
  with reply paged show ?thesis
    by auto
qed

section \<open>Validation of the at-least-one-of rules\<close>

text \<open>
  C1. For each of the eight operations with an at-least-one-of guard: when every
  alternative argument is absent or falsy the call makes no request and fails, and the
  failure is the internal-error code with the message \<open>HarvestAPI error: \<close> followed by
  the guard's message (the guard throws a plain error, which the handler's \<open>catch\<close>
  wraps); when some alternative has a truthy value the guard passes, exactly one request is
  made and every truthy alternative is in its query; the guard's message names every
  alternative.
\<close>

theorem at_least_one_of_rule:
  assumes "(tool, alts, msg) \<in> set at_least_one_rules"
  shows "((\<forall>k \<in> set alts. \<not> truthy (field args k)) \<longrightarrow>
            call_tool env tool (Some args) =
              ([], Inl (McpError InternalError (''HarvestAPI error: '' @ msg))))
       \<and> ((\<exists>k \<in> set alts. truthy (field args k)) \<longrightarrow>
            (\<exists>rq. fst (call_tool env tool (Some args)) = [rq]
               \<and> (\<forall>k \<in> set alts. truthy (field args k) \<longrightarrow>
                     (k, field args k) \<in> set (req_params rq))))
       \<and> (\<forall>k \<in> set alts. sublist k msg)"
proof -
  from assms have "(tool, alts, msg) = at_least_one_rules ! 0 \<or> (tool, alts, msg) = at_least_one_rules ! 1
     \<or> (tool, alts, msg) = at_least_one_rules ! 2 \<or> (tool, alts, msg) = at_least_one_rules ! 3
     \<or> (tool, alts, msg) = at_least_one_rules ! 4 \<or> (tool, alts, msg) = at_least_one_rules ! 5
     \<or> (tool, alts, msg) = at_least_one_rules ! 6 \<or> (tool, alts, msg) = at_least_one_rules ! 7"
    by (simp add: at_least_one_rules_def)
  then show ?thesis
    apply (elim disjE)
    apply (simp_all add: at_least_one_rules_def call_spec_defs fst_run_tool snd_run_tool require_one_copy_args
        fst_makeRequest copy_args_entry sublist_code del: copy_args_Cons copy_args_Nil)
    done
qed

theorem at_least_one_of_rule_witness:
  "(''get_job'', [''jobId'', ''url''], ''At least one of jobId or url is required'')
     \<in> set at_least_one_rules
   \<and> call_tool sample_env ''get_job'' (Some []) =
       ([], Inl (McpError InternalError
                   ''HarvestAPI error: At least one of jobId or url is required''))
   \<and> fst (call_tool sample_env ''get_job'' (Some [(''jobId'', JStr ''4153069088'')])) =
       [\<lparr>req_endpoint = ''/job'', req_headers = [(''X-API-Key'', ''key'')],
         req_params = [(''jobId'', JStr ''4153069088'')]\<rparr>]
   \<and> sublist ''jobId'' ''At least one of jobId or url is required''"
proof -
  have m: "(''get_job'', [''jobId'', ''url''], ''At least one of jobId or url is required'')
             \<in> set at_least_one_rules"
    by (simp add: at_least_one_rules_def)
  have r: "fst (call_tool sample_env ''get_job'' (Some [(''jobId'', JStr ''4153069088'')])) =
       [\<lparr>req_endpoint = ''/job'', req_headers = [(''X-API-Key'', ''key'')],
         req_params = [(''jobId'', JStr ''4153069088'')]\<rparr>]"
    by code_simp
  from m r at_least_one_of_rule [OF m, of "[]" sample_env] show ?thesis
    by simp
qed

text \<open>
  With no argument at all, \<open>get_profile\<close> fails with the internal-error code, not with
  invalid-params.
\<close>

theorem at_least_one_of_rule_counterexample:
  "call_tool sample_env ''get_profile'' (Some []) =
     ([], Inl (McpError InternalError
                 ''HarvestAPI error: At least one of url, publicIdentifier, or profileId is required''))
   \<and> InternalError \<noteq> InvalidParams"
  by code_simp

section \<open>Search text\<close>

text \<open>
  C2. For each of the six search operations, a call whose \<open>search\<close> argument is a
  non-empty string makes exactly one request, to the operation's endpoint, and the query
  carries that string unchanged under the name \<open>search\<close>. For \<open>search_jobs\<close> and
  \<open>search_posts\<close>, where the schema does not require \<open>search\<close>, an absent or empty
  search text is accepted: the request is made and its query has no \<open>search\<close> entry.
\<close>

theorem search_text_forwarded:
  assumes "(tool, ep) \<in> set search_tools"
  shows "(\<forall>s. field args ''search'' = JStr s \<and> s \<noteq> [] \<longrightarrow>
            (\<exists>rq. fst (call_tool env tool (Some args)) = [rq] \<and> req_endpoint rq = ep
               \<and> (''search'', JStr s) \<in> set (req_params rq)
               \<and> field (req_params rq) ''search'' = JStr s))
       \<and> (tool \<in> {''search_jobs'', ''search_posts''} \<and> \<not> truthy (field args ''search'') \<longrightarrow>
            (\<exists>rq. fst (call_tool env tool (Some args)) = [rq] \<and> req_endpoint rq = ep
               \<and> ''search'' \<notin> fst ` set (req_params rq)))"
proof -
  from assms have
    "(tool, ep) = search_tools ! 0 \<or> (tool, ep) = search_tools ! 1 \<or> (tool, ep) = search_tools ! 2
     \<or> (tool, ep) = search_tools ! 3 \<or> (tool, ep) = search_tools ! 4 \<or> (tool, ep) = search_tools ! 5"
    by (simp add: search_tools_def)
  then show ?thesis
    apply (elim disjE)
    apply (simp_all add: search_tools_def call_spec_defs fst_run_tool fst_makeRequest
        params_simps del: copy_args_Cons copy_args_Nil)
    done
qed

theorem search_text_forwarded_witness:
  "(''search_jobs'', ''/job-search'') \<in> set search_tools
   \<and> fst (call_tool sample_env ''search_jobs'' (Some [(''search'', JStr ''engineer'')])) =
       [\<lparr>req_endpoint = ''/job-search'', req_headers = [(''X-API-Key'', ''key'')],
         req_params = [(''search'', JStr ''engineer'')]\<rparr>]
   \<and> fst (call_tool sample_env ''search_jobs'' (Some [(''search'', JStr [])])) =
       [\<lparr>req_endpoint = ''/job-search'', req_headers = [(''X-API-Key'', ''key'')],
         req_params = []\<rparr>]"
proof -
  have m: "(''search_jobs'', ''/job-search'') \<in> set search_tools"
    by (simp add: search_tools_def)
  have a: "fst (call_tool sample_env ''search_jobs'' (Some [(''search'', JStr ''engineer'')])) =
       [\<lparr>req_endpoint = ''/job-search'', req_headers = [(''X-API-Key'', ''key'')],
         req_params = [(''search'', JStr ''engineer'')]\<rparr>]"
    by code_simp
  have b: "fst (call_tool sample_env ''search_jobs'' (Some [(''search'', JStr [])])) =
       [\<lparr>req_endpoint = ''/job-search'', req_headers = [(''X-API-Key'', ''key'')],
         req_params = []\<rparr>]"
    by code_simp
  from m a b search_text_forwarded [OF m, of "[(''search'', JStr ''engineer'')]" sample_env]
    search_text_forwarded [OF m, of "[(''search'', JStr [])]" sample_env]
  show ?thesis
    by simp
qed

text \<open>
  A call of \<open>search_jobs\<close> without any search text is not rejected: the request is made.
\<close>

theorem search_text_forwarded_counterexample:
  "fst (call_tool sample_env ''search_jobs'' (Some [])) =
     [\<lparr>req_endpoint = ''/job-search'', req_headers = [(''X-API-Key'', ''key'')],
       req_params = []\<rparr>]"
  by code_simp

section \<open>The post reference\<close>

text \<open>
  C3. The handlers of \<open>get_post\<close>, \<open>get_post_comments\<close> and \<open>get_post_reactions\<close> do
  not test their \<open>url\<close> or \<open>post\<close> argument: called without it, each makes its request,
  with the parameter undefined, where the claim has the call rejected before any request.
\<close>

theorem post_reference_not_validated:
  "fst (call_tool sample_env ''get_post_comments'' (Some [])) =
     [\<lparr>req_endpoint = ''/post-comments'', req_headers = [(''X-API-Key'', ''key'')],
       req_params = [(''post'', JUndefined)]\<rparr>]
   \<and> fst (call_tool sample_env ''get_post_reactions'' (Some [])) =
     [\<lparr>req_endpoint = ''/post-reactions'', req_headers = [(''X-API-Key'', ''key'')],
       req_params = [(''post'', JUndefined)]\<rparr>]
   \<and> fst (call_tool sample_env ''get_post'' (Some [])) =
     [\<lparr>req_endpoint = ''/post'', req_headers = [(''X-API-Key'', ''key'')],
       req_params = [(''url'', JUndefined)]\<rparr>]"
  by code_simp

section \<open>Bounding the shaped lists\<close>

text \<open>
  C4. Let \<open>M \<ge> 0\<close> be the effective maximum of a call: the \<open>max_items\<close> argument when
  it is a number other than 0, and the default (10 for the collection operations, 5 for
  \<open>get_profile\<close>) when \<open>max_items\<close> is absent. For a collection operation whose envelope
  carries \<open>N\<close> raw elements, the shaped list of the reply has exactly \<open>min N M\<close> items,
  and its \<open>i\<close>-th item is the cleaning of the \<open>i\<close>-th raw element: the first items, in
  the order received. For \<open>get_profile\<close> the same holds of each of the lists
  \<open>experience\<close>, \<open>education\<close>, \<open>skills\<close> and \<open>certifications\<close>; a raw profile with 7
  experience entries shaped under the default of 5 has an experience list of length 5.
\<close>

theorem shaping_bounds_items:
  assumes "0 \<le> M"
  shows "(\<forall>tool cleaner rq data xs ys.
            (tool, cleaner) \<in> set (listing_tools env)
            \<and> js_or (field args ''max_items'') (JNum 10) = JNum M
            \<and> fst (call_tool env tool (Some args)) = [rq] \<and> http_get env rq = Inr data
            \<and> prop_of data ''elements'' = JArr xs
            \<and> map_e cleaner (take (nat M) xs) = Inr ys \<longrightarrow>
            snd (call_tool env tool (Some args)) =
              Inr (formatResponse env (JArr ys)
                     \<lparr>saveDir = field args ''save_dir'', toolName = tool,
                      pagination = (if tool \<in> set paged_tools then prop_of data ''pagination''
                                    else JUndefined)\<rparr>)
            \<and> length ys = min (length xs) (nat M)
            \<and> (\<forall>i < length ys. cleaner (xs ! i) = Inr (ys ! i)))
       \<and> (\<forall>k f rq reply data es.
            (k, f) \<in> set profile_lists
            \<and> js_or (field args ''max_items'') (JNum 5) = JNum M
            \<and> call_tool env ''get_profile'' (Some args) = ([rq], Inr reply)
            \<and> http_get env rq = Inr data
            \<and> prop_of (prop_of data ''element'') k = JArr es \<longrightarrow>
            (\<exists>shaped ys.
               reply = formatResponse env shaped
                         \<lparr>saveDir = field args ''save_dir'', toolName = ''get_profile'',
                          pagination = JUndefined\<rparr>
               \<and> prop_of shaped k = JArr ys
               \<and> length ys = min (length es) (nat M)
               \<and> (\<forall>i < length ys. f (es ! i) = Inr (ys ! i))))"
proof -
  have listing: "\<forall>tool cleaner rq data xs ys.
            (tool, cleaner) \<in> set (listing_tools env)
            \<and> js_or (field args ''max_items'') (JNum 10) = JNum M
            \<and> fst (call_tool env tool (Some args)) = [rq] \<and> http_get env rq = Inr data
            \<and> prop_of data ''elements'' = JArr xs
            \<and> map_e cleaner (take (nat M) xs) = Inr ys \<longrightarrow>
            snd (call_tool env tool (Some args)) =
              Inr (formatResponse env (JArr ys)
                     \<lparr>saveDir = field args ''save_dir'', toolName = tool,
                      pagination = (if tool \<in> set paged_tools then prop_of data ''pagination''
                                    else JUndefined)\<rparr>)
            \<and> length ys = min (length xs) (nat M)
            \<and> (\<forall>i < length ys. cleaner (xs ! i) = Inr (ys ! i))"
  proof (intro allI impI)
    fix tool cleaner rq data xs ys
    assume "(tool, cleaner) \<in> set (listing_tools env)
            \<and> js_or (field args ''max_items'') (JNum 10) = JNum M
            \<and> fst (call_tool env tool (Some args)) = [rq] \<and> http_get env rq = Inr data
            \<and> prop_of data ''elements'' = JArr xs
            \<and> map_e cleaner (take (nat M) xs) = Inr ys"
    with assms show "snd (call_tool env tool (Some args)) =
           Inr (formatResponse env (JArr ys)
                  \<lparr>saveDir = field args ''save_dir'', toolName = tool,
                   pagination = (if tool \<in> set paged_tools then prop_of data ''pagination''
                                 else JUndefined)\<rparr>)
         \<and> length ys = min (length xs) (nat M)
         \<and> (\<forall>i < length ys. cleaner (xs ! i) = Inr (ys ! i))"
      using listing_bound [of tool cleaner env args M rq data xs ys] by blast
  qed
  have profile: "\<forall>k f rq reply data es.
            (k, f) \<in> set profile_lists
            \<and> js_or (field args ''max_items'') (JNum 5) = JNum M
            \<and> call_tool env ''get_profile'' (Some args) = ([rq], Inr reply)
            \<and> http_get env rq = Inr data
            \<and> prop_of (prop_of data ''element'') k = JArr es \<longrightarrow>
            (\<exists>shaped ys.
               reply = formatResponse env shaped
                         \<lparr>saveDir = field args ''save_dir'', toolName = ''get_profile'',
                          pagination = JUndefined\<rparr>
               \<and> prop_of shaped k = JArr ys
               \<and> length ys = min (length es) (nat M)
               \<and> (\<forall>i < length ys. f (es ! i) = Inr (ys ! i)))"
  proof (intro allI impI)
    fix k f rq reply data es
    assume "(k, f) \<in> set profile_lists
            \<and> js_or (field args ''max_items'') (JNum 5) = JNum M
            \<and> call_tool env ''get_profile'' (Some args) = ([rq], Inr reply)
            \<and> http_get env rq = Inr data
            \<and> prop_of (prop_of data ''element'') k = JArr es"
    with assms show "\<exists>shaped ys.
               reply = formatResponse env shaped
                         \<lparr>saveDir = field args ''save_dir'', toolName = ''get_profile'',
                          pagination = JUndefined\<rparr>
               \<and> prop_of shaped k = JArr ys
               \<and> length ys = min (length es) (nat M)
               \<and> (\<forall>i < length ys. f (es ! i) = Inr (ys ! i))"
      using profile_bound [of k f args M env rq reply data es] by blast
  qed
  from listing profile show ?thesis
    by (rule conjI)
qed

theorem shaping_bounds_items_witness:
  "(0::int) \<le> 1
   \<and> (''search_geo_id'', total cleanGeoId) \<in> set (listing_tools sample_env)
   \<and> js_or (field [(''search'', JStr ''Paris''), (''max_items'', JNum 1)] ''max_items'') (JNum 10)
       = JNum 1
   \<and> fst (call_tool sample_env ''search_geo_id''
             (Some [(''search'', JStr ''Paris''), (''max_items'', JNum 1)])) =
       [\<lparr>req_endpoint = ''/geo-id-search'', req_headers = [(''X-API-Key'', ''key'')],
         req_params = [(''search'', JStr ''Paris'')]\<rparr>]
   \<and> http_get sample_env
         \<lparr>req_endpoint = ''/geo-id-search'', req_headers = [(''X-API-Key'', ''key'')],
          req_params = [(''search'', JStr ''Paris'')]\<rparr> =
       Inr (JObj [(''elements'', JArr [sample_hit 1, sample_hit 2]),
                  (''pagination'', sample_pagination)])
   \<and> prop_of (JObj [(''elements'', JArr [sample_hit 1, sample_hit 2]),
                    (''pagination'', sample_pagination)]) ''elements'' =
       JArr [sample_hit 1, sample_hit 2]
   \<and> map_e (total cleanGeoId) (take (nat 1) [sample_hit 1, sample_hit 2]) =
       Inr [cleanGeoId (sample_hit 1)]
   \<and> snd (call_tool sample_env ''search_geo_id''
             (Some [(''search'', JStr ''Paris''), (''max_items'', JNum 1)])) =
       Inr \<lparr>content = [TextContent ''{data:[{geoId:1,title:<t>}]}'']\<rparr>
   \<and> length [cleanGeoId (sample_hit 1)] = min (length [sample_hit 1, sample_hit 2]) (nat 1)
   \<and> (0::int) \<le> 5
   \<and> (''experience'', clean_experience) \<in> set profile_lists
   \<and> js_or (field [(''publicIdentifier'', JStr ''satyanadella'')] ''max_items'') (JNum 5) = JNum 5
   \<and> call_tool sample_env ''get_profile'' (Some [(''publicIdentifier'', JStr ''satyanadella'')]) =
       ([\<lparr>req_endpoint = ''/profile'', req_headers = [(''X-API-Key'', ''key'')],
          req_params = [(''publicIdentifier'', JStr ''satyanadella'')]\<rparr>],
        Inr \<lparr>content = [TextContent ''{data:{id:<p1>,name:<Satya Nadella>,experience:[{position:1,company:<Microsoft>},{position:2,company:<Microsoft>},{position:3,company:<Microsoft>},{position:4,company:<Microsoft>},{position:5,company:<Microsoft>}],education:[],skills:[],certifications:[]}}'']\<rparr>)
   \<and> http_get sample_env
         \<lparr>req_endpoint = ''/profile'', req_headers = [(''X-API-Key'', ''key'')],
          req_params = [(''publicIdentifier'', JStr ''satyanadella'')]\<rparr> =
       Inr (JObj [(''element'', sample_profile), (''status'', JStr ''ok'')])
   \<and> prop_of (prop_of (JObj [(''element'', sample_profile), (''status'', JStr ''ok'')]) ''element'') ''experience'' =
       JArr (map sample_experience [1, 2, 3, 4, 5, 6, 7])
   \<and> (\<exists>shaped ys.
        \<lparr>content = [TextContent ''{data:{id:<p1>,name:<Satya Nadella>,experience:[{position:1,company:<Microsoft>},{position:2,company:<Microsoft>},{position:3,company:<Microsoft>},{position:4,company:<Microsoft>},{position:5,company:<Microsoft>}],education:[],skills:[],certifications:[]}}'']\<rparr> =
          formatResponse sample_env shaped
            \<lparr>saveDir = field [(''publicIdentifier'', JStr ''satyanadella'')] ''save_dir'', toolName = ''get_profile'',
             pagination = JUndefined\<rparr>
        \<and> prop_of shaped ''experience'' = JArr ys
        \<and> length ys = min (length (map sample_experience [1, 2, 3, 4, 5, 6, 7])) (nat 5))"
proof -
  have h0: "(0::int) \<le> 1"
    by simp
  have h1: "(''search_geo_id'', total cleanGeoId) \<in> set (listing_tools sample_env)"
    by (simp add: listing_tools_def)
  have h2: "js_or (field [(''search'', JStr ''Paris''), (''max_items'', JNum 1)] ''max_items'') (JNum 10)
       = JNum 1"
    by (simp add: js_or_def)
  have h3: "fst (call_tool sample_env ''search_geo_id''
             (Some [(''search'', JStr ''Paris''), (''max_items'', JNum 1)])) =
       [\<lparr>req_endpoint = ''/geo-id-search'', req_headers = [(''X-API-Key'', ''key'')],
         req_params = [(''search'', JStr ''Paris'')]\<rparr>]"
    by code_simp
  have h4: "http_get sample_env
         \<lparr>req_endpoint = ''/geo-id-search'', req_headers = [(''X-API-Key'', ''key'')],
          req_params = [(''search'', JStr ''Paris'')]\<rparr> =
       Inr (JObj [(''elements'', JArr [sample_hit 1, sample_hit 2]),
                  (''pagination'', sample_pagination)])"
    by (simp add: sample_env_def sample_get_def)
  have h5: "prop_of (JObj [(''elements'', JArr [sample_hit 1, sample_hit 2]),
                    (''pagination'', sample_pagination)]) ''elements'' =
       JArr [sample_hit 1, sample_hit 2]"
    by simp
  have h6: "map_e (total cleanGeoId) (take (nat 1) [sample_hit 1, sample_hit 2]) =
       Inr [cleanGeoId (sample_hit 1)]"
    by (simp add: total_def)
  have r: "snd (call_tool sample_env ''search_geo_id''
             (Some [(''search'', JStr ''Paris''), (''max_items'', JNum 1)])) =
       Inr \<lparr>content = [TextContent ''{data:[{geoId:1,title:<t>}]}'']\<rparr>"
    by code_simp
  have l: "length [cleanGeoId (sample_hit 1)] = min (length [sample_hit 1, sample_hit 2]) (nat 1)"
    using shaping_bounds_items [OF h0, THEN conjunct1, rule_format, OF conjI [OF h1 conjI
      [OF h2 conjI [OF h3 conjI [OF h4 conjI [OF h5 h6]]]]]]
    by (rule conjunct2 [THEN conjunct1])
  have p0: "(0::int) \<le> 5"
    by simp
  have p1: "(''experience'', clean_experience) \<in> set profile_lists"
    by (simp add: profile_lists_def)
  have p2: "js_or (field [(''publicIdentifier'', JStr ''satyanadella'')] ''max_items'') (JNum 5) = JNum 5"
    by (simp add: js_or_def)
  have p3: "call_tool sample_env ''get_profile'' (Some [(''publicIdentifier'', JStr ''satyanadella'')]) =
       ([\<lparr>req_endpoint = ''/profile'', req_headers = [(''X-API-Key'', ''key'')],
          req_params = [(''publicIdentifier'', JStr ''satyanadella'')]\<rparr>],
        Inr \<lparr>content = [TextContent ''{data:{id:<p1>,name:<Satya Nadella>,experience:[{position:1,company:<Microsoft>},{position:2,company:<Microsoft>},{position:3,company:<Microsoft>},{position:4,company:<Microsoft>},{position:5,company:<Microsoft>}],education:[],skills:[],certifications:[]}}'']\<rparr>)"
    by code_simp
  have p4: "http_get sample_env
         \<lparr>req_endpoint = ''/profile'', req_headers = [(''X-API-Key'', ''key'')],
          req_params = [(''publicIdentifier'', JStr ''satyanadella'')]\<rparr> =
       Inr (JObj [(''element'', sample_profile), (''status'', JStr ''ok'')])"
    by (simp add: sample_env_def sample_get_def)
  have p5: "prop_of (prop_of (JObj [(''element'', sample_profile), (''status'', JStr ''ok'')]) ''element'') ''experience'' =
       JArr (map sample_experience [1, 2, 3, 4, 5, 6, 7])"
    by (simp add: sample_profile_def)
  have q: "(\<exists>shaped ys.
        \<lparr>content = [TextContent ''{data:{id:<p1>,name:<Satya Nadella>,experience:[{position:1,company:<Microsoft>},{position:2,company:<Microsoft>},{position:3,company:<Microsoft>},{position:4,company:<Microsoft>},{position:5,company:<Microsoft>}],education:[],skills:[],certifications:[]}}'']\<rparr> =
          formatResponse sample_env shaped
            \<lparr>saveDir = field [(''publicIdentifier'', JStr ''satyanadella'')] ''save_dir'', toolName = ''get_profile'',
             pagination = JUndefined\<rparr>
        \<and> prop_of shaped ''experience'' = JArr ys
        \<and> length ys = min (length (map sample_experience [1, 2, 3, 4, 5, 6, 7])) (nat 5))"
    using shaping_bounds_items [OF p0, THEN conjunct2, rule_format, OF conjI [OF p1 conjI
      [OF p2 conjI [OF p3 conjI [OF p4 p5]]]]]
    by blast
  show ?thesis
    by (rule conjI [OF h0 conjI [OF h1 conjI [OF h2 conjI [OF h3 conjI [OF h4 conjI [OF h5 conjI [OF h6 conjI [OF r conjI [OF l conjI [OF p0 conjI [OF p1 conjI [OF p2 conjI [OF p3 conjI [OF p4 conjI [OF p5 q]]]]]]]]]]]]]]])
qed

text \<open>
  With \<open>max_items\<close> 0 and twelve raw elements, \<open>search_jobs\<close> replies with ten items,
  not with none.
\<close>

theorem shaping_bounds_items_counterexample:
  "http_get sample_env
     \<lparr>req_endpoint = ''/job-search'', req_headers = [(''X-API-Key'', ''key'')],
      req_params = []\<rparr> =
     Inr (JObj [(''elements'', JArr (map sample_hit [1, 2, 3, 4, 5, 6, 7, 8, 9, 10, 11, 12])),
                (''pagination'', sample_pagination), (''element'', sample_hit 1)])
   \<and> call_tool sample_env ''search_jobs'' (Some [(''max_items'', JNum 0)]) =
     ([\<lparr>req_endpoint = ''/job-search'', req_headers = [(''X-API-Key'', ''key'')],
        req_params = []\<rparr>],
      Inr \<lparr>content =
             [TextContent
                ''{data:[{id:1,title:<t>},{id:2,title:<t>},{id:3,title:<t>},{id:4,title:<t>},{id:5,title:<t>},{id:6,title:<t>},{id:7,title:<t>},{id:8,title:<t>},{id:9,title:<t>},{id:10,title:<t>}],pagination:{page:1,totalPages:3,totalElements:25}}'']\<rparr>)"
  by code_simp

section \<open>What the outbound query contains\<close>

text \<open>
  C5. For every request a tool call makes: each entry of the query carries, under the
  argument's own name, the value that argument has in the call, and no name occurs twice.
  Which arguments are in the query:
  \<^item> the seven parameters a handler sets unconditionally (\<open>search\<close> of \<open>search_profiles\<close>,
    \<open>search_companies\<close>, \<open>search_groups\<close> and \<open>search_geo_id\<close>, \<open>url\<close> of \<open>get_post\<close>,
    \<open>post\<close> of \<open>get_post_comments\<close> and \<open>get_post_reactions\<close>) always are, with whatever
    value was supplied, truthy or falsy, and with undefined when the argument is absent,
    never with an empty string or a default in its place;
  \<^item> \<open>easyApply\<close> of \<open>search_jobs\<close> is whenever its value is not undefined;
  \<^item> every other argument is only when it was supplied with a truthy value, and every
    argument the tool's schema declares, other than \<open>save_dir\<close> and \<open>max_items\<close>, that
    was supplied with a truthy value is.

  So an argument that is absent or supplied with a falsy value (false, 0, the empty
  string) is left out of the query, unless it is one of the seven parameters or an
  \<open>easyApply\<close> that is not undefined.
\<close>

theorem outbound_query_contents:
  assumes "rq \<in> set (fst (call_tool env name (Some args)))"
  shows "(\<forall>(k, v) \<in> set (req_params rq).
            v = field args k
            \<and> (truthy v \<or> (name, k) \<in> set unconditional_params
                \<or> (name = ''search_jobs'' \<and> k = ''easyApply'' \<and> v \<noteq> JUndefined)))
       \<and> distinct (map fst (req_params rq))
       \<and> (\<forall>props required k.
            (name, props, required) \<in> set tool_schemas \<and> k \<in> set props
            \<and> k \<notin> set local_args \<and> truthy (field args k) \<longrightarrow>
            (k, field args k) \<in> set (req_params rq))
       \<and> (\<forall>k. (name, k) \<in> set unconditional_params \<longrightarrow>
            (k, field args k) \<in> set (req_params rq))
       \<and> (name = ''search_jobs'' \<and> field args ''easyApply'' \<noteq> JUndefined \<longrightarrow>
            (''easyApply'', field args ''easyApply'') \<in> set (req_params rq))
       \<and> (\<forall>k. \<not> truthy (field args k) \<and> (name, k) \<notin> set unconditional_params
                \<and> \<not> (name = ''search_jobs'' \<and> k = ''easyApply''
                       \<and> field args ''easyApply'' \<noteq> JUndefined) \<longrightarrow>
            k \<notin> set (map fst (req_params rq)))"
proof -
  from assms obtain ep ps shape paged where
    spec: "tool_spec_of env args name = Some (None, ep, ps, shape, paged)"
    and ps: "req_params rq = ps"
    by (rule request_of_call)
  have sound: "\<forall>(k, v) \<in> set ps.
            v = field args k
            \<and> (truthy v \<or> (name, k) \<in> set unconditional_params
                \<or> (name = ''search_jobs'' \<and> k = ''easyApply'' \<and> v \<noteq> JUndefined))"
    using spec_sound [OF spec] by blast
  have dist: "distinct (map fst ps)"
    using spec by (rule spec_distinct)
  have complete: "\<forall>props required k.
            (name, props, required) \<in> set tool_schemas \<and> k \<in> set props
            \<and> k \<notin> set local_args \<and> truthy (field args k) \<longrightarrow>
            (k, field args k) \<in> set ps"
    using spec_complete [OF spec] by blast
  have uncond: "\<forall>k. (name, k) \<in> set unconditional_params \<longrightarrow> (k, field args k) \<in> set ps"
    using spec_unconditional [OF spec] by blast
  have easy: "name = ''search_jobs'' \<and> field args ''easyApply'' \<noteq> JUndefined \<longrightarrow>
            (''easyApply'', field args ''easyApply'') \<in> set ps"
    using spec spec_easy_apply by blast
  have left_out: "\<forall>k. \<not> truthy (field args k) \<and> (name, k) \<notin> set unconditional_params
                \<and> \<not> (name = ''search_jobs'' \<and> k = ''easyApply''
                       \<and> field args ''easyApply'' \<noteq> JUndefined) \<longrightarrow>
            k \<notin> set (map fst ps)"
  proof (intro allI impI notI)
    fix k
    assume a: "\<not> truthy (field args k) \<and> (name, k) \<notin> set unconditional_params
                \<and> \<not> (name = ''search_jobs'' \<and> k = ''easyApply''
                       \<and> field args ''easyApply'' \<noteq> JUndefined)"
      and "k \<in> set (map fst ps)"
    then obtain v where "(k, v) \<in> set ps"
      by auto
    then have "v = field args k
            \<and> (truthy v \<or> (name, k) \<in> set unconditional_params
                \<or> (name = ''search_jobs'' \<and> k = ''easyApply'' \<and> v \<noteq> JUndefined))"
      by (rule spec_sound [OF spec])
    with a show False
      by blast
  qed
  from sound dist complete uncond easy left_out show ?thesis
    by (simp only: ps simp_thms)
qed

theorem outbound_query_contents_witness:
  "\<lparr>req_endpoint = ''/job-search'', req_headers = [(''X-API-Key'', ''key'')],
      req_params = [(''salary'', JStr ''100k+''), (''easyApply'', JBool False)]\<rparr>
     \<in> set (fst (call_tool sample_env ''search_jobs''
                   (Some [(''salary'', JStr ''100k+''), (''easyApply'', JBool False), (''page'', JNum 0),
                          (''max_items'', JNum 3)])))
   \<and> (''salary'', JStr ''100k+'') \<in> set (req_params
       \<lparr>req_endpoint = ''/job-search'', req_headers = [(''X-API-Key'', ''key'')],
      req_params = [(''salary'', JStr ''100k+''), (''easyApply'', JBool False)]\<rparr>)
   \<and> (''easyApply'', JBool False) \<in> set (req_params
       \<lparr>req_endpoint = ''/job-search'', req_headers = [(''X-API-Key'', ''key'')],
      req_params = [(''salary'', JStr ''100k+''), (''easyApply'', JBool False)]\<rparr>)
   \<and> ''page'' \<notin> set (map fst (req_params
       \<lparr>req_endpoint = ''/job-search'', req_headers = [(''X-API-Key'', ''key'')],
      req_params = [(''salary'', JStr ''100k+''), (''easyApply'', JBool False)]\<rparr>))
   \<and> \<lparr>req_endpoint = ''/group-search'', req_headers = [(''X-API-Key'', ''key'')],
      req_params = [(''search'', JStr ''''), (''page'', JNum 2)]\<rparr>
     \<in> set (fst (call_tool sample_env ''search_groups''
                   (Some [(''search'', JStr ''''), (''page'', JNum 2)])))
   \<and> (''search'', JStr '''') \<in> set (req_params
       \<lparr>req_endpoint = ''/group-search'', req_headers = [(''X-API-Key'', ''key'')],
      req_params = [(''search'', JStr ''''), (''page'', JNum 2)]\<rparr>)"
proof -
  have m1: "\<lparr>req_endpoint = ''/job-search'', req_headers = [(''X-API-Key'', ''key'')],
      req_params = [(''salary'', JStr ''100k+''), (''easyApply'', JBool False)]\<rparr>
     \<in> set (fst (call_tool sample_env ''search_jobs''
                   (Some [(''salary'', JStr ''100k+''), (''easyApply'', JBool False), (''page'', JNum 0),
                          (''max_items'', JNum 3)])))"
    by code_simp
  have s1: "(''salary'', JStr ''100k+'') \<in> set (req_params
       \<lparr>req_endpoint = ''/job-search'', req_headers = [(''X-API-Key'', ''key'')],
      req_params = [(''salary'', JStr ''100k+''), (''easyApply'', JBool False)]\<rparr>)"
    using outbound_query_contents [OF m1, THEN conjunct2, THEN conjunct2, THEN conjunct1,
      rule_format, of "[''search'', ''companyId'', ''location'', ''geoId'', ''sortBy'',
        ''workplaceType'', ''employmentType'', ''salary'', ''postedLimit'', ''experienceLevel'',
        ''industryId'', ''functionId'', ''under10Applicants'', ''easyApply'', ''page'',
        ''save_dir'', ''max_items'']" "[]" "''salary''"]
    by (simp add: tool_schemas_def local_args_def)
  have e1: "(''easyApply'', JBool False) \<in> set (req_params
       \<lparr>req_endpoint = ''/job-search'', req_headers = [(''X-API-Key'', ''key'')],
      req_params = [(''salary'', JStr ''100k+''), (''easyApply'', JBool False)]\<rparr>)"
    using outbound_query_contents [OF m1, THEN conjunct2, THEN conjunct2, THEN conjunct2,
      THEN conjunct2, THEN conjunct1]
    by simp
  have n1: "''page'' \<notin> set (map fst (req_params
       \<lparr>req_endpoint = ''/job-search'', req_headers = [(''X-API-Key'', ''key'')],
      req_params = [(''salary'', JStr ''100k+''), (''easyApply'', JBool False)]\<rparr>))"
    using outbound_query_contents [OF m1, THEN conjunct2, THEN conjunct2, THEN conjunct2,
      THEN conjunct2, THEN conjunct2, rule_format, of "''page''"]
    by (simp add: unconditional_params_def)
  have m2: "\<lparr>req_endpoint = ''/group-search'', req_headers = [(''X-API-Key'', ''key'')],
      req_params = [(''search'', JStr ''''), (''page'', JNum 2)]\<rparr>
     \<in> set (fst (call_tool sample_env ''search_groups''
                   (Some [(''search'', JStr ''''), (''page'', JNum 2)])))"
    by code_simp
  have u2: "(''search'', JStr '''') \<in> set (req_params
       \<lparr>req_endpoint = ''/group-search'', req_headers = [(''X-API-Key'', ''key'')],
      req_params = [(''search'', JStr ''''), (''page'', JNum 2)]\<rparr>)"
    using outbound_query_contents [OF m2, THEN conjunct2, THEN conjunct2, THEN conjunct2,
      THEN conjunct1, rule_format, of "''search''"]
    by (simp add: unconditional_params_def)
  show ?thesis
    by (rule conjI [OF m1 conjI [OF s1 conjI [OF e1 conjI [OF n1 conjI [OF m2 u2]]]]])
qed

text \<open>
  \<open>search_jobs\<close> called with \<open>under10Applicants: false\<close> and \<open>page: 0\<close>: both are
  supplied, neither is forwarded.
\<close>

theorem outbound_query_contents_counterexample:
  "fst (call_tool sample_env ''search_jobs''
          (Some [(''search'', JStr ''engineer''), (''under10Applicants'', JBool False),
                 (''page'', JNum 0)])) =
     [\<lparr>req_endpoint = ''/job-search'', req_headers = [(''X-API-Key'', ''key'')],
       req_params = [(''search'', JStr ''engineer'')]\<rparr>]"
  by code_simp

section \<open>Persistence failure\<close>

text \<open>
  C6. When the caller asks for the reply to be saved (a truthy \<open>save_dir\<close>), the call makes
  the same requests as the same call without \<open>save_dir\<close>, and it has an error exactly
  where that call has one, the same error: saving never aborts the call. Where the call
  without \<open>save_dir\<close> returns a reply, both replies are formatted from the same shaped data
  and pagination, and when saving that output fails with \<open>e\<close>, because the directory
  cannot be created, the path cannot be built or the file cannot be written, the reply is
  the reply of the call without \<open>save_dir\<close>, with the note
  \<open>[Cleaned data saved to: Error saving: e]\<close> appended, after a blank line, to its text.
\<close>

theorem save_failure_keeps_reply:
  assumes "truthy (field args ''save_dir'')"
  shows "fst (call_tool env name (Some args)) =
           fst (call_tool env name (Some (without_arg ''save_dir'' args)))
       \<and> (\<forall>x. snd (call_tool env name (Some args)) = Inl x \<longleftrightarrow>
               snd (call_tool env name (Some (without_arg ''save_dir'' args))) = Inl x)
       \<and> (\<forall>reply.
            snd (call_tool env name (Some (without_arg ''save_dir'' args))) = Inr reply \<longrightarrow>
            (\<exists>cleaned pg.
               reply = formatResponse env cleaned
                         \<lparr>saveDir = JUndefined, toolName = name, pagination = pg\<rparr>
               \<and> snd (call_tool env name (Some args)) =
                   Inr (formatResponse env cleaned
                          \<lparr>saveDir = field args ''save_dir'', toolName = name,
                           pagination = pg\<rparr>)
               \<and> (\<forall>e. save_fails env (response_output cleaned pg) (field args ''save_dir'')
                         name e \<longrightarrow>
                      snd (call_tool env name (Some args)) =
                        Inr \<lparr>content =
                               map (append_text (saved_note (''Error saving: '' @ e)))
                                 (content reply)\<rparr>)))"
proof -
  let ?with = "call_tool env name (Some args)"
  let ?without = "call_tool env name (Some (without_arg ''save_dir'' args))"
  have requests: "fst ?with = fst ?without"
    using call_tool_save_dir [of env name args] by blast
  have errors: "\<forall>x. snd ?with = Inl x \<longleftrightarrow> snd ?without = Inl x"
    using call_tool_save_dir [of env name args] by auto
  have replies: "\<forall>reply. snd ?without = Inr reply \<longrightarrow>
            (\<exists>cleaned pg.
               reply = formatResponse env cleaned
                         \<lparr>saveDir = JUndefined, toolName = name, pagination = pg\<rparr>
               \<and> snd ?with =
                   Inr (formatResponse env cleaned
                          \<lparr>saveDir = field args ''save_dir'', toolName = name,
                           pagination = pg\<rparr>)
               \<and> (\<forall>e. save_fails env (response_output cleaned pg) (field args ''save_dir'')
                         name e \<longrightarrow>
                      snd ?with =
                        Inr \<lparr>content =
                               map (append_text (saved_note (''Error saving: '' @ e)))
                                 (content reply)\<rparr>))"
  proof (intro allI impI)
    fix reply
    assume r: "snd ?without = Inr reply"
    with call_tool_save_dir [of env name args] obtain cleaned pg where
      name: "name \<noteq> []"
      and w: "snd ?with =
                Inr (formatResponse env cleaned
                       \<lparr>saveDir = field args ''save_dir'', toolName = name, pagination = pg\<rparr>)"
      and b: "snd ?without =
                Inr (formatResponse env cleaned
                       \<lparr>saveDir = JUndefined, toolName = name, pagination = pg\<rparr>)"
      by auto
    from r b have reply: "reply = formatResponse env cleaned
                         \<lparr>saveDir = JUndefined, toolName = name, pagination = pg\<rparr>"
      by simp
    have "\<forall>e. save_fails env (response_output cleaned pg) (field args ''save_dir'') name e \<longrightarrow>
             snd ?with =
               Inr \<lparr>content =
                      map (append_text (saved_note (''Error saving: '' @ e)))
                        (content reply)\<rparr>"
      using assms name w reply by (simp add: formatResponse_save_fails)
    with reply w show "\<exists>cleaned pg.
               reply = formatResponse env cleaned
                         \<lparr>saveDir = JUndefined, toolName = name, pagination = pg\<rparr>
               \<and> snd ?with =
                   Inr (formatResponse env cleaned
                          \<lparr>saveDir = field args ''save_dir'', toolName = name,
                           pagination = pg\<rparr>)
               \<and> (\<forall>e. save_fails env (response_output cleaned pg) (field args ''save_dir'')
                         name e \<longrightarrow>
                      snd ?with =
                        Inr \<lparr>content =
                               map (append_text (saved_note (''Error saving: '' @ e)))
                                 (content reply)\<rparr>)"
      by blast
  qed
  from requests errors replies show ?thesis
    by (intro conjI)
qed

theorem save_failure_keeps_reply_witness:
  "truthy (field [(''jobId'', JStr ''42''), (''save_dir'', JStr ''/readonly'')] ''save_dir'')
   \<and> snd (call_tool sample_env ''get_job''
             (Some (without_arg ''save_dir'' [(''jobId'', JStr ''42''), (''save_dir'', JStr ''/readonly'')]))) =
       Inr \<lparr>content = [TextContent ''{data:{id:1,title:<t>,salary:null}}'']\<rparr>
   \<and> save_fails sample_env (response_output (cleanJob (sample_hit 1)) JUndefined)
        (field [(''jobId'', JStr ''42''), (''save_dir'', JStr ''/readonly'')] ''save_dir'') ''get_job''
        ''Error: EACCES: permission denied''
   \<and> snd (call_tool sample_env ''get_job'' (Some [(''jobId'', JStr ''42''), (''save_dir'', JStr ''/readonly'')])) =
       Inr \<lparr>content =
              map (append_text (saved_note (''Error saving: '' @ ''Error: EACCES: permission denied'')))
                [TextContent ''{data:{id:1,title:<t>,salary:null}}'']\<rparr>
   \<and> snd (call_tool sample_env ''get_job'' (Some [(''jobId'', JStr ''42''), (''save_dir'', JStr ''/readonly'')])) =
       Inr \<lparr>content =
              [TextContent
                 (''{data:{id:1,title:<t>,salary:null}}''
                  @ [CHR 0x0A, CHR 0x0A]
                  @ ''[Cleaned data saved to: Error saving: Error: EACCES: permission denied]'')]\<rparr>
   \<and> snd (call_tool readonly_env ''get_job''
             (Some (without_arg ''save_dir'' [(''jobId'', JStr ''42''), (''save_dir'', JStr ''/readonly'')]))) =
       Inr \<lparr>content = [TextContent ''{data:{id:1,title:<t>,salary:null}}'']\<rparr>
   \<and> save_fails readonly_env (response_output (cleanJob (sample_hit 1)) JUndefined)
        (field [(''jobId'', JStr ''42''), (''save_dir'', JStr ''/readonly'')] ''save_dir'') ''get_job''
        ''Error: EROFS: read-only file system, open /readonly/get_job_2025-01-01T00-00-00-000Z.json''
   \<and> snd (call_tool readonly_env ''get_job'' (Some [(''jobId'', JStr ''42''), (''save_dir'', JStr ''/readonly'')])) =
       Inr \<lparr>content =
              map (append_text (saved_note (''Error saving: '' @ ''Error: EROFS: read-only file system, open /readonly/get_job_2025-01-01T00-00-00-000Z.json'')))
                [TextContent ''{data:{id:1,title:<t>,salary:null}}'']\<rparr>
   \<and> snd (call_tool readonly_env ''get_job'' (Some [(''jobId'', JStr ''42''), (''save_dir'', JStr ''/readonly'')])) =
       Inr \<lparr>content =
              [TextContent
                 (''{data:{id:1,title:<t>,salary:null}}''
                  @ [CHR 0x0A, CHR 0x0A]
                  @ ''[Cleaned data saved to: Error saving: Error: EROFS: read-only file system, open /readonly/get_job_2025-01-01T00-00-00-000Z.json]'')]\<rparr>"
proof -
  have t: "truthy (field [(''jobId'', JStr ''42''), (''save_dir'', JStr ''/readonly'')] ''save_dir'')"
    by simp
  have b1: "snd (call_tool sample_env ''get_job''
             (Some (without_arg ''save_dir'' [(''jobId'', JStr ''42''), (''save_dir'', JStr ''/readonly'')]))) =
       Inr \<lparr>content = [TextContent ''{data:{id:1,title:<t>,salary:null}}'']\<rparr>"
    by code_simp
  have f1: "save_fails sample_env (response_output (cleanJob (sample_hit 1)) JUndefined)
        (field [(''jobId'', JStr ''42''), (''save_dir'', JStr ''/readonly'')] ''save_dir'') ''get_job''
        ''Error: EACCES: permission denied''"
    by (simp add: save_fails_def readonly_env_def sample_env_def)
  have k1: "snd (call_tool sample_env ''get_job'' (Some [(''jobId'', JStr ''42''), (''save_dir'', JStr ''/readonly'')])) =
       Inr \<lparr>content =
              map (append_text (saved_note (''Error saving: '' @ ''Error: EACCES: permission denied'')))
                [TextContent ''{data:{id:1,title:<t>,salary:null}}'']\<rparr>"
  proof -
    have a: "\<And>data. save_fails sample_env data (field [(''jobId'', JStr ''42''), (''save_dir'', JStr ''/readonly'')] ''save_dir'') ''get_job''
                 ''Error: EACCES: permission denied''"
      by (simp add: save_fails_def readonly_env_def sample_env_def)
    from save_failure_keeps_reply [OF t, of sample_env "''get_job''", THEN conjunct2, THEN conjunct2,
        rule_format, OF b1]
    obtain cleaned pg where
      "\<forall>e. save_fails sample_env (response_output cleaned pg) (field [(''jobId'', JStr ''42''), (''save_dir'', JStr ''/readonly'')] ''save_dir'')
             ''get_job'' e \<longrightarrow>
           snd (call_tool sample_env ''get_job'' (Some [(''jobId'', JStr ''42''), (''save_dir'', JStr ''/readonly'')])) =
             Inr \<lparr>content =
                    map (append_text (saved_note (''Error saving: '' @ e)))
                      (content \<lparr>content = [TextContent ''{data:{id:1,title:<t>,salary:null}}'']\<rparr>)\<rparr>"
      by blast
    with a [of "response_output cleaned pg"] show ?thesis
      by simp
  qed
  have r1: "snd (call_tool sample_env ''get_job'' (Some [(''jobId'', JStr ''42''), (''save_dir'', JStr ''/readonly'')])) =
       Inr \<lparr>content =
              [TextContent
                 (''{data:{id:1,title:<t>,salary:null}}''
                  @ [CHR 0x0A, CHR 0x0A]
                  @ ''[Cleaned data saved to: Error saving: Error: EACCES: permission denied]'')]\<rparr>"
    by code_simp
  have b2: "snd (call_tool readonly_env ''get_job''
             (Some (without_arg ''save_dir'' [(''jobId'', JStr ''42''), (''save_dir'', JStr ''/readonly'')]))) =
       Inr \<lparr>content = [TextContent ''{data:{id:1,title:<t>,salary:null}}'']\<rparr>"
    by code_simp
  have f2: "save_fails readonly_env (response_output (cleanJob (sample_hit 1)) JUndefined)
        (field [(''jobId'', JStr ''42''), (''save_dir'', JStr ''/readonly'')] ''save_dir'') ''get_job''
        ''Error: EROFS: read-only file system, open /readonly/get_job_2025-01-01T00-00-00-000Z.json''"
    by (simp add: save_fails_def readonly_env_def sample_env_def)
  have k2: "snd (call_tool readonly_env ''get_job'' (Some [(''jobId'', JStr ''42''), (''save_dir'', JStr ''/readonly'')])) =
       Inr \<lparr>content =
              map (append_text (saved_note (''Error saving: '' @ ''Error: EROFS: read-only file system, open /readonly/get_job_2025-01-01T00-00-00-000Z.json'')))
                [TextContent ''{data:{id:1,title:<t>,salary:null}}'']\<rparr>"
  proof -
    have a: "\<And>data. save_fails readonly_env data (field [(''jobId'', JStr ''42''), (''save_dir'', JStr ''/readonly'')] ''save_dir'') ''get_job''
                 ''Error: EROFS: read-only file system, open /readonly/get_job_2025-01-01T00-00-00-000Z.json''"
      by (simp add: save_fails_def readonly_env_def sample_env_def)
    from save_failure_keeps_reply [OF t, of readonly_env "''get_job''", THEN conjunct2, THEN conjunct2,
        rule_format, OF b2]
    obtain cleaned pg where
      "\<forall>e. save_fails readonly_env (response_output cleaned pg) (field [(''jobId'', JStr ''42''), (''save_dir'', JStr ''/readonly'')] ''save_dir'')
             ''get_job'' e \<longrightarrow>
           snd (call_tool readonly_env ''get_job'' (Some [(''jobId'', JStr ''42''), (''save_dir'', JStr ''/readonly'')])) =
             Inr \<lparr>content =
                    map (append_text (saved_note (''Error saving: '' @ e)))
                      (content \<lparr>content = [TextContent ''{data:{id:1,title:<t>,salary:null}}'']\<rparr>)\<rparr>"
      by blast
    with a [of "response_output cleaned pg"] show ?thesis
      by simp
  qed
  have r2: "snd (call_tool readonly_env ''get_job'' (Some [(''jobId'', JStr ''42''), (''save_dir'', JStr ''/readonly'')])) =
       Inr \<lparr>content =
              [TextContent
                 (''{data:{id:1,title:<t>,salary:null}}''
                  @ [CHR 0x0A, CHR 0x0A]
                  @ ''[Cleaned data saved to: Error saving: Error: EROFS: read-only file system, open /readonly/get_job_2025-01-01T00-00-00-000Z.json]'')]\<rparr>"
    by code_simp
  show ?thesis
    by (rule conjI [OF t conjI [OF b1 conjI [OF f1 conjI [OF k1 conjI [OF r1 conjI [OF b2 conjI [OF f2 conjI [OF k2 r2]]]]]]]])
qed

section \<open>The headquarters of a company\<close>

text \<open>
  C7. For a raw company whose \<open>locations\<close> is a list, the projection scans the list from
  its start. When the first entry whose \<open>headquarter\<close> flag is truthy comes before any
  null or undefined entry, the shaped \<open>headquarter\<close> is taken from that entry; when no
  entry is flagged and none is null or undefined, it is taken from the first entry of the
  list, and is undefined when the list is empty. Taken from an entry means: that entry's
  \<open>parsed.text\<close>, or else its \<open>city\<close>. When \<open>locations\<close> is absent, the shaped
  \<open>headquarter\<close> is undefined.
\<close>

theorem company_headquarters:
  assumes "truthy raw"
  shows "(\<forall>pre h rest.
            prop_of raw ''locations'' = JArr (pre @ h # rest)
            \<and> (\<forall>l \<in> set pre. \<not> nullish l \<and> \<not> truthy (prop_of l ''headquarter''))
            \<and> truthy (prop_of h ''headquarter'') \<longrightarrow>
            (\<exists>c. cleanCompany raw = Inr (JObj c) \<and>
               field c ''headquarter'' =
                 js_or (prop_of (prop_of h ''parsed'') ''text'') (prop_of h ''city'')))
       \<and> (\<forall>ls.
            prop_of raw ''locations'' = JArr ls
            \<and> (\<forall>l \<in> set ls. \<not> nullish l \<and> \<not> truthy (prop_of l ''headquarter'')) \<longrightarrow>
            (\<exists>c. cleanCompany raw = Inr (JObj c) \<and>
               field c ''headquarter'' =
                 (case ls of
                    [] \<Rightarrow> JUndefined
                  | l # _ \<Rightarrow> js_or (prop_of (prop_of l ''parsed'') ''text'') (prop_of l ''city''))))
       \<and> (\<not> truthy (prop_of raw ''locations'') \<longrightarrow>
            (\<exists>c. cleanCompany raw = Inr (JObj c) \<and> field c ''headquarter'' = JUndefined))"
proof -
  have flagged: "\<forall>pre h rest.
            prop_of raw ''locations'' = JArr (pre @ h # rest)
            \<and> (\<forall>l \<in> set pre. \<not> nullish l \<and> \<not> truthy (prop_of l ''headquarter''))
            \<and> truthy (prop_of h ''headquarter'') \<longrightarrow>
            (\<exists>c. cleanCompany raw = Inr (JObj c) \<and>
               field c ''headquarter'' =
                 js_or (prop_of (prop_of h ''parsed'') ''text'') (prop_of h ''city''))"
  proof (intro allI impI)
    fix pre h rest
    assume a: "prop_of raw ''locations'' = JArr (pre @ h # rest)
            \<and> (\<forall>l \<in> set pre. \<not> nullish l \<and> \<not> truthy (prop_of l ''headquarter''))
            \<and> truthy (prop_of h ''headquarter'')"
    from a have "find_e (\<lambda>l. js_get l ''headquarter'') (pre @ h # rest) =
                   find_e (\<lambda>l. js_get l ''headquarter'') (h # rest)"
      by (intro find_e_skip) blast
    moreover from a have "find_e (\<lambda>l. js_get l ''headquarter'') (h # rest) = Inr h"
      by (intro find_e_hit) blast
    ultimately have "find_e (\<lambda>l. js_get l ''headquarter'') (pre @ h # rest) = Inr h"
      by (rule trans)
    moreover from a have "truthy h"
      by (blast intro: truthy_prop_of)
    ultimately show "\<exists>c. cleanCompany raw = Inr (JObj c) \<and>
               field c ''headquarter'' =
                 js_or (prop_of (prop_of h ''parsed'') ''text'') (prop_of h ''city'')"
      using assms a by (simp add: cleanCompany_def company_hq_def as_array_def js_or_def)
  qed
  have unflagged: "\<forall>ls.
            prop_of raw ''locations'' = JArr ls
            \<and> (\<forall>l \<in> set ls. \<not> nullish l \<and> \<not> truthy (prop_of l ''headquarter'')) \<longrightarrow>
            (\<exists>c. cleanCompany raw = Inr (JObj c) \<and>
               field c ''headquarter'' =
                 (case ls of
                    [] \<Rightarrow> JUndefined
                  | l # _ \<Rightarrow> js_or (prop_of (prop_of l ''parsed'') ''text'') (prop_of l ''city'')))"
  proof (intro allI impI)
    fix ls
    assume a: "prop_of raw ''locations'' = JArr ls
            \<and> (\<forall>l \<in> set ls. \<not> nullish l \<and> \<not> truthy (prop_of l ''headquarter''))"
    then have "find_e (\<lambda>l. js_get l ''headquarter'') (ls @ []) =
                 find_e (\<lambda>l. js_get l ''headquarter'') []"
      by (intro find_e_skip) blast
    then have "find_e (\<lambda>l. js_get l ''headquarter'') ls = Inr JUndefined"
      by simp
    with assms a show "\<exists>c. cleanCompany raw = Inr (JObj c) \<and>
               field c ''headquarter'' =
                 (case ls of
                    [] \<Rightarrow> JUndefined
                  | l # _ \<Rightarrow> js_or (prop_of (prop_of l ''parsed'') ''text'') (prop_of l ''city''))"
      by (cases ls) (simp_all add: cleanCompany_def company_hq_def as_array_def js_or_def)
  qed
  have absent: "\<not> truthy (prop_of raw ''locations'') \<longrightarrow>
            (\<exists>c. cleanCompany raw = Inr (JObj c) \<and> field c ''headquarter'' = JUndefined)"
  proof
    assume n: "\<not> truthy (prop_of raw ''locations'')"
    then have "index0 (prop_of raw ''locations'') = JUndefined"
      by (cases "prop_of raw ''locations''") (auto split: list.splits)
    with assms n show "\<exists>c. cleanCompany raw = Inr (JObj c) \<and> field c ''headquarter'' = JUndefined"
      by (simp add: cleanCompany_def company_hq_def as_array_def js_or_def)
  qed
  from flagged unflagged absent show ?thesis
    by (intro conjI)
qed

theorem company_headquarters_witness:
  "truthy (sample_company [sample_location ''Dublin'' False, sample_location ''Redmond'' True, JNull])
   \<and> prop_of (sample_company [sample_location ''Dublin'' False, sample_location ''Redmond'' True, JNull]) ''locations'' =
       JArr ([sample_location ''Dublin'' False] @ sample_location ''Redmond'' True # [JNull])
   \<and> \<not> nullish (sample_location ''Dublin'' False)
   \<and> \<not> truthy (prop_of (sample_location ''Dublin'' False) ''headquarter'')
   \<and> truthy (prop_of (sample_location ''Redmond'' True) ''headquarter'')
   \<and> cleanCompany (sample_company [sample_location ''Dublin'' False, sample_location ''Redmond'' True, JNull]) =
       Inr (JObj [(''id'', JUndefined), (''universalName'', JUndefined),
                  (''linkedinUrl'', JUndefined), (''name'', JStr ''Microsoft''),
                  (''website'', JUndefined), (''logo'', JUndefined),
                  (''description'', JUndefined), (''employeeCount'', JUndefined),
                  (''followers'', JUndefined), (''headquarter'', JStr ''Redmond'')])
   \<and> (\<exists>c. cleanCompany (sample_company [sample_location ''Dublin'' False, sample_location ''Redmond'' True, JNull]) = Inr (JObj c)
          \<and> field c ''headquarter'' = JStr ''Redmond'')
   \<and> truthy (sample_company [sample_location ''Dublin'' False, sample_location ''Cork'' False])
   \<and> prop_of (sample_company [sample_location ''Dublin'' False, sample_location ''Cork'' False]) ''locations'' =
       JArr [sample_location ''Dublin'' False, sample_location ''Cork'' False]
   \<and> \<not> nullish (sample_location ''Cork'' False)
   \<and> \<not> truthy (prop_of (sample_location ''Cork'' False) ''headquarter'')
   \<and> cleanCompany (sample_company [sample_location ''Dublin'' False, sample_location ''Cork'' False]) =
       Inr (JObj [(''id'', JUndefined), (''universalName'', JUndefined),
                  (''linkedinUrl'', JUndefined), (''name'', JStr ''Microsoft''),
                  (''website'', JUndefined), (''logo'', JUndefined),
                  (''description'', JUndefined), (''employeeCount'', JUndefined),
                  (''followers'', JUndefined), (''headquarter'', JStr ''Dublin'')])
   \<and> (\<exists>c. cleanCompany (sample_company [sample_location ''Dublin'' False, sample_location ''Cork'' False]) = Inr (JObj c)
          \<and> field c ''headquarter'' = JStr ''Dublin'')
   \<and> truthy (JObj [(''name'', JStr ''Microsoft'')])
   \<and> \<not> truthy (prop_of (JObj [(''name'', JStr ''Microsoft'')]) ''locations'')
   \<and> cleanCompany (JObj [(''name'', JStr ''Microsoft'')]) =
       Inr (JObj [(''id'', JUndefined), (''universalName'', JUndefined),
                  (''linkedinUrl'', JUndefined), (''name'', JStr ''Microsoft''),
                  (''website'', JUndefined), (''logo'', JUndefined),
                  (''description'', JUndefined), (''employeeCount'', JUndefined),
                  (''followers'', JUndefined), (''headquarter'', JUndefined)])
   \<and> (\<exists>c. cleanCompany (JObj [(''name'', JStr ''Microsoft'')]) = Inr (JObj c)
          \<and> field c ''headquarter'' = JUndefined)"
proof -
  have t1: "truthy (sample_company [sample_location ''Dublin'' False, sample_location ''Redmond'' True, JNull])"
    by (simp add: sample_company_def)
  have p1: "prop_of (sample_company [sample_location ''Dublin'' False, sample_location ''Redmond'' True, JNull]) ''locations'' =
       JArr ([sample_location ''Dublin'' False] @ sample_location ''Redmond'' True # [JNull])"
    by (simp add: sample_company_def)
  have n1: "\<not> nullish (sample_location ''Dublin'' False)"
    by (simp add: sample_location_def nullish_def)
  have f1: "\<not> truthy (prop_of (sample_location ''Dublin'' False) ''headquarter'')"
    by (simp add: sample_location_def)
  have h1: "truthy (prop_of (sample_location ''Redmond'' True) ''headquarter'')"
    by (simp add: sample_location_def)
  have c1: "cleanCompany (sample_company [sample_location ''Dublin'' False, sample_location ''Redmond'' True, JNull]) =
       Inr (JObj [(''id'', JUndefined), (''universalName'', JUndefined),
                  (''linkedinUrl'', JUndefined), (''name'', JStr ''Microsoft''),
                  (''website'', JUndefined), (''logo'', JUndefined),
                  (''description'', JUndefined), (''employeeCount'', JUndefined),
                  (''followers'', JUndefined), (''headquarter'', JStr ''Redmond'')])"
    by code_simp
  have u1: "(\<exists>c. cleanCompany (sample_company [sample_location ''Dublin'' False, sample_location ''Redmond'' True, JNull]) = Inr (JObj c)
          \<and> field c ''headquarter'' = JStr ''Redmond'')"
    using company_headquarters [OF t1, THEN conjunct1, rule_format,
        of "[sample_location ''Dublin'' False]" "sample_location ''Redmond'' True" "[JNull]"] p1 n1 f1 h1
    by (simp add: sample_location_def js_or_def)
  have t2: "truthy (sample_company [sample_location ''Dublin'' False, sample_location ''Cork'' False])"
    by (simp add: sample_company_def)
  have p2: "prop_of (sample_company [sample_location ''Dublin'' False, sample_location ''Cork'' False]) ''locations'' =
       JArr [sample_location ''Dublin'' False, sample_location ''Cork'' False]"
    by (simp add: sample_company_def)
  have n2: "\<not> nullish (sample_location ''Cork'' False)"
    by (simp add: sample_location_def nullish_def)
  have f2: "\<not> truthy (prop_of (sample_location ''Cork'' False) ''headquarter'')"
    by (simp add: sample_location_def)
  have c2: "cleanCompany (sample_company [sample_location ''Dublin'' False, sample_location ''Cork'' False]) =
       Inr (JObj [(''id'', JUndefined), (''universalName'', JUndefined),
                  (''linkedinUrl'', JUndefined), (''name'', JStr ''Microsoft''),
                  (''website'', JUndefined), (''logo'', JUndefined),
                  (''description'', JUndefined), (''employeeCount'', JUndefined),
                  (''followers'', JUndefined), (''headquarter'', JStr ''Dublin'')])"
    by code_simp
  have u2: "(\<exists>c. cleanCompany (sample_company [sample_location ''Dublin'' False, sample_location ''Cork'' False]) = Inr (JObj c)
          \<and> field c ''headquarter'' = JStr ''Dublin'')"
    using company_headquarters [OF t2, THEN conjunct2, THEN conjunct1, rule_format,
        of "[sample_location ''Dublin'' False, sample_location ''Cork'' False]"] p2 n1 f1 n2 f2
    by (simp add: sample_location_def js_or_def)
  have t3: "truthy (JObj [(''name'', JStr ''Microsoft'')])"
    by simp
  have p3: "\<not> truthy (prop_of (JObj [(''name'', JStr ''Microsoft'')]) ''locations'')"
    by simp
  have c3: "cleanCompany (JObj [(''name'', JStr ''Microsoft'')]) =
       Inr (JObj [(''id'', JUndefined), (''universalName'', JUndefined),
                  (''linkedinUrl'', JUndefined), (''name'', JStr ''Microsoft''),
                  (''website'', JUndefined), (''logo'', JUndefined),
                  (''description'', JUndefined), (''employeeCount'', JUndefined),
                  (''followers'', JUndefined), (''headquarter'', JUndefined)])"
    by code_simp
  have u3: "(\<exists>c. cleanCompany (JObj [(''name'', JStr ''Microsoft'')]) = Inr (JObj c)
          \<and> field c ''headquarter'' = JUndefined)"
    using company_headquarters [OF t3, THEN conjunct2, THEN conjunct2] p3
    by blast
  show ?thesis
    by (rule conjI [OF t1 conjI [OF p1 conjI [OF n1 conjI [OF f1 conjI [OF h1 conjI [OF c1 conjI [OF u1 conjI [OF t2 conjI [OF p2 conjI [OF n2 conjI [OF f2 conjI [OF c2 conjI [OF u2 conjI [OF t3 conjI [OF p3 conjI [OF c3 u3]]]]]]]]]]]]]]]])
qed

text \<open>
  A null entry met before any flagged entry makes the projection throw, whether a flagged
  entry follows it or none does: the headquarters entry is not selected and the first
  location is not fallen back to.
\<close>

theorem company_headquarters_counterexample:
  "cleanCompany (sample_company [JNull, sample_location ''Redmond'' True]) =
     Inl (Error ''Cannot read properties of null (reading headquarter)'')
   \<and> cleanCompany (sample_company [sample_location ''Dublin'' False, JNull]) =
     Inl (Error ''Cannot read properties of null (reading headquarter)'')"
  by code_simp

section \<open>The salary of a job\<close>

text \<open>
  C8. For a raw job, the shaped salary is the raw salary's \<open>text\<close> when that is truthy
  (present and not empty); otherwise, when \<open>min\<close> and \<open>max\<close> are both truthy (present and
  neither zero nor empty), it is the string \<open>min-max currency\<close>, with nothing for a
  missing currency; in every other case it is null.
\<close>

theorem job_salary_derivation:
  assumes "truthy raw"
  shows "(let salary = prop_of raw ''salary'';
              text = prop_of salary ''text'';
              lo = prop_of salary ''min'';
              hi = prop_of salary ''max'';
              currency = prop_of salary ''currency''
          in (truthy text \<longrightarrow> prop_of (cleanJob raw) ''salary'' = text)
           \<and> (\<not> truthy text \<and> truthy lo \<and> truthy hi \<longrightarrow>
                prop_of (cleanJob raw) ''salary'' =
                  JStr (js_string lo @ ''-'' @ js_string hi @ '' ''
                        @ (if truthy currency then js_string currency else [])))
           \<and> (\<not> truthy text \<and> \<not> (truthy lo \<and> truthy hi) \<longrightarrow>
                prop_of (cleanJob raw) ''salary'' = JNull))"
  using assms
  by (auto simp: cleanJob_def job_salary_def js_or_def js_and_def Let_def)

theorem job_salary_derivation_witness:
  "truthy (JObj [(''salary'', JObj [(''min'', JNum 100000), (''max'', JNum 150000),
                                    (''currency'', JStr ''USD'')])])
   \<and> prop_of (cleanJob (JObj [(''salary'', JObj [(''min'', JNum 100000), (''max'', JNum 150000),
                                                 (''currency'', JStr ''USD'')])])) ''salary'' =
       JStr ''100000-150000 USD''
   \<and> prop_of (cleanJob (JObj [(''salary'', JObj [(''text'', JStr ''$100K/yr'')])])) ''salary'' =
       JStr ''$100K/yr''
   \<and> prop_of (cleanJob (JObj [(''title'', JStr ''Engineer'')])) ''salary'' = JNull"
proof -
  have t: "truthy (JObj [(''salary'', JObj [(''min'', JNum 100000), (''max'', JNum 150000),
                                    (''currency'', JStr ''USD'')])])"
    by simp
  have c1: "prop_of (cleanJob (JObj [(''salary'', JObj [(''min'', JNum 100000),
                (''max'', JNum 150000), (''currency'', JStr ''USD'')])])) ''salary'' =
       JStr ''100000-150000 USD''"
    by (simp add: cleanJob_def job_salary_def js_or_def js_and_def show_int_eval)
  have c2: "prop_of (cleanJob (JObj [(''salary'', JObj [(''text'', JStr ''$100K/yr'')])]))
              ''salary'' = JStr ''$100K/yr''"
    by code_simp
  have c3: "prop_of (cleanJob (JObj [(''title'', JStr ''Engineer'')])) ''salary'' = JNull"
    by code_simp
  from job_salary_derivation [OF t] show ?thesis
    by (simp only: t c1 c2 c3 simp_thms)
qed

text \<open>
  A salary with a minimum of 0: \<open>min\<close> and \<open>max\<close> are present and there is no text, yet the
  shaped salary is null.
\<close>

theorem job_salary_derivation_counterexample:
  "prop_of (cleanJob (JObj [(''salary'', JObj [(''min'', JNum 0), (''max'', JNum 50000),
                                               (''currency'', JStr ''USD'')])])) ''salary'' =
     JNull"
  by code_simp

section \<open>The pagination summary\<close>

text \<open>
  C9. Whenever a call returns a reply, the reply's text is the encoding of an object with
  the shaped data, followed by at most a note about saving. For the eleven collection
  operations that pass the envelope's pagination on, that object has, besides \<open>data\<close>,
  a \<open>pagination\<close> entry exactly when the envelope's \<open>pagination\<close> is truthy, and the
  entry consists of \<open>page\<close> (the block's \<open>pageNumber\<close>), \<open>totalPages\<close> and
  \<open>totalElements\<close> and nothing else, so never the pagination token. For \<open>search_geo_id\<close>
  and the single-entity operations the object has the \<open>data\<close> entry only, whatever the
  envelope carries.
\<close>

theorem pagination_summary_of_reply:
  assumes "call_tool env tool (Some args) = (reqs, Inr reply)"
  shows "(tool \<in> set paged_tools \<longrightarrow>
            (\<exists>rq data cleaned note.
               reqs = [rq] \<and> http_get env rq = Inr data
               \<and> reply =
                   \<lparr>content =
                      [TextContent
                         (toon_encode env
                            (JObj ((''data'', cleaned) #
                               (if truthy (prop_of data ''pagination'')
                                then [(''pagination'',
                                       JObj [(''page'',
                                                prop_of (prop_of data ''pagination'') ''pageNumber''),
                                             (''totalPages'',
                                                prop_of (prop_of data ''pagination'') ''totalPages''),
                                             (''totalElements'',
                                                prop_of (prop_of data ''pagination'')
                                                  ''totalElements'')])]
                                else [])))
                          @ note)]\<rparr>))
       \<and> (tool \<in> set unpaged_tools \<longrightarrow>
            (\<exists>cleaned note.
               reply = \<lparr>content = [TextContent (toon_encode env (JObj [(''data'', cleaned)]) @ note)]\<rparr>))"
proof -
  from assms obtain ep ps shape paged data cleaned where
    spec: "tool_spec_of env args tool = Some (None, ep, ps, shape, paged)"
    and reqs: "reqs = [fst (makeRequest env ep ps)]"
    and data: "http_get env (fst (makeRequest env ep ps)) = Inr data"
    and reply: "reply = formatResponse env cleaned
                   \<lparr>saveDir = field args ''save_dir'', toolName = tool,
                    pagination = (if paged then prop_of data ''pagination'' else JUndefined)\<rparr>"
    by (rule reply_of_call)
  from spec have paged: "paged = (tool \<in> set paged_tools)" "(\<not> paged) = (tool \<in> set unpaged_tools)"
    using spec_paged by blast+
  show ?thesis
  proof (intro conjI impI)
    assume "tool \<in> set paged_tools"
    with paged have "paged" by simp
    with reply have "reply =
       \<lparr>content =
          [TextContent
             (toon_encode env (response_output cleaned (prop_of data ''pagination''))
              @ (if truthy (field args ''save_dir'') \<and> tool \<noteq> []
                    \<and> saveData env (response_output cleaned (prop_of data ''pagination''))
                          (field args ''save_dir'') tool \<noteq> []
                 then saved_note
                        (saveData env (response_output cleaned (prop_of data ''pagination''))
                           (field args ''save_dir'') tool)
                 else []))]\<rparr>"
      by (simp add: formatResponse_text)
    with reqs data show "\<exists>rq data cleaned note.
               reqs = [rq] \<and> http_get env rq = Inr data
               \<and> reply =
                   \<lparr>content =
                      [TextContent
                         (toon_encode env
                            (JObj ((''data'', cleaned) #
                               (if truthy (prop_of data ''pagination'')
                                then [(''pagination'',
                                       JObj [(''page'',
                                                prop_of (prop_of data ''pagination'') ''pageNumber''),
                                             (''totalPages'',
                                                prop_of (prop_of data ''pagination'') ''totalPages''),
                                             (''totalElements'',
                                                prop_of (prop_of data ''pagination'')
                                                  ''totalElements'')])]
                                else [])))
                          @ note)]\<rparr>"
      unfolding response_output_def pagination_summary_def by blast
  next
    assume "tool \<in> set unpaged_tools"
    with paged have "\<not> paged" by simp
    with reply have "reply =
       \<lparr>content =
          [TextContent
             (toon_encode env (response_output cleaned JUndefined)
              @ (if truthy (field args ''save_dir'') \<and> tool \<noteq> []
                    \<and> saveData env (response_output cleaned JUndefined)
                          (field args ''save_dir'') tool \<noteq> []
                 then saved_note
                        (saveData env (response_output cleaned JUndefined)
                           (field args ''save_dir'') tool)
                 else []))]\<rparr>"
      by (simp add: formatResponse_text)
    then show "\<exists>cleaned note.
               reply = \<lparr>content = [TextContent (toon_encode env (JObj [(''data'', cleaned)]) @ note)]\<rparr>"
      unfolding response_output_def by (simp del: CallToolResult.ext_inject) blast
  qed
qed

theorem pagination_summary_of_reply_witness:
  "call_tool sample_env ''search_groups'' (Some [(''search'', JStr ''ai''), (''max_items'', JNum 2)]) =
     ([\<lparr>req_endpoint = ''/group-search'', req_headers = [(''X-API-Key'', ''key'')],
        req_params = [(''search'', JStr ''ai'')]\<rparr>],
      Inr \<lparr>content =
             [TextContent
                ''{data:[{id:1},{id:2}],pagination:{page:1,totalPages:3,totalElements:25}}'']\<rparr>)
   \<and> ''search_groups'' \<in> set paged_tools"
proof -
  have c: "call_tool sample_env ''search_groups'' (Some [(''search'', JStr ''ai''), (''max_items'', JNum 2)]) =
     ([\<lparr>req_endpoint = ''/group-search'', req_headers = [(''X-API-Key'', ''key'')],
        req_params = [(''search'', JStr ''ai'')]\<rparr>],
      Inr \<lparr>content =
             [TextContent
                ''{data:[{id:1},{id:2}],pagination:{page:1,totalPages:3,totalElements:25}}'']\<rparr>)"
    by code_simp
  have p: "''search_groups'' \<in> set paged_tools"
    by (simp add: paged_tools_def)
  from pagination_summary_of_reply [OF c] show ?thesis
    by (simp only: c p simp_thms)
qed

text \<open>
  The sample remote answers \<open>/geo-id-search\<close> with two elements and a pagination block;
  the reply of \<open>search_geo_id\<close> has no pagination summary.
\<close>

theorem pagination_summary_of_reply_counterexample:
  "sample_get \<lparr>req_endpoint = ''/geo-id-search'', req_headers = [(''X-API-Key'', ''key'')],
               req_params = [(''search'', JStr ''Paris'')]\<rparr> =
     Inr (JObj [(''elements'', JArr [sample_hit 1, sample_hit 2]),
                (''pagination'', sample_pagination)])
   \<and> call_tool sample_env ''search_geo_id'' (Some [(''search'', JStr ''Paris'')]) =
     ([\<lparr>req_endpoint = ''/geo-id-search'', req_headers = [(''X-API-Key'', ''key'')],
        req_params = [(''search'', JStr ''Paris'')]\<rparr>],
      Inr \<lparr>content = [TextContent ''{data:[{geoId:1,title:<t>},{geoId:2,title:<t>}]}'']\<rparr>)"
  by code_simp

section \<open>A maximum of zero\<close>

lemma tool_spec_zero_max:
  assumes "field args ''max_items'' = JNum 0"
  shows "tool_spec_of env (without_arg ''max_items'' args) name = tool_spec_of env args name"
proof -
  define b where "b = without_arg ''max_items'' args"
  have f: "\<And>k. k \<noteq> ''max_items'' \<Longrightarrow> field b k = field args k"
    by (simp add: b_def field_without_arg)
  have m: "\<And>d. js_or (field b ''max_items'') d = js_or (field args ''max_items'') d"
    using assms by (simp add: b_def field_without_arg js_or_def)
  have ca: "\<And>ks ps. ''max_items'' \<notin> set ks \<Longrightarrow> copy_args b ks ps = copy_args args ks ps"
    by (rule copy_args_cong) (metis f)
  have c1: "\<And>k ps. k \<noteq> ''max_items'' \<Longrightarrow> copy_arg b k ps = copy_arg args k ps"
    by (simp add: copy_arg_def f)
  have sl: "\<And>cleaner. shape_listing env b cleaner = shape_listing env args cleaner"
    by (simp add: shape_listing_def [abs_def] m)
  have sp: "shape_profile env b = shape_profile env args"
    by (simp add: shape_profile_def [abs_def] m)
  have "tool_spec_of env b name = tool_spec_of env args name"
    apply (cases name rule: tool_name_cases)
    prefer 18
     apply (simp add: tool_spec_unknown)
    apply (simp add: tool_spec_of_def Let_def ca c1 sl sp f
        del: copy_args_Cons copy_args_Nil)+
    done
  then show ?thesis
    by (simp add: b_def)
qed

lemma call_tool_zero_max:
  assumes "field args ''max_items'' = JNum 0"
  shows "call_tool env name (Some (without_arg ''max_items'' args)) =
           call_tool env name (Some args)"
proof -
  have s: "field (without_arg ''max_items'' args) ''save_dir'' = field args ''save_dir''"
    by (simp add: field_without_arg)
  have fin: "\<And>paged shape. finish env (without_arg ''max_items'' args) name paged shape =
                                finish env args name paged shape"
    by (simp add: finish_def [abs_def] s)
  have "\<And>spec. run_tool env (without_arg ''max_items'' args) name spec =
                  run_tool env args name spec"
    by (simp add: run_tool_def fin split: prod.splits option.splits)
  with tool_spec_zero_max [OF assms, of env name] show ?thesis
    by (simp add: call_tool_via_spec via_spec_def split: option.splits)
qed

text \<open>
  C10. A call whose \<open>max_items\<close> is 0 has the outcome of the same call without
  \<open>max_items\<close>: the default bound applies. A collection operation then returns the first
  10 of the raw elements (all of them when there are fewer), and \<open>get_profile\<close> the first
  5 entries of each of its bounded lists; the bounded list is empty only when the raw
  list is.
\<close>

theorem zero_max_items_is_default:
  assumes "field args ''max_items'' = JNum 0"
  shows "call_tool env name (Some args) =
           call_tool env name (Some (without_arg ''max_items'' args))
       \<and> (\<forall>tool cleaner rq data xs ys.
            (tool, cleaner) \<in> set (listing_tools env)
            \<and> fst (call_tool env tool (Some args)) = [rq] \<and> http_get env rq = Inr data
            \<and> prop_of data ''elements'' = JArr xs
            \<and> map_e cleaner (take 10 xs) = Inr ys \<longrightarrow>
            snd (call_tool env tool (Some args)) =
              Inr (formatResponse env (JArr ys)
                     \<lparr>saveDir = field args ''save_dir'', toolName = tool,
                      pagination = (if tool \<in> set paged_tools then prop_of data ''pagination''
                                    else JUndefined)\<rparr>)
            \<and> length ys = min (length xs) 10)
       \<and> (\<forall>k f rq reply data es.
            (k, f) \<in> set profile_lists
            \<and> call_tool env ''get_profile'' (Some args) = ([rq], Inr reply)
            \<and> http_get env rq = Inr data
            \<and> prop_of (prop_of data ''element'') k = JArr es \<longrightarrow>
            (\<exists>shaped ys.
               reply = formatResponse env shaped
                         \<lparr>saveDir = field args ''save_dir'', toolName = ''get_profile'',
                          pagination = JUndefined\<rparr>
               \<and> prop_of shaped k = JArr ys
               \<and> length ys = min (length es) 5))"
proof -
  have same: "call_tool env name (Some args) =
                call_tool env name (Some (without_arg ''max_items'' args))"
    using call_tool_zero_max [OF assms, of env name] by simp
  have d10: "js_or (field args ''max_items'') (JNum 10) = JNum 10"
    using assms by (simp add: js_or_def)
  have d5: "js_or (field args ''max_items'') (JNum 5) = JNum 5"
    using assms by (simp add: js_or_def)
  have z10: "(0::int) \<le> 10" and z5: "(0::int) \<le> 5"
    by simp_all
  have listing: "\<forall>tool cleaner rq data xs ys.
            (tool, cleaner) \<in> set (listing_tools env)
            \<and> fst (call_tool env tool (Some args)) = [rq] \<and> http_get env rq = Inr data
            \<and> prop_of data ''elements'' = JArr xs
            \<and> map_e cleaner (take 10 xs) = Inr ys \<longrightarrow>
            snd (call_tool env tool (Some args)) =
              Inr (formatResponse env (JArr ys)
                     \<lparr>saveDir = field args ''save_dir'', toolName = tool,
                      pagination = (if tool \<in> set paged_tools then prop_of data ''pagination''
                                    else JUndefined)\<rparr>)
            \<and> length ys = min (length xs) 10"
  proof (intro allI impI)
    fix tool cleaner rq data xs ys
    assume h: "(tool, cleaner) \<in> set (listing_tools env)
            \<and> fst (call_tool env tool (Some args)) = [rq] \<and> http_get env rq = Inr data
            \<and> prop_of data ''elements'' = JArr xs
            \<and> map_e cleaner (take 10 xs) = Inr ys"
    then have m: "map_e cleaner (take (nat 10) xs) = Inr ys"
      by simp
    have "snd (call_tool env tool (Some args)) =
           Inr (formatResponse env (JArr ys)
                  \<lparr>saveDir = field args ''save_dir'', toolName = tool,
                   pagination = (if tool \<in> set paged_tools then prop_of data ''pagination''
                                 else JUndefined)\<rparr>)
         \<and> length ys = min (length xs) (nat 10)
         \<and> (\<forall>i < length ys. cleaner (xs ! i) = Inr (ys ! i))"
      using h m d10 z10 listing_bound [of tool cleaner env args 10 rq data xs ys] by blast
    then show "snd (call_tool env tool (Some args)) =
           Inr (formatResponse env (JArr ys)
                  \<lparr>saveDir = field args ''save_dir'', toolName = tool,
                   pagination = (if tool \<in> set paged_tools then prop_of data ''pagination''
                                 else JUndefined)\<rparr>)
         \<and> length ys = min (length xs) 10"
      by simp
  qed
  have profile: "\<forall>k f rq reply data es.
            (k, f) \<in> set profile_lists
            \<and> call_tool env ''get_profile'' (Some args) = ([rq], Inr reply)
            \<and> http_get env rq = Inr data
            \<and> prop_of (prop_of data ''element'') k = JArr es \<longrightarrow>
            (\<exists>shaped ys.
               reply = formatResponse env shaped
                         \<lparr>saveDir = field args ''save_dir'', toolName = ''get_profile'',
                          pagination = JUndefined\<rparr>
               \<and> prop_of shaped k = JArr ys
               \<and> length ys = min (length es) 5)"
  proof (intro allI impI)
    fix k f rq reply data es
    assume h: "(k, f) \<in> set profile_lists
            \<and> call_tool env ''get_profile'' (Some args) = ([rq], Inr reply)
            \<and> http_get env rq = Inr data
            \<and> prop_of (prop_of data ''element'') k = JArr es"
    have "\<exists>shaped ys.
               reply = formatResponse env shaped
                         \<lparr>saveDir = field args ''save_dir'', toolName = ''get_profile'',
                          pagination = JUndefined\<rparr>
               \<and> prop_of shaped k = JArr ys
               \<and> length ys = min (length es) (nat 5)
               \<and> (\<forall>i < length ys. f (es ! i) = Inr (ys ! i))"
      using h d5 z5 profile_bound [of k f args 5 env rq reply data es] by blast
    then obtain shaped ys where
      "reply = formatResponse env shaped
                 \<lparr>saveDir = field args ''save_dir'', toolName = ''get_profile'',
                  pagination = JUndefined\<rparr>"
      and "prop_of shaped k = JArr ys" and "length ys = min (length es) (nat 5)"
      by blast
    then show "\<exists>shaped ys.
               reply = formatResponse env shaped
                         \<lparr>saveDir = field args ''save_dir'', toolName = ''get_profile'',
                          pagination = JUndefined\<rparr>
               \<and> prop_of shaped k = JArr ys
               \<and> length ys = min (length es) 5"
      by auto
  qed
  from same listing profile show ?thesis
    by blast
qed

theorem zero_max_items_is_default_witness:
  "field [(''search'', JStr ''ai''), (''max_items'', JNum 0)] ''max_items'' = JNum 0
   \<and> call_tool sample_env ''search_groups'' (Some [(''search'', JStr ''ai''), (''max_items'', JNum 0)]) =
       call_tool sample_env ''search_groups'' (Some [(''search'', JStr ''ai'')])
   \<and> (''search_groups'', total cleanGroup) \<in> set (listing_tools sample_env)
   \<and> fst (call_tool sample_env ''search_groups'' (Some [(''search'', JStr ''ai''), (''max_items'', JNum 0)])) =
       [\<lparr>req_endpoint = ''/group-search'', req_headers = [(''X-API-Key'', ''key'')],
          req_params = [(''search'', JStr ''ai'')]\<rparr>]
   \<and> http_get sample_env
         \<lparr>req_endpoint = ''/group-search'', req_headers = [(''X-API-Key'', ''key'')],
          req_params = [(''search'', JStr ''ai'')]\<rparr> =
       Inr (JObj [(''elements'', JArr (map sample_hit [1, 2, 3, 4, 5, 6, 7, 8, 9, 10, 11, 12])),
                  (''pagination'', sample_pagination), (''element'', sample_hit 1)])
   \<and> prop_of (JObj [(''elements'', JArr (map sample_hit [1, 2, 3, 4, 5, 6, 7, 8, 9, 10, 11, 12])),
                  (''pagination'', sample_pagination), (''element'', sample_hit 1)]) ''elements'' =
       JArr (map sample_hit [1, 2, 3, 4, 5, 6, 7, 8, 9, 10, 11, 12])
   \<and> map_e (total cleanGroup) (take 10 (map sample_hit [1, 2, 3, 4, 5, 6, 7, 8, 9, 10, 11, 12])) =
       Inr (map cleanGroup (map sample_hit [1, 2, 3, 4, 5, 6, 7, 8, 9, 10]))
   \<and> snd (call_tool sample_env ''search_groups'' (Some [(''search'', JStr ''ai''), (''max_items'', JNum 0)])) =
       Inr \<lparr>content = [TextContent ''{data:[{id:1},{id:2},{id:3},{id:4},{id:5},{id:6},{id:7},{id:8},{id:9},{id:10}],pagination:{page:1,totalPages:3,totalElements:25}}'']\<rparr>
   \<and> length (map cleanGroup (map sample_hit [1, 2, 3, 4, 5, 6, 7, 8, 9, 10])) =
       min (length (map sample_hit [1, 2, 3, 4, 5, 6, 7, 8, 9, 10, 11, 12])) 10
   \<and> field [(''publicIdentifier'', JStr ''satyanadella''), (''max_items'', JNum 0)] ''max_items'' = JNum 0
   \<and> (''experience'', clean_experience) \<in> set profile_lists
   \<and> call_tool sample_env ''get_profile'' (Some [(''publicIdentifier'', JStr ''satyanadella''), (''max_items'', JNum 0)]) =
       ([\<lparr>req_endpoint = ''/profile'', req_headers = [(''X-API-Key'', ''key'')],
          req_params = [(''publicIdentifier'', JStr ''satyanadella'')]\<rparr>],
        Inr \<lparr>content = [TextContent ''{data:{id:<p1>,name:<Satya Nadella>,experience:[{position:1,company:<Microsoft>},{position:2,company:<Microsoft>},{position:3,company:<Microsoft>},{position:4,company:<Microsoft>},{position:5,company:<Microsoft>}],education:[],skills:[],certifications:[]}}'']\<rparr>)
   \<and> http_get sample_env
         \<lparr>req_endpoint = ''/profile'', req_headers = [(''X-API-Key'', ''key'')],
          req_params = [(''publicIdentifier'', JStr ''satyanadella'')]\<rparr> =
       Inr (JObj [(''element'', sample_profile), (''status'', JStr ''ok'')])
   \<and> prop_of (prop_of (JObj [(''element'', sample_profile), (''status'', JStr ''ok'')]) ''element'') ''experience'' =
       JArr (map sample_experience [1, 2, 3, 4, 5, 6, 7])
   \<and> (\<exists>shaped ys.
        \<lparr>content = [TextContent ''{data:{id:<p1>,name:<Satya Nadella>,experience:[{position:1,company:<Microsoft>},{position:2,company:<Microsoft>},{position:3,company:<Microsoft>},{position:4,company:<Microsoft>},{position:5,company:<Microsoft>}],education:[],skills:[],certifications:[]}}'']\<rparr> =
          formatResponse sample_env shaped
            \<lparr>saveDir = field [(''publicIdentifier'', JStr ''satyanadella''), (''max_items'', JNum 0)] ''save_dir'', toolName = ''get_profile'',
             pagination = JUndefined\<rparr>
        \<and> prop_of shaped ''experience'' = JArr ys
        \<and> length ys = min (length (map sample_experience [1, 2, 3, 4, 5, 6, 7])) 5)"
proof -
  have a: "field [(''search'', JStr ''ai''), (''max_items'', JNum 0)] ''max_items'' = JNum 0"
    by simp
  have e: "call_tool sample_env ''search_groups'' (Some [(''search'', JStr ''ai''), (''max_items'', JNum 0)]) =
       call_tool sample_env ''search_groups'' (Some [(''search'', JStr ''ai'')])"
    using zero_max_items_is_default [OF a, THEN conjunct1, of sample_env "''search_groups''"]
    by (simp add: without_arg_def)
  have h1: "(''search_groups'', total cleanGroup) \<in> set (listing_tools sample_env)"
    by (simp add: listing_tools_def)
  have h2: "fst (call_tool sample_env ''search_groups'' (Some [(''search'', JStr ''ai''), (''max_items'', JNum 0)])) =
       [\<lparr>req_endpoint = ''/group-search'', req_headers = [(''X-API-Key'', ''key'')],
          req_params = [(''search'', JStr ''ai'')]\<rparr>]"
    by code_simp
  have h3: "http_get sample_env
         \<lparr>req_endpoint = ''/group-search'', req_headers = [(''X-API-Key'', ''key'')],
          req_params = [(''search'', JStr ''ai'')]\<rparr> =
       Inr (JObj [(''elements'', JArr (map sample_hit [1, 2, 3, 4, 5, 6, 7, 8, 9, 10, 11, 12])),
                  (''pagination'', sample_pagination), (''element'', sample_hit 1)])"
    by (simp add: sample_env_def sample_get_def)
  have h4: "prop_of (JObj [(''elements'', JArr (map sample_hit [1, 2, 3, 4, 5, 6, 7, 8, 9, 10, 11, 12])),
                  (''pagination'', sample_pagination), (''element'', sample_hit 1)]) ''elements'' =
       JArr (map sample_hit [1, 2, 3, 4, 5, 6, 7, 8, 9, 10, 11, 12])"
    by simp
  have h5: "map_e (total cleanGroup) (take 10 (map sample_hit [1, 2, 3, 4, 5, 6, 7, 8, 9, 10, 11, 12])) =
       Inr (map cleanGroup (map sample_hit [1, 2, 3, 4, 5, 6, 7, 8, 9, 10]))"
    by (simp add: total_def)
  have r: "snd (call_tool sample_env ''search_groups'' (Some [(''search'', JStr ''ai''), (''max_items'', JNum 0)])) =
       Inr \<lparr>content = [TextContent ''{data:[{id:1},{id:2},{id:3},{id:4},{id:5},{id:6},{id:7},{id:8},{id:9},{id:10}],pagination:{page:1,totalPages:3,totalElements:25}}'']\<rparr>"
    by code_simp
  have l: "length (map cleanGroup (map sample_hit [1, 2, 3, 4, 5, 6, 7, 8, 9, 10])) =
       min (length (map sample_hit [1, 2, 3, 4, 5, 6, 7, 8, 9, 10, 11, 12])) 10"
    using zero_max_items_is_default [OF a, THEN conjunct2, THEN conjunct1, rule_format,
      OF conjI [OF h1 conjI [OF h2 conjI [OF h3 conjI [OF h4 h5]]]]]
    by (rule conjunct2)
  have b: "field [(''publicIdentifier'', JStr ''satyanadella''), (''max_items'', JNum 0)] ''max_items'' = JNum 0"
    by simp
  have p1: "(''experience'', clean_experience) \<in> set profile_lists"
    by (simp add: profile_lists_def)
  have p2: "call_tool sample_env ''get_profile'' (Some [(''publicIdentifier'', JStr ''satyanadella''), (''max_items'', JNum 0)]) =
       ([\<lparr>req_endpoint = ''/profile'', req_headers = [(''X-API-Key'', ''key'')],
          req_params = [(''publicIdentifier'', JStr ''satyanadella'')]\<rparr>],
        Inr \<lparr>content = [TextContent ''{data:{id:<p1>,name:<Satya Nadella>,experience:[{position:1,company:<Microsoft>},{position:2,company:<Microsoft>},{position:3,company:<Microsoft>},{position:4,company:<Microsoft>},{position:5,company:<Microsoft>}],education:[],skills:[],certifications:[]}}'']\<rparr>)"
    by code_simp
  have p3: "http_get sample_env
         \<lparr>req_endpoint = ''/profile'', req_headers = [(''X-API-Key'', ''key'')],
          req_params = [(''publicIdentifier'', JStr ''satyanadella'')]\<rparr> =
       Inr (JObj [(''element'', sample_profile), (''status'', JStr ''ok'')])"
    by (simp add: sample_env_def sample_get_def)
  have p4: "prop_of (prop_of (JObj [(''element'', sample_profile), (''status'', JStr ''ok'')]) ''element'') ''experience'' =
       JArr (map sample_experience [1, 2, 3, 4, 5, 6, 7])"
    by (simp add: sample_profile_def)
  have q: "(\<exists>shaped ys.
        \<lparr>content = [TextContent ''{data:{id:<p1>,name:<Satya Nadella>,experience:[{position:1,company:<Microsoft>},{position:2,company:<Microsoft>},{position:3,company:<Microsoft>},{position:4,company:<Microsoft>},{position:5,company:<Microsoft>}],education:[],skills:[],certifications:[]}}'']\<rparr> =
          formatResponse sample_env shaped
            \<lparr>saveDir = field [(''publicIdentifier'', JStr ''satyanadella''), (''max_items'', JNum 0)] ''save_dir'', toolName = ''get_profile'',
             pagination = JUndefined\<rparr>
        \<and> prop_of shaped ''experience'' = JArr ys
        \<and> length ys = min (length (map sample_experience [1, 2, 3, 4, 5, 6, 7])) 5)"
    using zero_max_items_is_default [OF b, THEN conjunct2, THEN conjunct2, rule_format,
      OF conjI [OF p1 conjI [OF p2 conjI [OF p3 p4]]]]
    by blast
  show ?thesis
    by (rule conjI [OF a conjI [OF e conjI [OF h1 conjI [OF h2 conjI [OF h3 conjI [OF h4 conjI [OF h5 conjI [OF r conjI [OF l conjI [OF b conjI [OF p1 conjI [OF p2 conjI [OF p3 conjI [OF p4 q]]]]]]]]]]]]]])
qed

end
